theory Spec2Isabelle
  imports Complex_Main "HOL-Library.Sublist"
begin

section \<open>Strings\<close>

text \<open>\<open>Array.prototype.join\<close>.\<close>

fun join :: "'a list \<Rightarrow> 'a list list \<Rightarrow> 'a list" where
  "join sep [] = []"
| "join sep [x] = x"
| "join sep (x # y # ys) = x @ sep @ join sep (y # ys)"

section \<open>Browser resource (getBrowser / closeBrowser)\<close>

text \<open>
  The module variable \<open>browser\<close> holds a handle to a browser engine or \<open>null\<close>.
  Engines are identified by the order in which they were launched; an engine is either
  connected or not, and it never reconnects. \<open>chromium.launch\<close> either resolves with a
  fresh connected engine or rejects.

  Both functions are \<open>async\<close> and each has one \<open>await\<close>. A call runs up to its
  \<open>await\<close>, is suspended there, and goes on when the awaited promise has settled; other
  calls can run in between. The state therefore also records the suspended calls: how
  many calls of \<open>getBrowser\<close> wait for \<open>chromium.launch\<close>, and for each call of
  \<open>closeBrowser\<close> that waits for \<open>browser.close()\<close> the engine it closes.
\<close>

datatype engine = Connected | Disconnected

record world =
  engines :: "engine list"
  browser :: "nat option"
  launching :: nat
  closing :: "nat list"

definition isConnected :: "world \<Rightarrow> nat \<Rightarrow> bool" where
  "isConnected w b = (b < length (engines w) \<and> engines w ! b = Connected)"

definition held_connected :: "world \<Rightarrow> bool" where
  "held_connected w = (case browser w of None \<Rightarrow> False | Some b \<Rightarrow> isConnected w b)"

text \<open>
  \<^verbatim>\<open>if (!browser || !browser.isConnected()) { browser = await chromium.launch(...) }
  return browser;\<close>
  \<open>getBrowser_enter\<close> is the call up to the \<open>await\<close>: it returns the held engine
  (\<open>Some b\<close>), or it starts a launch and is suspended (\<open>None\<close>). \<open>getBrowser_resume\<close> is
  the rest of a suspended call, run when the launch has settled; its first argument says
  whether the launch resolved. The handle is assigned only then.
\<close>

definition getBrowser_enter :: "world \<Rightarrow> nat option \<times> world" where
  "getBrowser_enter w =
     (if \<not> held_connected w then (None, w\<lparr>launching := Suc (launching w)\<rparr>)
      else (browser w, w))"

definition getBrowser_resume :: "bool \<Rightarrow> world \<Rightarrow> (string + nat) \<times> world" where
  "getBrowser_resume launch_ok w =
     (if launch_ok
      then (Inr (length (engines w)),
            w\<lparr>engines := engines w @ [Connected], browser := Some (length (engines w)),
              launching := launching w - 1\<rparr>)
      else (Inl ''browserType.launch failed'', w\<lparr>launching := launching w - 1\<rparr>))"

text \<open>
  \<^verbatim>\<open>if (browser) { await browser.close(); browser = null; }\<close>
  \<open>closeBrowser_enter\<close> is the call up to the \<open>await\<close>: with no engine held it
  returns, otherwise it asks the held engine to close and is suspended.
  \<open>closeBrowser_resume\<close> is the rest of the call that closes engine \<open>b\<close>; its first
  argument says whether \<open>close\<close> resolved. When it did, the engine is disconnected and
  the handle is reset, whatever it holds by then; when it rejected the call ends there.
\<close>

definition closeBrowser_enter :: "world \<Rightarrow> world" where
  "closeBrowser_enter w =
     (case browser w of
        None \<Rightarrow> w
      | Some b \<Rightarrow> w\<lparr>closing := b # closing w\<rparr>)"

definition closeBrowser_resume :: "bool \<Rightarrow> nat \<Rightarrow> world \<Rightarrow> world" where
  "closeBrowser_resume close_ok b w =
     (if close_ok
      then w\<lparr>engines := (engines w)[b := Disconnected], browser := None,
             closing := remove1 b (closing w)\<rparr>
      else w\<lparr>closing := remove1 b (closing w)\<rparr>)"



definition live :: "world \<Rightarrow> nat set" where
  "live w = {i. i < length (engines w) \<and> engines w ! i = Connected}"

definition initial :: world where
  "initial = \<lparr>engines = [], browser = None, launching = 0, closing = []\<rparr>"

text \<open>
  The states the service can be in. It starts with no engine. At any time a new call can
  be entered, a suspended call whose promise has settled goes on, and an engine may lose
  its connection.
\<close>

inductive reachable :: "world \<Rightarrow> bool" where
  start: "reachable initial"
| enter_get: "reachable w \<Longrightarrow> reachable (snd (getBrowser_enter w))"
| resume_get: "reachable w \<Longrightarrow> 0 < launching w \<Longrightarrow> reachable (snd (getBrowser_resume ok w))"
| enter_close: "reachable w \<Longrightarrow> reachable (closeBrowser_enter w)"
| resume_close:
    "reachable w \<Longrightarrow> b \<in> set (closing w) \<Longrightarrow> reachable (closeBrowser_resume ok b w)"
| crash: "reachable w \<Longrightarrow> reachable (w\<lparr>engines := (engines w)[i := Disconnected]\<rparr>)"

text \<open>
  The states reached when calls do not overlap: a call is entered only when no call is
  suspended.
\<close>

definition settled :: "world \<Rightarrow> bool" where
  "settled w = (launching w = 0 \<and> closing w = [])"

inductive sequential :: "world \<Rightarrow> bool" where
  start: "sequential initial"
| enter_get: "sequential w \<Longrightarrow> settled w \<Longrightarrow> sequential (snd (getBrowser_enter w))"
| resume_get: "sequential w \<Longrightarrow> 0 < launching w \<Longrightarrow> sequential (snd (getBrowser_resume ok w))"
| enter_close: "sequential w \<Longrightarrow> settled w \<Longrightarrow> sequential (closeBrowser_enter w)"
| resume_close:
    "sequential w \<Longrightarrow> b \<in> set (closing w) \<Longrightarrow> sequential (closeBrowser_resume ok b w)"
| crash: "sequential w \<Longrightarrow> sequential (w\<lparr>engines := (engines w)[i := Disconnected]\<rparr>)"




lemma sequential_reachable: "sequential w \<Longrightarrow> reachable w"
  by (induction rule: sequential.induct) (auto intro: reachable.intros)


lemma live_launching [simp]: "live (w\<lparr>launching := n\<rparr>) = live w"
  by (simp add: live_def)

lemma live_closing [simp]: "live (w\<lparr>closing := cs\<rparr>) = live w"
  by (simp add: live_def)

lemma live_browser [simp]: "live (w\<lparr>browser := b\<rparr>) = live w"
  by (simp add: live_def)


















section \<open>Coverage details tool (get_coverage_details)\<close>

text \<open>
  Strings are byte strings; the two characters of the source outside ASCII are kept as
  their UTF-8 bytes: the dash U+2014 and the bullet U+2022.
\<close>

definition em_dash :: string where
  "em_dash = [CHR 0xE2, CHR 0x80, CHR 0x94]"

definition bullet :: string where
  "bullet = [CHR 0xE2, CHR 0x80, CHR 0xA2]"

definition newline :: string where
  "newline = [CHR 0x0A]"

record coverage_info =
  title :: string
  details :: "string list"

text \<open>The object literal \<open>coverageData\<close>, as the list of its keys and values.\<close>

definition coverageData :: "(string \<times> coverage_info) list" where
  "coverageData =
     [(''standard_inclusions'',
       \<lparr>title = ''Standard Coverage Inclusions'',
        details =
          [''Accident damage '' @ em_dash @ '' cover for damage to your car caused by a collision or accident, whether you're at fault or not'',
           ''Fire and theft '' @ em_dash @ '' protection if your car is stolen or damaged by fire'',
           ''Storm, flood and hail damage '' @ em_dash @ '' cover for weather-related damage including storms, floods and hail'',
           ''Windscreen and window glass '' @ em_dash @ '' repair or replacement of damaged windscreens and windows with no excess for repairs'',
           ''Malicious damage and vandalism '' @ em_dash @ '' cover if your car is intentionally damaged by someone else'',
           ''Personal items '' @ em_dash @ '' up to $1,000 cover for personal belongings stolen from or damaged in your car'',
           ''Emergency accommodation and transport '' @ em_dash @ '' up to $1,500 for accommodation and transport if your car is undriveable more than 100km from home'',
           ''New car replacement '' @ em_dash @ '' if your car is less than 2 years old and is written off or stolen, we'll replace it with a new one of the same make and model'',
           ''Lifetime repair guarantee '' @ em_dash @ '' repairs carried out by RACV approved repairers are guaranteed for the life of your ownership'',
           ''Towing '' @ em_dash @ '' reasonable costs to tow your car to the nearest repairer or safe location after an insured incident'',
           ''Third party property damage '' @ em_dash @ '' cover for damage you cause to other people's property with your car, up to $20 million'',
           ''24/7 claims support '' @ em_dash @ '' lodge and manage your claim anytime via phone or online'']\<rparr>),
      (''optional_extras'',
       \<lparr>title = ''Optional Extras (available at additional cost)'',
        details =
          [''Hire car after an incident '' @ em_dash @ '' a hire car for up to 30 days while your car is being repaired or if it's stolen'',
           ''Hire car after not-at-fault incident '' @ em_dash @ '' a hire car when the incident wasn't your fault, no additional cost'',
           ''Roadside assistance '' @ em_dash @ '' RACV's roadside assistance bundle included with your policy'',
           ''Agreed value '' @ em_dash @ '' lock in the payout amount for your car at the start of the policy, rather than market value at claim time'',
           ''Reduced excess for named drivers '' @ em_dash @ '' lower your excess by nominating experienced drivers'',
           ''Trailer and caravan cover '' @ em_dash @ '' extend your cover to include damage to a trailer or caravan while attached to your car'',
           ''Tools of trade '' @ em_dash @ '' increased cover (up to $5,000) for tools and equipment carried in your vehicle for work'']\<rparr>),
      (''exclusions'',
       \<lparr>title = ''Key Exclusions'',
        details =
          [''Mechanical or electrical failure or breakdown (not caused by an insured incident)'',
           ''Wear and tear, rust, corrosion, or gradual deterioration'',
           ''Damage from using the car for ride-share, hire, or racing/speed testing'',
           ''Intentional damage caused by you or someone acting with your consent'',
           ''Driving under the influence of alcohol or drugs'',
           ''Driving without a valid licence for the class of vehicle'',
           ''Pre-existing damage not disclosed at the time of purchase'',
           ''Damage caused while the car is being used for an unlawful purpose'',
           ''Tyre damage from road punctures, cuts, or bursts (unless part of a larger insured incident)'',
           ''Diminution in value '' @ em_dash @ '' any reduction in your car's market value after repair'',
           ''Refer to the full PDS at racv.com.au/pds for all exclusions and conditions'']\<rparr>),
      (''excess_options'',
       \<lparr>title = ''Excess Options'',
        details =
          [''Standard excess ($650) '' @ em_dash @ '' the default excess amount applicable to most claims'',
           ''Voluntary excess ($800) '' @ em_dash @ '' choose a slightly higher excess to reduce your premium by approximately 3%'',
           ''Higher voluntary excess ($1,000) '' @ em_dash @ '' reduce your premium by approximately 7% with a $1,000 excess'',
           ''Maximum voluntary excess ($1,500) '' @ em_dash @ '' the highest savings on your premium, approximately 12% reduction'',
           ''Age excess '' @ em_dash @ '' an additional excess of $400-$900 applies for drivers under 25 years of age'',
           ''Inexperienced driver excess '' @ em_dash @ '' an additional $400 excess applies if the driver has held their licence for less than 2 years'',
           ''Note: excesses are cumulative '' @ em_dash @ '' e.g. a young inexperienced driver may pay standard + age + inexperienced driver excess'']\<rparr>),
      (''claims_process'',
       \<lparr>title = ''How to Make a Claim'',
        details =
          [''1. Report the incident '' @ em_dash @ '' call RACV on 13 19 03 (24/7) or lodge online at racv.com.au/claims'',
           ''2. Provide details '' @ em_dash @ '' you'll need your policy number, details of the incident, photos if possible, and a police report number (if applicable)'',
           ''3. Assessment '' @ em_dash @ '' RACV will assess your claim and may arrange an assessor to inspect the damage'',
           ''4. Repair '' @ em_dash @ '' choose an RACV approved repairer for lifetime repair guarantee, or nominate your own repairer'',
           ''5. Excess payment '' @ em_dash @ '' pay your applicable excess directly to the repairer when collecting your vehicle'',
           ''6. Settlement '' @ em_dash @ '' if your car is a total loss, RACV will pay the agreed or market value minus your excess'',
           ''Average claim processing time: 1-3 business days for straightforward claims'',
           ''Urgent assistance: RACV can arrange towing and emergency support immediately after an incident'']\<rparr>)]"

text \<open>The five values the input schema's \<open>z.enum\<close> admits for \<open>coverage_area\<close>.\<close>

datatype coverage_area =
  Standard_inclusions | Optional_extras | Exclusions | Excess_options | Claims_process

fun area_key :: "coverage_area \<Rightarrow> string" where
  "area_key Standard_inclusions = ''standard_inclusions''"
| "area_key Optional_extras = ''optional_extras''"
| "area_key Exclusions = ''exclusions''"
| "area_key Excess_options = ''excess_options''"
| "area_key Claims_process = ''claims_process''"

record coverage_details =
  area :: string
  cd_title :: string
  cd_details :: "string list"

record coverage_result =
  text_content :: string
  structuredContent :: "coverage_details option"

definition coverage_lines :: "coverage_info \<Rightarrow> string list" where
  "coverage_lines info =
     [''RACV Comprehensive Motor Insurance '' @ em_dash @ '' '' @ title info, []]
     @ map (\<lambda>d. bullet @ '' '' @ d) (details info)
     @ [[],
        ''For full details, refer to the Product Disclosure Statement (PDS) at racv.com.au/pds'',
        ''This information is general in nature and does not constitute personal financial advice.'']"

text \<open>
  The handler of the tool. \<open>coverageData[params.coverage_area]\<close> is the lookup of the
  key among the object's own properties; a key that is absent takes the first branch.
\<close>

definition get_coverage_details :: "string \<Rightarrow> coverage_result" where
  "get_coverage_details coverage_area =
     (case map_of coverageData coverage_area of
        None \<Rightarrow>
          \<lparr>text_content = ''Coverage area not found. Available areas: standard_inclusions, optional_extras, exclusions, excess_options, claims_process'',
           structuredContent = None\<rparr>
      | Some info \<Rightarrow>
          \<lparr>text_content = join newline (coverage_lines info),
           structuredContent =
             Some \<lparr>area = coverage_area, cd_title = title info, cd_details = details info\<rparr>\<rparr>)"

lemma sublist_join: "x \<in> set xs \<Longrightarrow> sublist x (join sep xs)"
proof (induction sep xs rule: join.induct)
  case (1 sep)
  then show ?case by simp
next
  case (2 sep y)
  then show ?case by simp
next
  case (3 sep y z zs)
  show ?case
  proof (cases "x = y")
    case True
    then show ?thesis by (simp add: sublist_append_rightI)
  next
    case False
    with 3 have "sublist x (join sep (z # zs))" by simp
    moreover have "sublist (join sep (z # zs)) ((y @ sep) @ join sep (z # zs))"
      by (rule sublist_append_leftI)
    ultimately have "sublist x ((y @ sep) @ join sep (z # zs))"
      by (rule sublist_order.order_trans)
    then show ?thesis by simp
  qed
qed

lemma sublist_after: "sublist d (a @ b @ d)"
proof -
  have "sublist d ((a @ b) @ d)" by (rule sublist_append_leftI)
  then show ?thesis by simp
qed

lemma coverageData_area:
  "\<exists>info. map_of coverageData (area_key a) = Some info \<and> details info \<noteq> []"
  by (cases a) (simp_all add: coverageData_def)

text \<open>
  Claim C10. For each of the five areas the schema admits, the lookup succeeds, so the
  "Coverage area not found" branch is not taken; the details list of the area is not
  empty; the structured content carries the area, its title and its details; and the
  text is the joined lines, in which the title and every detail occur.
\<close>

theorem coverage_details_every_area:
  "\<exists>info. map_of coverageData (area_key a) = Some info
     \<and> details info \<noteq> []
     \<and> structuredContent (get_coverage_details (area_key a))
         = Some \<lparr>area = area_key a, cd_title = title info, cd_details = details info\<rparr>
     \<and> text_content (get_coverage_details (area_key a)) = join newline (coverage_lines info)
     \<and> sublist (title info) (text_content (get_coverage_details (area_key a)))
     \<and> (\<forall>d \<in> set (details info).
           sublist d (text_content (get_coverage_details (area_key a))))"
proof -
  from coverageData_area obtain info
    where info: "map_of coverageData (area_key a) = Some info" and ne: "details info \<noteq> []"
    by blast
  let ?r = "get_coverage_details (area_key a)"
  let ?head = "''RACV Comprehensive Motor Insurance '' @ em_dash @ '' '' @ title info"
  have sc: "structuredContent ?r
              = Some \<lparr>area = area_key a, cd_title = title info, cd_details = details info\<rparr>"
    using info by (simp add: get_coverage_details_def)
  have tx: "text_content ?r = join newline (coverage_lines info)"
    using info by (simp add: get_coverage_details_def)
  have "sublist (title info) ?head"
    using sublist_after [of "title info" "''RACV Comprehensive Motor Insurance '' @ em_dash" "'' ''"]
    by simp
  moreover have "sublist ?head (join newline (coverage_lines info))"
    by (rule sublist_join) (simp add: coverage_lines_def)
  ultimately have ti: "sublist (title info) (text_content ?r)"
    unfolding tx by (rule sublist_order.order_trans)
  have de: "sublist d (text_content ?r)" if "d \<in> set (details info)" for d
  proof -
    have "sublist d (bullet @ '' '' @ d)" by (rule sublist_after)
    moreover have "sublist (bullet @ '' '' @ d) (join newline (coverage_lines info))"
      using that by (intro sublist_join) (simp add: coverage_lines_def)
    ultimately show ?thesis unfolding tx by (rule sublist_order.order_trans)
  qed
  from info ne sc tx ti de show ?thesis by blast
qed

theorem coverage_details_every_area_witness:
  "map_of coverageData (area_key Excess_options) \<noteq> None
   \<and> sublist ''Excess Options'' (text_content (get_coverage_details ''excess_options''))
   \<and> sublist (''Standard excess ($650) '' @ em_dash
                 @ '' the default excess amount applicable to most claims'')
        (text_content (get_coverage_details ''excess_options''))"
  using coverage_details_every_area [of Excess_options]
  by (auto simp: coverageData_def)

section \<open>Numbers\<close>

text \<open>
  A JavaScript number as it occurs here: \<open>NaN\<close> or a finite value. Finite doubles are
  rational numbers, so values are kept exactly; the rounding a double operation applies
  to its exact result is the parameter \<open>rnd\<close> of each arithmetic operation (the identity
  gives exact arithmetic). Infinities do not arise from the amounts a page shows.
\<close>

datatype jsnum = NaN | Fin rat

fun truthy :: "jsnum \<Rightarrow> bool" where
  "truthy NaN = False"
| "truthy (Fin x) = (x \<noteq> 0)"

text \<open>A value that may be \<open>undefined\<close>, tested as a condition.\<close>

fun truthy_opt :: "jsnum option \<Rightarrow> bool" where
  "truthy_opt None = False"
| "truthy_opt (Some n) = truthy n"

fun jmul :: "(rat \<Rightarrow> rat) \<Rightarrow> jsnum \<Rightarrow> jsnum \<Rightarrow> jsnum" where
  "jmul rnd (Fin x) (Fin y) = Fin (rnd (x * y))"
| "jmul rnd _ _ = NaN"

fun jadd :: "(rat \<Rightarrow> rat) \<Rightarrow> jsnum \<Rightarrow> jsnum \<Rightarrow> jsnum" where
  "jadd rnd (Fin x) (Fin y) = Fin (rnd (x + y))"
| "jadd rnd _ _ = NaN"

fun jsub :: "(rat \<Rightarrow> rat) \<Rightarrow> jsnum \<Rightarrow> jsnum \<Rightarrow> jsnum" where
  "jsub rnd (Fin x) (Fin y) = Fin (rnd (x - y))"
| "jsub rnd _ _ = NaN"

text \<open>Division by the constant 12, the only division of the code.\<close>

fun jdiv12 :: "(rat \<Rightarrow> rat) \<Rightarrow> jsnum \<Rightarrow> jsnum" where
  "jdiv12 rnd (Fin x) = Fin (rnd (x / 12))"
| "jdiv12 rnd NaN = NaN"

text \<open>\<open>Math.round\<close>: the nearest integer, a tie going up.\<close>

fun Math_round :: "jsnum \<Rightarrow> jsnum" where
  "Math_round (Fin x) = Fin (of_int \<lfloor>x + 1 / 2\<rfloor>)"
| "Math_round NaN = NaN"

text \<open>A decimal literal of the source, read as the nearest double.\<close>

definition lit :: "(rat \<Rightarrow> rat) \<Rightarrow> rat \<Rightarrow> jsnum" where
  "lit rnd x = Fin (rnd x)"

section \<open>The quote tool (get_motor_quote)\<close>

record price_range =
  range_min :: jsnum
  range_max :: jsnum

record ExcessOption =
  amount :: jsnum
  label :: string
  annual_premium :: jsnum
  monthly_premium :: jsnum

text \<open>The field \<open>vehicle\<close> of a quote: \<open>{make, model, year, category, estimated_value}\<close>.\<close>

record vehicle_summary =
  v_make :: string
  v_model :: string
  v_year :: jsnum
  v_category :: string
  v_estimated_value :: jsnum

record QuoteResult =
  quote_id :: string
  premium_range_annual :: price_range
  premium_range_monthly :: price_range
  excess_options :: "ExcessOption list"
  coverage_summary :: "string list"
  member_discount_available :: bool
  member_discount_pct :: jsnum
  valid_until :: string
  vehicle :: vehicle_summary
  risk_zone :: string
  disclaimers :: "string list"

text \<open>The result of the manual-mode scraper the tool calls.\<close>

record RacvScraperResult =
  success :: bool
  source :: string
  annual_premium :: "jsnum option"
  monthly_premium :: "jsnum option"
  excess_standard :: "jsnum option"
  screenshot_path :: "string option"
  error :: "string option"
  raw_text :: "string option"

text \<open>The awaited call \<open>scrapeRacvQuote(quoteInput)\<close> resolves with a result or rejects.\<close>

datatype scrape_outcome = Rejects string | Resolves RacvScraperResult

text \<open>\<open>const spread = 0.05\<close> and \<open>const discounts = [0, 0.03, 0.07, 0.12]\<close>.\<close>

definition spread :: "(rat \<Rightarrow> rat) \<Rightarrow> jsnum" where
  "spread rnd = lit rnd (5 / 100)"

definition discounts :: "(rat \<Rightarrow> rat) \<Rightarrow> jsnum list" where
  "discounts rnd = [Fin 0, lit rnd (3 / 100), lit rnd (7 / 100), lit rnd (12 / 100)]"

text \<open>\<open>discounts[i]\<close>; past the end it is \<open>undefined\<close>, which arithmetic turns into \<open>NaN\<close>.\<close>

definition discount_at :: "(rat \<Rightarrow> rat) \<Rightarrow> nat \<Rightarrow> jsnum" where
  "discount_at rnd i = (if i < length (discounts rnd) then discounts rnd ! i else NaN)"

text \<open>
  \<^verbatim>\<open>quote.excess_options.map((opt, i) => { const discounted = Math.round(realAnnual *
  (1 - discounts[i])); return {...opt, annual_premium: discounted, monthly_premium:
  Math.round((discounted / 12) * 1.05)}; })\<close>
\<close>

definition reprice :: "(rat \<Rightarrow> rat) \<Rightarrow> jsnum \<Rightarrow> nat \<Rightarrow> ExcessOption \<Rightarrow> ExcessOption" where
  "reprice rnd realAnnual i opt =
     (let discounted = Math_round (jmul rnd realAnnual (jsub rnd (Fin 1) (discount_at rnd i)))
      in opt\<lparr>ExcessOption.annual_premium := discounted,
             ExcessOption.monthly_premium :=
               Math_round (jmul rnd (jdiv12 rnd discounted) (lit rnd (105 / 100)))\<rparr>)"

text \<open>\<open>scraped.monthly_premium || Math.round((realAnnual / 12) * 1.05)\<close>\<close>

definition realMonthly :: "(rat \<Rightarrow> rat) \<Rightarrow> jsnum \<Rightarrow> jsnum option \<Rightarrow> jsnum" where
  "realMonthly rnd realAnnual monthly =
     (case monthly of
        Some m \<Rightarrow>
          if truthy m then m
          else Math_round (jmul rnd (jdiv12 rnd realAnnual) (lit rnd (105 / 100)))
      | None \<Rightarrow> Math_round (jmul rnd (jdiv12 rnd realAnnual) (lit rnd (105 / 100))))"

definition spread_range :: "(rat \<Rightarrow> rat) \<Rightarrow> jsnum \<Rightarrow> price_range" where
  "spread_range rnd v =
     \<lparr>range_min = Math_round (jmul rnd v (jsub rnd (Fin 1) (spread rnd))),
      range_max = Math_round (jmul rnd v (jadd rnd (Fin 1) (spread rnd)))\<rparr>"

text \<open>The body of \<open>if (scraped.success && scraped.annual_premium) { ... }\<close>.\<close>

definition override_with_live :: "(rat \<Rightarrow> rat) \<Rightarrow> jsnum \<Rightarrow> jsnum option \<Rightarrow> QuoteResult \<Rightarrow> QuoteResult" where
  "override_with_live rnd realAnnual monthly quote =
     quote\<lparr>premium_range_annual := spread_range rnd realAnnual,
           premium_range_monthly := spread_range rnd (realMonthly rnd realAnnual monthly),
           excess_options :=
             map (\<lambda>(i, opt). reprice rnd realAnnual i opt)
                 (enumerate 0 (excess_options quote))\<rparr>"

text \<open>
  The handler, from the mock quote \<open>quote = calculateQuote(quoteInput)\<close> on: the flag
  \<open>USE_LIVE_SCRAPER\<close>, the outcome of the scrape (awaited only when the flag is set),
  and the mock quote; it gives the quote placed in \<open>structuredContent.data\<close> and the
  flag \<open>liveSource\<close>. The pricing tables \<open>calculateQuote\<close> reads are not part of the
  sources, so its result is taken as given.
\<close>

definition get_motor_quote :: "(rat \<Rightarrow> rat) \<Rightarrow> bool \<Rightarrow> scrape_outcome \<Rightarrow> QuoteResult \<Rightarrow> QuoteResult \<times> bool" where
  "get_motor_quote rnd USE_LIVE_SCRAPER scrape quote =
     (if USE_LIVE_SCRAPER then
        (case scrape of
           Rejects err \<Rightarrow> (quote, False)
         | Resolves scraped \<Rightarrow>
             (case annual_premium scraped of
                Some realAnnual \<Rightarrow>
                  if success scraped \<and> truthy realAnnual
                  then (override_with_live rnd realAnnual (monthly_premium scraped) quote, True)
                  else (quote, False)
              | None \<Rightarrow> (quote, False)))
      else (quote, False))"

text \<open>A mock quote and two scrape results, for the closed theorems below.\<close>

definition example_quote :: QuoteResult where
  "example_quote =
     \<lparr>quote_id = ''RACV-1A2B3C4D'',
      premium_range_annual = \<lparr>range_min = Fin 1080, range_max = Fin 1320\<rparr>,
      premium_range_monthly = \<lparr>range_min = Fin 95, range_max = Fin 116\<rparr>,
      excess_options =
        [\<lparr>amount = Fin 650, label = ''Standard'',
          ExcessOption.annual_premium = Fin 1200, ExcessOption.monthly_premium = Fin 105\<rparr>],
      coverage_summary = [],
      member_discount_available = True,
      member_discount_pct = Fin 10,
      valid_until = ''2026-12-02'',
      vehicle = \<lparr>v_make = ''Toyota'', v_model = ''Corolla'', v_year = Fin 2022,
                 v_category = ''midrange'', v_estimated_value = Fin 21000\<rparr>,
      risk_zone = ''medium'',
      disclaimers = []\<rparr>"

definition scraped_zero_annual :: RacvScraperResult where
  "scraped_zero_annual =
     \<lparr>success = True, source = ''racv_website'',
      annual_premium = Some (Fin 0), monthly_premium = Some (Fin 50),
      excess_standard = None, screenshot_path = Some ''/tmp/racv-result.png'',
      error = None, raw_text = None\<rparr>"

definition scraped_annual_only :: RacvScraperResult where
  "scraped_annual_only =
     \<lparr>success = True, source = ''racv_website'',
      annual_premium = Some (Fin 1000), monthly_premium = None,
      excess_standard = None, screenshot_path = Some ''/tmp/racv-result.png'',
      error = None, raw_text = None\<rparr>"

lemma get_motor_quote_unchanged:
  "\<not> enabled \<or> (\<exists>e. scrape = Rejects e)
     \<or> (\<exists>r. scrape = Resolves r \<and> (\<not> success r \<or> \<not> truthy_opt (annual_premium r)))
   \<Longrightarrow> get_motor_quote rnd enabled scrape quote = (quote, False)"
  by (auto simp: get_motor_quote_def split: option.splits)

lemma get_motor_quote_live:
  assumes "success r" and "annual_premium r = Some a" and "truthy a"
  shows "get_motor_quote rnd True (Resolves r) quote
           = (override_with_live rnd a (monthly_premium r) quote, True)"
  using assms by (simp add: get_motor_quote_def)

text \<open>
  Claim C9 as stated fails where the scrape succeeds with an annual premium that is set
  but zero (the manual-mode scraper returns this for a page reading "$0 per year" next to
  a monthly amount): the annual premium is set, yet the quote stays the mock quote, whose
  annual range is not the range computed from the scraped value.
\<close>

theorem get_motor_quote_set_zero_counterexample:
  "success scraped_zero_annual
   \<and> annual_premium scraped_zero_annual = Some (Fin 0)
   \<and> fst (get_motor_quote id True (Resolves scraped_zero_annual) example_quote) = example_quote
   \<and> premium_range_annual example_quote \<noteq> spread_range id (Fin 0)"
  by (simp add: get_motor_quote_def scraped_zero_annual_def example_quote_def
        spread_range_def spread_def lit_def)

text \<open>
  Claim C9, amended. The quote is the mock quote unchanged when the live scraper is
  disabled, or the scrape rejects, or it returns \<open>success = false\<close>, or its annual
  premium is unset, zero or \<open>NaN\<close>. Otherwise, with scraped annual premium \<open>a\<close>, the
  annual range is \<open>round(a * (1 - 0.05))\<close> to \<open>round(a * (1 + 0.05))\<close>, and the monthly
  range is computed the same way from the scraped monthly premium, or from
  \<open>round((a / 12) * 1.05)\<close> when the scrape supplied no monthly premium or a zero one.
\<close>

theorem get_motor_quote_fallback:
  "((\<not> enabled \<or> (\<exists>e. scrape = Rejects e)
       \<or> (\<exists>r. scrape = Resolves r \<and> (\<not> success r \<or> \<not> truthy_opt (annual_premium r))))
      \<longrightarrow> get_motor_quote rnd enabled scrape quote = (quote, False))
   \<and> (enabled \<and> scrape = Resolves r \<and> success r \<and> annual_premium r = Some a \<and> truthy a
      \<longrightarrow> premium_range_annual (fst (get_motor_quote rnd enabled scrape quote))
            = \<lparr>range_min = Math_round (jmul rnd a (jsub rnd (Fin 1) (lit rnd (5 / 100)))),
               range_max = Math_round (jmul rnd a (jadd rnd (Fin 1) (lit rnd (5 / 100))))\<rparr>
        \<and> premium_range_monthly (fst (get_motor_quote rnd enabled scrape quote))
            = spread_range rnd
                (if truthy_opt (monthly_premium r) then the (monthly_premium r)
                 else Math_round (jmul rnd (jdiv12 rnd a) (lit rnd (105 / 100))))
        \<and> snd (get_motor_quote rnd enabled scrape quote))"
proof (intro conjI impI)
  assume "\<not> enabled \<or> (\<exists>e. scrape = Rejects e)
       \<or> (\<exists>r. scrape = Resolves r \<and> (\<not> success r \<or> \<not> truthy_opt (annual_premium r)))"
  then show "get_motor_quote rnd enabled scrape quote = (quote, False)"
    by (rule get_motor_quote_unchanged)
next
  assume h: "enabled \<and> scrape = Resolves r \<and> success r \<and> annual_premium r = Some a \<and> truthy a"
  then have eq: "get_motor_quote rnd enabled scrape quote
                   = (override_with_live rnd a (monthly_premium r) quote, True)"
    using get_motor_quote_live [of r a rnd quote] by simp
  show "premium_range_annual (fst (get_motor_quote rnd enabled scrape quote))
            = \<lparr>range_min = Math_round (jmul rnd a (jsub rnd (Fin 1) (lit rnd (5 / 100)))),
               range_max = Math_round (jmul rnd a (jadd rnd (Fin 1) (lit rnd (5 / 100))))\<rparr>"
    by (simp add: eq override_with_live_def spread_range_def spread_def)
  show "premium_range_monthly (fst (get_motor_quote rnd enabled scrape quote))
            = spread_range rnd
                (if truthy_opt (monthly_premium r) then the (monthly_premium r)
                 else Math_round (jmul rnd (jdiv12 rnd a) (lit rnd (105 / 100))))"
    by (cases "monthly_premium r") (simp_all add: eq override_with_live_def realMonthly_def)
  show "snd (get_motor_quote rnd enabled scrape quote)"
    by (simp add: eq)
qed

theorem get_motor_quote_fallback_witness:
  "get_motor_quote id False (Resolves scraped_annual_only) example_quote = (example_quote, False)
   \<and> get_motor_quote id True (Rejects ''Timeout 20000ms exceeded'') example_quote
       = (example_quote, False)
   \<and> premium_range_annual (fst (get_motor_quote id True (Resolves scraped_annual_only) example_quote))
       = \<lparr>range_min = Fin 950, range_max = Fin 1050\<rparr>
   \<and> premium_range_monthly (fst (get_motor_quote id True (Resolves scraped_annual_only) example_quote))
       = \<lparr>range_min = Fin 84, range_max = Fin 92\<rparr>"
proof -
  have a: "get_motor_quote id False (Resolves scraped_annual_only) example_quote
             = (example_quote, False)"
    using get_motor_quote_fallback
            [of False "Resolves scraped_annual_only" id example_quote scraped_annual_only "Fin 1000"]
    by simp
  have b: "get_motor_quote id True (Rejects ''Timeout 20000ms exceeded'') example_quote
             = (example_quote, False)"
    using get_motor_quote_fallback
            [of True "Rejects ''Timeout 20000ms exceeded''" id example_quote
                scraped_annual_only "Fin 1000"]
    by simp
  have c: "premium_range_annual
             (fst (get_motor_quote id True (Resolves scraped_annual_only) example_quote))
           = \<lparr>range_min = Fin 950, range_max = Fin 1050\<rparr>
         \<and> premium_range_monthly
             (fst (get_motor_quote id True (Resolves scraped_annual_only) example_quote))
           = \<lparr>range_min = Fin 84, range_max = Fin 92\<rparr>"
    using get_motor_quote_fallback
            [of True "Resolves scraped_annual_only" id example_quote scraped_annual_only "Fin 1000"]
    by (simp add: scraped_annual_only_def lit_def spread_range_def spread_def floor_eq_iff)
  from a b c show ?thesis by simp
qed

section \<open>The strings of the scraper\<close>

text \<open>
  The scraper reads text from the page and tests it character by character. A string is
  here what it is in JavaScript: the list of its UTF-16 code units, numbers from 0 to
  65535 (a character outside the basic plane is a pair of surrogate units). \<open>str\<close> gives
  the units of a literal of the source, whose characters are all ASCII.
\<close>

type_synonym jstring = "int list"

definition str :: "string \<Rightarrow> jstring" where
  "str s = map of_char s"

text \<open>The classes \<open>\d\<close> and \<open>[A-Z]\<close>.\<close>

definition is_digit :: "int \<Rightarrow> bool" where
  "is_digit c = (0x30 \<le> c \<and> c \<le> 0x39)"

definition is_upper :: "int \<Rightarrow> bool" where
  "is_upper c = (0x41 \<le> c \<and> c \<le> 0x5A)"

text \<open>
  The line terminators, which \<open>.\<close> does not match, and the white space of the language
  (tab, vertical tab, form feed, the byte order mark, the space separators of Unicode,
  and the line terminators), which \<open>\s\<close> matches and \<open>trim\<close> removes.
\<close>

definition is_line_terminator :: "int \<Rightarrow> bool" where
  "is_line_terminator c = (c \<in> set [0x0A, 0x0D, 0x2028, 0x2029])"

definition is_space :: "int \<Rightarrow> bool" where
  "is_space c =
     (c \<in> set [0x09, 0x0A, 0x0B, 0x0C, 0x0D, 0x20, 0xA0, 0x1680,
                0x2000, 0x2001, 0x2002, 0x2003, 0x2004, 0x2005, 0x2006, 0x2007, 0x2008,
                0x2009, 0x200A, 0x2028, 0x2029, 0x202F, 0x205F, 0x3000, 0xFEFF])"

text \<open>\<open>String.prototype.trim\<close>.\<close>

definition trim :: "jstring \<Rightarrow> jstring" where
  "trim s = rev (dropWhile is_space (rev (dropWhile is_space s)))"

text \<open>
  \<open>String.prototype.toUpperCase\<close> maps each character to its upper-case form of the
  Unicode character database, which can be several characters long. The tables list the
  characters above ASCII that have one other than themselves (version 14 of the
  database), in the order of their units and in parts of forty: \<open>upperCaseTable c\<close> is
  the part in which a unit \<open>c\<close> of the basic plane is listed if it is listed at all, and
  \<open>upperCasePairs c d\<close> the part for a character written as the surrogate pair \<open>c\<close>,
  \<open>d\<close>.
\<close>

definition upperCase01 :: "(int \<times> int list) list" where
  "upperCase01 =
     [
      (0xB5, [0x39C]), (0xDF, [0x53, 0x53]), (0xE0, [0xC0]), (0xE1, [0xC1]), (0xE2, [0xC2]),
      (0xE3, [0xC3]), (0xE4, [0xC4]), (0xE5, [0xC5]), (0xE6, [0xC6]), (0xE7, [0xC7]),
      (0xE8, [0xC8]), (0xE9, [0xC9]), (0xEA, [0xCA]), (0xEB, [0xCB]), (0xEC, [0xCC]),
      (0xED, [0xCD]), (0xEE, [0xCE]), (0xEF, [0xCF]), (0xF0, [0xD0]), (0xF1, [0xD1]),
      (0xF2, [0xD2]), (0xF3, [0xD3]), (0xF4, [0xD4]), (0xF5, [0xD5]), (0xF6, [0xD6]),
      (0xF8, [0xD8]), (0xF9, [0xD9]), (0xFA, [0xDA]), (0xFB, [0xDB]), (0xFC, [0xDC]),
      (0xFD, [0xDD]), (0xFE, [0xDE]), (0xFF, [0x178]), (0x101, [0x100]), (0x103, [0x102]),
      (0x105, [0x104]), (0x107, [0x106]), (0x109, [0x108]), (0x10B, [0x10A]), (0x10D, [0x10C])]"

definition upperCase02 :: "(int \<times> int list) list" where
  "upperCase02 =
     [
      (0x10F, [0x10E]), (0x111, [0x110]), (0x113, [0x112]), (0x115, [0x114]), (0x117, [0x116]),
      (0x119, [0x118]), (0x11B, [0x11A]), (0x11D, [0x11C]), (0x11F, [0x11E]), (0x121, [0x120]),
      (0x123, [0x122]), (0x125, [0x124]), (0x127, [0x126]), (0x129, [0x128]), (0x12B, [0x12A]),
      (0x12D, [0x12C]), (0x12F, [0x12E]), (0x131, [0x49]), (0x133, [0x132]), (0x135, [0x134]),
      (0x137, [0x136]), (0x13A, [0x139]), (0x13C, [0x13B]), (0x13E, [0x13D]), (0x140, [0x13F]),
      (0x142, [0x141]), (0x144, [0x143]), (0x146, [0x145]), (0x148, [0x147]), (0x149, [0x2BC, 0x4E]),
      (0x14B, [0x14A]), (0x14D, [0x14C]), (0x14F, [0x14E]), (0x151, [0x150]), (0x153, [0x152]),
      (0x155, [0x154]), (0x157, [0x156]), (0x159, [0x158]), (0x15B, [0x15A]), (0x15D, [0x15C])]"

definition upperCase03 :: "(int \<times> int list) list" where
  "upperCase03 =
     [
      (0x15F, [0x15E]), (0x161, [0x160]), (0x163, [0x162]), (0x165, [0x164]), (0x167, [0x166]),
      (0x169, [0x168]), (0x16B, [0x16A]), (0x16D, [0x16C]), (0x16F, [0x16E]), (0x171, [0x170]),
      (0x173, [0x172]), (0x175, [0x174]), (0x177, [0x176]), (0x17A, [0x179]), (0x17C, [0x17B]),
      (0x17E, [0x17D]), (0x17F, [0x53]), (0x180, [0x243]), (0x183, [0x182]), (0x185, [0x184]),
      (0x188, [0x187]), (0x18C, [0x18B]), (0x192, [0x191]), (0x195, [0x1F6]), (0x199, [0x198]),
      (0x19A, [0x23D]), (0x19E, [0x220]), (0x1A1, [0x1A0]), (0x1A3, [0x1A2]), (0x1A5, [0x1A4]),
      (0x1A8, [0x1A7]), (0x1AD, [0x1AC]), (0x1B0, [0x1AF]), (0x1B4, [0x1B3]), (0x1B6, [0x1B5]),
      (0x1B9, [0x1B8]), (0x1BD, [0x1BC]), (0x1BF, [0x1F7]), (0x1C5, [0x1C4]), (0x1C6, [0x1C4])]"

definition upperCase04 :: "(int \<times> int list) list" where
  "upperCase04 =
     [
      (0x1C8, [0x1C7]), (0x1C9, [0x1C7]), (0x1CB, [0x1CA]), (0x1CC, [0x1CA]), (0x1CE, [0x1CD]),
      (0x1D0, [0x1CF]), (0x1D2, [0x1D1]), (0x1D4, [0x1D3]), (0x1D6, [0x1D5]), (0x1D8, [0x1D7]),
      (0x1DA, [0x1D9]), (0x1DC, [0x1DB]), (0x1DD, [0x18E]), (0x1DF, [0x1DE]), (0x1E1, [0x1E0]),
      (0x1E3, [0x1E2]), (0x1E5, [0x1E4]), (0x1E7, [0x1E6]), (0x1E9, [0x1E8]), (0x1EB, [0x1EA]),
      (0x1ED, [0x1EC]), (0x1EF, [0x1EE]), (0x1F0, [0x4A, 0x30C]), (0x1F2, [0x1F1]), (0x1F3, [0x1F1]),
      (0x1F5, [0x1F4]), (0x1F9, [0x1F8]), (0x1FB, [0x1FA]), (0x1FD, [0x1FC]), (0x1FF, [0x1FE]),
      (0x201, [0x200]), (0x203, [0x202]), (0x205, [0x204]), (0x207, [0x206]), (0x209, [0x208]),
      (0x20B, [0x20A]), (0x20D, [0x20C]), (0x20F, [0x20E]), (0x211, [0x210]), (0x213, [0x212])]"

definition upperCase05 :: "(int \<times> int list) list" where
  "upperCase05 =
     [
      (0x215, [0x214]), (0x217, [0x216]), (0x219, [0x218]), (0x21B, [0x21A]), (0x21D, [0x21C]),
      (0x21F, [0x21E]), (0x223, [0x222]), (0x225, [0x224]), (0x227, [0x226]), (0x229, [0x228]),
      (0x22B, [0x22A]), (0x22D, [0x22C]), (0x22F, [0x22E]), (0x231, [0x230]), (0x233, [0x232]),
      (0x23C, [0x23B]), (0x23F, [0x2C7E]), (0x240, [0x2C7F]), (0x242, [0x241]), (0x247, [0x246]),
      (0x249, [0x248]), (0x24B, [0x24A]), (0x24D, [0x24C]), (0x24F, [0x24E]), (0x250, [0x2C6F]),
      (0x251, [0x2C6D]), (0x252, [0x2C70]), (0x253, [0x181]), (0x254, [0x186]), (0x256, [0x189]),
      (0x257, [0x18A]), (0x259, [0x18F]), (0x25B, [0x190]), (0x25C, [0xA7AB]), (0x260, [0x193]),
      (0x261, [0xA7AC]), (0x263, [0x194]), (0x265, [0xA78D]), (0x266, [0xA7AA]), (0x268, [0x197])]"

definition upperCase06 :: "(int \<times> int list) list" where
  "upperCase06 =
     [
      (0x269, [0x196]), (0x26A, [0xA7AE]), (0x26B, [0x2C62]), (0x26C, [0xA7AD]), (0x26F, [0x19C]),
      (0x271, [0x2C6E]), (0x272, [0x19D]), (0x275, [0x19F]), (0x27D, [0x2C64]), (0x280, [0x1A6]),
      (0x282, [0xA7C5]), (0x283, [0x1A9]), (0x287, [0xA7B1]), (0x288, [0x1AE]), (0x289, [0x244]),
      (0x28A, [0x1B1]), (0x28B, [0x1B2]), (0x28C, [0x245]), (0x292, [0x1B7]), (0x29D, [0xA7B2]),
      (0x29E, [0xA7B0]), (0x345, [0x399]), (0x371, [0x370]), (0x373, [0x372]), (0x377, [0x376]),
      (0x37B, [0x3FD]), (0x37C, [0x3FE]), (0x37D, [0x3FF]), (0x390, [0x399, 0x308, 0x301]), (0x3AC, [0x386]),
      (0x3AD, [0x388]), (0x3AE, [0x389]), (0x3AF, [0x38A]), (0x3B0, [0x3A5, 0x308, 0x301]), (0x3B1, [0x391]),
      (0x3B2, [0x392]), (0x3B3, [0x393]), (0x3B4, [0x394]), (0x3B5, [0x395]), (0x3B6, [0x396])]"

definition upperCase07 :: "(int \<times> int list) list" where
  "upperCase07 =
     [
      (0x3B7, [0x397]), (0x3B8, [0x398]), (0x3B9, [0x399]), (0x3BA, [0x39A]), (0x3BB, [0x39B]),
      (0x3BC, [0x39C]), (0x3BD, [0x39D]), (0x3BE, [0x39E]), (0x3BF, [0x39F]), (0x3C0, [0x3A0]),
      (0x3C1, [0x3A1]), (0x3C2, [0x3A3]), (0x3C3, [0x3A3]), (0x3C4, [0x3A4]), (0x3C5, [0x3A5]),
      (0x3C6, [0x3A6]), (0x3C7, [0x3A7]), (0x3C8, [0x3A8]), (0x3C9, [0x3A9]), (0x3CA, [0x3AA]),
      (0x3CB, [0x3AB]), (0x3CC, [0x38C]), (0x3CD, [0x38E]), (0x3CE, [0x38F]), (0x3D0, [0x392]),
      (0x3D1, [0x398]), (0x3D5, [0x3A6]), (0x3D6, [0x3A0]), (0x3D7, [0x3CF]), (0x3D9, [0x3D8]),
      (0x3DB, [0x3DA]), (0x3DD, [0x3DC]), (0x3DF, [0x3DE]), (0x3E1, [0x3E0]), (0x3E3, [0x3E2]),
      (0x3E5, [0x3E4]), (0x3E7, [0x3E6]), (0x3E9, [0x3E8]), (0x3EB, [0x3EA]), (0x3ED, [0x3EC])]"

definition upperCase08 :: "(int \<times> int list) list" where
  "upperCase08 =
     [
      (0x3EF, [0x3EE]), (0x3F0, [0x39A]), (0x3F1, [0x3A1]), (0x3F2, [0x3F9]), (0x3F3, [0x37F]),
      (0x3F5, [0x395]), (0x3F8, [0x3F7]), (0x3FB, [0x3FA]), (0x430, [0x410]), (0x431, [0x411]),
      (0x432, [0x412]), (0x433, [0x413]), (0x434, [0x414]), (0x435, [0x415]), (0x436, [0x416]),
      (0x437, [0x417]), (0x438, [0x418]), (0x439, [0x419]), (0x43A, [0x41A]), (0x43B, [0x41B]),
      (0x43C, [0x41C]), (0x43D, [0x41D]), (0x43E, [0x41E]), (0x43F, [0x41F]), (0x440, [0x420]),
      (0x441, [0x421]), (0x442, [0x422]), (0x443, [0x423]), (0x444, [0x424]), (0x445, [0x425]),
      (0x446, [0x426]), (0x447, [0x427]), (0x448, [0x428]), (0x449, [0x429]), (0x44A, [0x42A]),
      (0x44B, [0x42B]), (0x44C, [0x42C]), (0x44D, [0x42D]), (0x44E, [0x42E]), (0x44F, [0x42F])]"

definition upperCase09 :: "(int \<times> int list) list" where
  "upperCase09 =
     [
      (0x450, [0x400]), (0x451, [0x401]), (0x452, [0x402]), (0x453, [0x403]), (0x454, [0x404]),
      (0x455, [0x405]), (0x456, [0x406]), (0x457, [0x407]), (0x458, [0x408]), (0x459, [0x409]),
      (0x45A, [0x40A]), (0x45B, [0x40B]), (0x45C, [0x40C]), (0x45D, [0x40D]), (0x45E, [0x40E]),
      (0x45F, [0x40F]), (0x461, [0x460]), (0x463, [0x462]), (0x465, [0x464]), (0x467, [0x466]),
      (0x469, [0x468]), (0x46B, [0x46A]), (0x46D, [0x46C]), (0x46F, [0x46E]), (0x471, [0x470]),
      (0x473, [0x472]), (0x475, [0x474]), (0x477, [0x476]), (0x479, [0x478]), (0x47B, [0x47A]),
      (0x47D, [0x47C]), (0x47F, [0x47E]), (0x481, [0x480]), (0x48B, [0x48A]), (0x48D, [0x48C]),
      (0x48F, [0x48E]), (0x491, [0x490]), (0x493, [0x492]), (0x495, [0x494]), (0x497, [0x496])]"

definition upperCase10 :: "(int \<times> int list) list" where
  "upperCase10 =
     [
      (0x499, [0x498]), (0x49B, [0x49A]), (0x49D, [0x49C]), (0x49F, [0x49E]), (0x4A1, [0x4A0]),
      (0x4A3, [0x4A2]), (0x4A5, [0x4A4]), (0x4A7, [0x4A6]), (0x4A9, [0x4A8]), (0x4AB, [0x4AA]),
      (0x4AD, [0x4AC]), (0x4AF, [0x4AE]), (0x4B1, [0x4B0]), (0x4B3, [0x4B2]), (0x4B5, [0x4B4]),
      (0x4B7, [0x4B6]), (0x4B9, [0x4B8]), (0x4BB, [0x4BA]), (0x4BD, [0x4BC]), (0x4BF, [0x4BE]),
      (0x4C2, [0x4C1]), (0x4C4, [0x4C3]), (0x4C6, [0x4C5]), (0x4C8, [0x4C7]), (0x4CA, [0x4C9]),
      (0x4CC, [0x4CB]), (0x4CE, [0x4CD]), (0x4CF, [0x4C0]), (0x4D1, [0x4D0]), (0x4D3, [0x4D2]),
      (0x4D5, [0x4D4]), (0x4D7, [0x4D6]), (0x4D9, [0x4D8]), (0x4DB, [0x4DA]), (0x4DD, [0x4DC]),
      (0x4DF, [0x4DE]), (0x4E1, [0x4E0]), (0x4E3, [0x4E2]), (0x4E5, [0x4E4]), (0x4E7, [0x4E6])]"

definition upperCase11 :: "(int \<times> int list) list" where
  "upperCase11 =
     [
      (0x4E9, [0x4E8]), (0x4EB, [0x4EA]), (0x4ED, [0x4EC]), (0x4EF, [0x4EE]), (0x4F1, [0x4F0]),
      (0x4F3, [0x4F2]), (0x4F5, [0x4F4]), (0x4F7, [0x4F6]), (0x4F9, [0x4F8]), (0x4FB, [0x4FA]),
      (0x4FD, [0x4FC]), (0x4FF, [0x4FE]), (0x501, [0x500]), (0x503, [0x502]), (0x505, [0x504]),
      (0x507, [0x506]), (0x509, [0x508]), (0x50B, [0x50A]), (0x50D, [0x50C]), (0x50F, [0x50E]),
      (0x511, [0x510]), (0x513, [0x512]), (0x515, [0x514]), (0x517, [0x516]), (0x519, [0x518]),
      (0x51B, [0x51A]), (0x51D, [0x51C]), (0x51F, [0x51E]), (0x521, [0x520]), (0x523, [0x522]),
      (0x525, [0x524]), (0x527, [0x526]), (0x529, [0x528]), (0x52B, [0x52A]), (0x52D, [0x52C]),
      (0x52F, [0x52E]), (0x561, [0x531]), (0x562, [0x532]), (0x563, [0x533]), (0x564, [0x534])]"

definition upperCase12 :: "(int \<times> int list) list" where
  "upperCase12 =
     [
      (0x565, [0x535]), (0x566, [0x536]), (0x567, [0x537]), (0x568, [0x538]), (0x569, [0x539]),
      (0x56A, [0x53A]), (0x56B, [0x53B]), (0x56C, [0x53C]), (0x56D, [0x53D]), (0x56E, [0x53E]),
      (0x56F, [0x53F]), (0x570, [0x540]), (0x571, [0x541]), (0x572, [0x542]), (0x573, [0x543]),
      (0x574, [0x544]), (0x575, [0x545]), (0x576, [0x546]), (0x577, [0x547]), (0x578, [0x548]),
      (0x579, [0x549]), (0x57A, [0x54A]), (0x57B, [0x54B]), (0x57C, [0x54C]), (0x57D, [0x54D]),
      (0x57E, [0x54E]), (0x57F, [0x54F]), (0x580, [0x550]), (0x581, [0x551]), (0x582, [0x552]),
      (0x583, [0x553]), (0x584, [0x554]), (0x585, [0x555]), (0x586, [0x556]), (0x587, [0x535, 0x552]),
      (0x10D0, [0x1C90]), (0x10D1, [0x1C91]), (0x10D2, [0x1C92]), (0x10D3, [0x1C93]), (0x10D4, [0x1C94])]"

definition upperCase13 :: "(int \<times> int list) list" where
  "upperCase13 =
     [
      (0x10D5, [0x1C95]), (0x10D6, [0x1C96]), (0x10D7, [0x1C97]), (0x10D8, [0x1C98]), (0x10D9, [0x1C99]),
      (0x10DA, [0x1C9A]), (0x10DB, [0x1C9B]), (0x10DC, [0x1C9C]), (0x10DD, [0x1C9D]), (0x10DE, [0x1C9E]),
      (0x10DF, [0x1C9F]), (0x10E0, [0x1CA0]), (0x10E1, [0x1CA1]), (0x10E2, [0x1CA2]), (0x10E3, [0x1CA3]),
      (0x10E4, [0x1CA4]), (0x10E5, [0x1CA5]), (0x10E6, [0x1CA6]), (0x10E7, [0x1CA7]), (0x10E8, [0x1CA8]),
      (0x10E9, [0x1CA9]), (0x10EA, [0x1CAA]), (0x10EB, [0x1CAB]), (0x10EC, [0x1CAC]), (0x10ED, [0x1CAD]),
      (0x10EE, [0x1CAE]), (0x10EF, [0x1CAF]), (0x10F0, [0x1CB0]), (0x10F1, [0x1CB1]), (0x10F2, [0x1CB2]),
      (0x10F3, [0x1CB3]), (0x10F4, [0x1CB4]), (0x10F5, [0x1CB5]), (0x10F6, [0x1CB6]), (0x10F7, [0x1CB7]),
      (0x10F8, [0x1CB8]), (0x10F9, [0x1CB9]), (0x10FA, [0x1CBA]), (0x10FD, [0x1CBD]), (0x10FE, [0x1CBE])]"

definition upperCase14 :: "(int \<times> int list) list" where
  "upperCase14 =
     [
      (0x10FF, [0x1CBF]), (0x13F8, [0x13F0]), (0x13F9, [0x13F1]), (0x13FA, [0x13F2]), (0x13FB, [0x13F3]),
      (0x13FC, [0x13F4]), (0x13FD, [0x13F5]), (0x1C80, [0x412]), (0x1C81, [0x414]), (0x1C82, [0x41E]),
      (0x1C83, [0x421]), (0x1C84, [0x422]), (0x1C85, [0x422]), (0x1C86, [0x42A]), (0x1C87, [0x462]),
      (0x1C88, [0xA64A]), (0x1D79, [0xA77D]), (0x1D7D, [0x2C63]), (0x1D8E, [0xA7C6]), (0x1E01, [0x1E00]),
      (0x1E03, [0x1E02]), (0x1E05, [0x1E04]), (0x1E07, [0x1E06]), (0x1E09, [0x1E08]), (0x1E0B, [0x1E0A]),
      (0x1E0D, [0x1E0C]), (0x1E0F, [0x1E0E]), (0x1E11, [0x1E10]), (0x1E13, [0x1E12]), (0x1E15, [0x1E14]),
      (0x1E17, [0x1E16]), (0x1E19, [0x1E18]), (0x1E1B, [0x1E1A]), (0x1E1D, [0x1E1C]), (0x1E1F, [0x1E1E]),
      (0x1E21, [0x1E20]), (0x1E23, [0x1E22]), (0x1E25, [0x1E24]), (0x1E27, [0x1E26]), (0x1E29, [0x1E28])]"

definition upperCase15 :: "(int \<times> int list) list" where
  "upperCase15 =
     [
      (0x1E2B, [0x1E2A]), (0x1E2D, [0x1E2C]), (0x1E2F, [0x1E2E]), (0x1E31, [0x1E30]), (0x1E33, [0x1E32]),
      (0x1E35, [0x1E34]), (0x1E37, [0x1E36]), (0x1E39, [0x1E38]), (0x1E3B, [0x1E3A]), (0x1E3D, [0x1E3C]),
      (0x1E3F, [0x1E3E]), (0x1E41, [0x1E40]), (0x1E43, [0x1E42]), (0x1E45, [0x1E44]), (0x1E47, [0x1E46]),
      (0x1E49, [0x1E48]), (0x1E4B, [0x1E4A]), (0x1E4D, [0x1E4C]), (0x1E4F, [0x1E4E]), (0x1E51, [0x1E50]),
      (0x1E53, [0x1E52]), (0x1E55, [0x1E54]), (0x1E57, [0x1E56]), (0x1E59, [0x1E58]), (0x1E5B, [0x1E5A]),
      (0x1E5D, [0x1E5C]), (0x1E5F, [0x1E5E]), (0x1E61, [0x1E60]), (0x1E63, [0x1E62]), (0x1E65, [0x1E64]),
      (0x1E67, [0x1E66]), (0x1E69, [0x1E68]), (0x1E6B, [0x1E6A]), (0x1E6D, [0x1E6C]), (0x1E6F, [0x1E6E]),
      (0x1E71, [0x1E70]), (0x1E73, [0x1E72]), (0x1E75, [0x1E74]), (0x1E77, [0x1E76]), (0x1E79, [0x1E78])]"

definition upperCase16 :: "(int \<times> int list) list" where
  "upperCase16 =
     [
      (0x1E7B, [0x1E7A]), (0x1E7D, [0x1E7C]), (0x1E7F, [0x1E7E]), (0x1E81, [0x1E80]), (0x1E83, [0x1E82]),
      (0x1E85, [0x1E84]), (0x1E87, [0x1E86]), (0x1E89, [0x1E88]), (0x1E8B, [0x1E8A]), (0x1E8D, [0x1E8C]),
      (0x1E8F, [0x1E8E]), (0x1E91, [0x1E90]), (0x1E93, [0x1E92]), (0x1E95, [0x1E94]), (0x1E96, [0x48, 0x331]),
      (0x1E97, [0x54, 0x308]), (0x1E98, [0x57, 0x30A]), (0x1E99, [0x59, 0x30A]), (0x1E9A, [0x41, 0x2BE]), (0x1E9B, [0x1E60]),
      (0x1EA1, [0x1EA0]), (0x1EA3, [0x1EA2]), (0x1EA5, [0x1EA4]), (0x1EA7, [0x1EA6]), (0x1EA9, [0x1EA8]),
      (0x1EAB, [0x1EAA]), (0x1EAD, [0x1EAC]), (0x1EAF, [0x1EAE]), (0x1EB1, [0x1EB0]), (0x1EB3, [0x1EB2]),
      (0x1EB5, [0x1EB4]), (0x1EB7, [0x1EB6]), (0x1EB9, [0x1EB8]), (0x1EBB, [0x1EBA]), (0x1EBD, [0x1EBC]),
      (0x1EBF, [0x1EBE]), (0x1EC1, [0x1EC0]), (0x1EC3, [0x1EC2]), (0x1EC5, [0x1EC4]), (0x1EC7, [0x1EC6])]"

definition upperCase17 :: "(int \<times> int list) list" where
  "upperCase17 =
     [
      (0x1EC9, [0x1EC8]), (0x1ECB, [0x1ECA]), (0x1ECD, [0x1ECC]), (0x1ECF, [0x1ECE]), (0x1ED1, [0x1ED0]),
      (0x1ED3, [0x1ED2]), (0x1ED5, [0x1ED4]), (0x1ED7, [0x1ED6]), (0x1ED9, [0x1ED8]), (0x1EDB, [0x1EDA]),
      (0x1EDD, [0x1EDC]), (0x1EDF, [0x1EDE]), (0x1EE1, [0x1EE0]), (0x1EE3, [0x1EE2]), (0x1EE5, [0x1EE4]),
      (0x1EE7, [0x1EE6]), (0x1EE9, [0x1EE8]), (0x1EEB, [0x1EEA]), (0x1EED, [0x1EEC]), (0x1EEF, [0x1EEE]),
      (0x1EF1, [0x1EF0]), (0x1EF3, [0x1EF2]), (0x1EF5, [0x1EF4]), (0x1EF7, [0x1EF6]), (0x1EF9, [0x1EF8]),
      (0x1EFB, [0x1EFA]), (0x1EFD, [0x1EFC]), (0x1EFF, [0x1EFE]), (0x1F00, [0x1F08]), (0x1F01, [0x1F09]),
      (0x1F02, [0x1F0A]), (0x1F03, [0x1F0B]), (0x1F04, [0x1F0C]), (0x1F05, [0x1F0D]), (0x1F06, [0x1F0E]),
      (0x1F07, [0x1F0F]), (0x1F10, [0x1F18]), (0x1F11, [0x1F19]), (0x1F12, [0x1F1A]), (0x1F13, [0x1F1B])]"

definition upperCase18 :: "(int \<times> int list) list" where
  "upperCase18 =
     [
      (0x1F14, [0x1F1C]), (0x1F15, [0x1F1D]), (0x1F20, [0x1F28]), (0x1F21, [0x1F29]), (0x1F22, [0x1F2A]),
      (0x1F23, [0x1F2B]), (0x1F24, [0x1F2C]), (0x1F25, [0x1F2D]), (0x1F26, [0x1F2E]), (0x1F27, [0x1F2F]),
      (0x1F30, [0x1F38]), (0x1F31, [0x1F39]), (0x1F32, [0x1F3A]), (0x1F33, [0x1F3B]), (0x1F34, [0x1F3C]),
      (0x1F35, [0x1F3D]), (0x1F36, [0x1F3E]), (0x1F37, [0x1F3F]), (0x1F40, [0x1F48]), (0x1F41, [0x1F49]),
      (0x1F42, [0x1F4A]), (0x1F43, [0x1F4B]), (0x1F44, [0x1F4C]), (0x1F45, [0x1F4D]), (0x1F50, [0x3A5, 0x313]),
      (0x1F51, [0x1F59]), (0x1F52, [0x3A5, 0x313, 0x300]), (0x1F53, [0x1F5B]), (0x1F54, [0x3A5, 0x313, 0x301]), (0x1F55, [0x1F5D]),
      (0x1F56, [0x3A5, 0x313, 0x342]), (0x1F57, [0x1F5F]), (0x1F60, [0x1F68]), (0x1F61, [0x1F69]), (0x1F62, [0x1F6A]),
      (0x1F63, [0x1F6B]), (0x1F64, [0x1F6C]), (0x1F65, [0x1F6D]), (0x1F66, [0x1F6E]), (0x1F67, [0x1F6F])]"

definition upperCase19 :: "(int \<times> int list) list" where
  "upperCase19 =
     [
      (0x1F70, [0x1FBA]), (0x1F71, [0x1FBB]), (0x1F72, [0x1FC8]), (0x1F73, [0x1FC9]), (0x1F74, [0x1FCA]),
      (0x1F75, [0x1FCB]), (0x1F76, [0x1FDA]), (0x1F77, [0x1FDB]), (0x1F78, [0x1FF8]), (0x1F79, [0x1FF9]),
      (0x1F7A, [0x1FEA]), (0x1F7B, [0x1FEB]), (0x1F7C, [0x1FFA]), (0x1F7D, [0x1FFB]), (0x1F80, [0x1F08, 0x399]),
      (0x1F81, [0x1F09, 0x399]), (0x1F82, [0x1F0A, 0x399]), (0x1F83, [0x1F0B, 0x399]), (0x1F84, [0x1F0C, 0x399]), (0x1F85, [0x1F0D, 0x399]),
      (0x1F86, [0x1F0E, 0x399]), (0x1F87, [0x1F0F, 0x399]), (0x1F88, [0x1F08, 0x399]), (0x1F89, [0x1F09, 0x399]), (0x1F8A, [0x1F0A, 0x399]),
      (0x1F8B, [0x1F0B, 0x399]), (0x1F8C, [0x1F0C, 0x399]), (0x1F8D, [0x1F0D, 0x399]), (0x1F8E, [0x1F0E, 0x399]), (0x1F8F, [0x1F0F, 0x399]),
      (0x1F90, [0x1F28, 0x399]), (0x1F91, [0x1F29, 0x399]), (0x1F92, [0x1F2A, 0x399]), (0x1F93, [0x1F2B, 0x399]), (0x1F94, [0x1F2C, 0x399]),
      (0x1F95, [0x1F2D, 0x399]), (0x1F96, [0x1F2E, 0x399]), (0x1F97, [0x1F2F, 0x399]), (0x1F98, [0x1F28, 0x399]), (0x1F99, [0x1F29, 0x399])]"

definition upperCase20 :: "(int \<times> int list) list" where
  "upperCase20 =
     [
      (0x1F9A, [0x1F2A, 0x399]), (0x1F9B, [0x1F2B, 0x399]), (0x1F9C, [0x1F2C, 0x399]), (0x1F9D, [0x1F2D, 0x399]), (0x1F9E, [0x1F2E, 0x399]),
      (0x1F9F, [0x1F2F, 0x399]), (0x1FA0, [0x1F68, 0x399]), (0x1FA1, [0x1F69, 0x399]), (0x1FA2, [0x1F6A, 0x399]), (0x1FA3, [0x1F6B, 0x399]),
      (0x1FA4, [0x1F6C, 0x399]), (0x1FA5, [0x1F6D, 0x399]), (0x1FA6, [0x1F6E, 0x399]), (0x1FA7, [0x1F6F, 0x399]), (0x1FA8, [0x1F68, 0x399]),
      (0x1FA9, [0x1F69, 0x399]), (0x1FAA, [0x1F6A, 0x399]), (0x1FAB, [0x1F6B, 0x399]), (0x1FAC, [0x1F6C, 0x399]), (0x1FAD, [0x1F6D, 0x399]),
      (0x1FAE, [0x1F6E, 0x399]), (0x1FAF, [0x1F6F, 0x399]), (0x1FB0, [0x1FB8]), (0x1FB1, [0x1FB9]), (0x1FB2, [0x1FBA, 0x399]),
      (0x1FB3, [0x391, 0x399]), (0x1FB4, [0x386, 0x399]), (0x1FB6, [0x391, 0x342]), (0x1FB7, [0x391, 0x342, 0x399]), (0x1FBC, [0x391, 0x399]),
      (0x1FBE, [0x399]), (0x1FC2, [0x1FCA, 0x399]), (0x1FC3, [0x397, 0x399]), (0x1FC4, [0x389, 0x399]), (0x1FC6, [0x397, 0x342]),
      (0x1FC7, [0x397, 0x342, 0x399]), (0x1FCC, [0x397, 0x399]), (0x1FD0, [0x1FD8]), (0x1FD1, [0x1FD9]), (0x1FD2, [0x399, 0x308, 0x300])]"

definition upperCase21 :: "(int \<times> int list) list" where
  "upperCase21 =
     [
      (0x1FD3, [0x399, 0x308, 0x301]), (0x1FD6, [0x399, 0x342]), (0x1FD7, [0x399, 0x308, 0x342]), (0x1FE0, [0x1FE8]), (0x1FE1, [0x1FE9]),
      (0x1FE2, [0x3A5, 0x308, 0x300]), (0x1FE3, [0x3A5, 0x308, 0x301]), (0x1FE4, [0x3A1, 0x313]), (0x1FE5, [0x1FEC]), (0x1FE6, [0x3A5, 0x342]),
      (0x1FE7, [0x3A5, 0x308, 0x342]), (0x1FF2, [0x1FFA, 0x399]), (0x1FF3, [0x3A9, 0x399]), (0x1FF4, [0x38F, 0x399]), (0x1FF6, [0x3A9, 0x342]),
      (0x1FF7, [0x3A9, 0x342, 0x399]), (0x1FFC, [0x3A9, 0x399]), (0x214E, [0x2132]), (0x2170, [0x2160]), (0x2171, [0x2161]),
      (0x2172, [0x2162]), (0x2173, [0x2163]), (0x2174, [0x2164]), (0x2175, [0x2165]), (0x2176, [0x2166]),
      (0x2177, [0x2167]), (0x2178, [0x2168]), (0x2179, [0x2169]), (0x217A, [0x216A]), (0x217B, [0x216B]),
      (0x217C, [0x216C]), (0x217D, [0x216D]), (0x217E, [0x216E]), (0x217F, [0x216F]), (0x2184, [0x2183]),
      (0x24D0, [0x24B6]), (0x24D1, [0x24B7]), (0x24D2, [0x24B8]), (0x24D3, [0x24B9]), (0x24D4, [0x24BA])]"

definition upperCase22 :: "(int \<times> int list) list" where
  "upperCase22 =
     [
      (0x24D5, [0x24BB]), (0x24D6, [0x24BC]), (0x24D7, [0x24BD]), (0x24D8, [0x24BE]), (0x24D9, [0x24BF]),
      (0x24DA, [0x24C0]), (0x24DB, [0x24C1]), (0x24DC, [0x24C2]), (0x24DD, [0x24C3]), (0x24DE, [0x24C4]),
      (0x24DF, [0x24C5]), (0x24E0, [0x24C6]), (0x24E1, [0x24C7]), (0x24E2, [0x24C8]), (0x24E3, [0x24C9]),
      (0x24E4, [0x24CA]), (0x24E5, [0x24CB]), (0x24E6, [0x24CC]), (0x24E7, [0x24CD]), (0x24E8, [0x24CE]),
      (0x24E9, [0x24CF]), (0x2C30, [0x2C00]), (0x2C31, [0x2C01]), (0x2C32, [0x2C02]), (0x2C33, [0x2C03]),
      (0x2C34, [0x2C04]), (0x2C35, [0x2C05]), (0x2C36, [0x2C06]), (0x2C37, [0x2C07]), (0x2C38, [0x2C08]),
      (0x2C39, [0x2C09]), (0x2C3A, [0x2C0A]), (0x2C3B, [0x2C0B]), (0x2C3C, [0x2C0C]), (0x2C3D, [0x2C0D]),
      (0x2C3E, [0x2C0E]), (0x2C3F, [0x2C0F]), (0x2C40, [0x2C10]), (0x2C41, [0x2C11]), (0x2C42, [0x2C12])]"

definition upperCase23 :: "(int \<times> int list) list" where
  "upperCase23 =
     [
      (0x2C43, [0x2C13]), (0x2C44, [0x2C14]), (0x2C45, [0x2C15]), (0x2C46, [0x2C16]), (0x2C47, [0x2C17]),
      (0x2C48, [0x2C18]), (0x2C49, [0x2C19]), (0x2C4A, [0x2C1A]), (0x2C4B, [0x2C1B]), (0x2C4C, [0x2C1C]),
      (0x2C4D, [0x2C1D]), (0x2C4E, [0x2C1E]), (0x2C4F, [0x2C1F]), (0x2C50, [0x2C20]), (0x2C51, [0x2C21]),
      (0x2C52, [0x2C22]), (0x2C53, [0x2C23]), (0x2C54, [0x2C24]), (0x2C55, [0x2C25]), (0x2C56, [0x2C26]),
      (0x2C57, [0x2C27]), (0x2C58, [0x2C28]), (0x2C59, [0x2C29]), (0x2C5A, [0x2C2A]), (0x2C5B, [0x2C2B]),
      (0x2C5C, [0x2C2C]), (0x2C5D, [0x2C2D]), (0x2C5E, [0x2C2E]), (0x2C5F, [0x2C2F]), (0x2C61, [0x2C60]),
      (0x2C65, [0x23A]), (0x2C66, [0x23E]), (0x2C68, [0x2C67]), (0x2C6A, [0x2C69]), (0x2C6C, [0x2C6B]),
      (0x2C73, [0x2C72]), (0x2C76, [0x2C75]), (0x2C81, [0x2C80]), (0x2C83, [0x2C82]), (0x2C85, [0x2C84])]"

definition upperCase24 :: "(int \<times> int list) list" where
  "upperCase24 =
     [
      (0x2C87, [0x2C86]), (0x2C89, [0x2C88]), (0x2C8B, [0x2C8A]), (0x2C8D, [0x2C8C]), (0x2C8F, [0x2C8E]),
      (0x2C91, [0x2C90]), (0x2C93, [0x2C92]), (0x2C95, [0x2C94]), (0x2C97, [0x2C96]), (0x2C99, [0x2C98]),
      (0x2C9B, [0x2C9A]), (0x2C9D, [0x2C9C]), (0x2C9F, [0x2C9E]), (0x2CA1, [0x2CA0]), (0x2CA3, [0x2CA2]),
      (0x2CA5, [0x2CA4]), (0x2CA7, [0x2CA6]), (0x2CA9, [0x2CA8]), (0x2CAB, [0x2CAA]), (0x2CAD, [0x2CAC]),
      (0x2CAF, [0x2CAE]), (0x2CB1, [0x2CB0]), (0x2CB3, [0x2CB2]), (0x2CB5, [0x2CB4]), (0x2CB7, [0x2CB6]),
      (0x2CB9, [0x2CB8]), (0x2CBB, [0x2CBA]), (0x2CBD, [0x2CBC]), (0x2CBF, [0x2CBE]), (0x2CC1, [0x2CC0]),
      (0x2CC3, [0x2CC2]), (0x2CC5, [0x2CC4]), (0x2CC7, [0x2CC6]), (0x2CC9, [0x2CC8]), (0x2CCB, [0x2CCA]),
      (0x2CCD, [0x2CCC]), (0x2CCF, [0x2CCE]), (0x2CD1, [0x2CD0]), (0x2CD3, [0x2CD2]), (0x2CD5, [0x2CD4])]"

definition upperCase25 :: "(int \<times> int list) list" where
  "upperCase25 =
     [
      (0x2CD7, [0x2CD6]), (0x2CD9, [0x2CD8]), (0x2CDB, [0x2CDA]), (0x2CDD, [0x2CDC]), (0x2CDF, [0x2CDE]),
      (0x2CE1, [0x2CE0]), (0x2CE3, [0x2CE2]), (0x2CEC, [0x2CEB]), (0x2CEE, [0x2CED]), (0x2CF3, [0x2CF2]),
      (0x2D00, [0x10A0]), (0x2D01, [0x10A1]), (0x2D02, [0x10A2]), (0x2D03, [0x10A3]), (0x2D04, [0x10A4]),
      (0x2D05, [0x10A5]), (0x2D06, [0x10A6]), (0x2D07, [0x10A7]), (0x2D08, [0x10A8]), (0x2D09, [0x10A9]),
      (0x2D0A, [0x10AA]), (0x2D0B, [0x10AB]), (0x2D0C, [0x10AC]), (0x2D0D, [0x10AD]), (0x2D0E, [0x10AE]),
      (0x2D0F, [0x10AF]), (0x2D10, [0x10B0]), (0x2D11, [0x10B1]), (0x2D12, [0x10B2]), (0x2D13, [0x10B3]),
      (0x2D14, [0x10B4]), (0x2D15, [0x10B5]), (0x2D16, [0x10B6]), (0x2D17, [0x10B7]), (0x2D18, [0x10B8]),
      (0x2D19, [0x10B9]), (0x2D1A, [0x10BA]), (0x2D1B, [0x10BB]), (0x2D1C, [0x10BC]), (0x2D1D, [0x10BD])]"

definition upperCase26 :: "(int \<times> int list) list" where
  "upperCase26 =
     [
      (0x2D1E, [0x10BE]), (0x2D1F, [0x10BF]), (0x2D20, [0x10C0]), (0x2D21, [0x10C1]), (0x2D22, [0x10C2]),
      (0x2D23, [0x10C3]), (0x2D24, [0x10C4]), (0x2D25, [0x10C5]), (0x2D27, [0x10C7]), (0x2D2D, [0x10CD]),
      (0xA641, [0xA640]), (0xA643, [0xA642]), (0xA645, [0xA644]), (0xA647, [0xA646]), (0xA649, [0xA648]),
      (0xA64B, [0xA64A]), (0xA64D, [0xA64C]), (0xA64F, [0xA64E]), (0xA651, [0xA650]), (0xA653, [0xA652]),
      (0xA655, [0xA654]), (0xA657, [0xA656]), (0xA659, [0xA658]), (0xA65B, [0xA65A]), (0xA65D, [0xA65C]),
      (0xA65F, [0xA65E]), (0xA661, [0xA660]), (0xA663, [0xA662]), (0xA665, [0xA664]), (0xA667, [0xA666]),
      (0xA669, [0xA668]), (0xA66B, [0xA66A]), (0xA66D, [0xA66C]), (0xA681, [0xA680]), (0xA683, [0xA682]),
      (0xA685, [0xA684]), (0xA687, [0xA686]), (0xA689, [0xA688]), (0xA68B, [0xA68A]), (0xA68D, [0xA68C])]"

definition upperCase27 :: "(int \<times> int list) list" where
  "upperCase27 =
     [
      (0xA68F, [0xA68E]), (0xA691, [0xA690]), (0xA693, [0xA692]), (0xA695, [0xA694]), (0xA697, [0xA696]),
      (0xA699, [0xA698]), (0xA69B, [0xA69A]), (0xA723, [0xA722]), (0xA725, [0xA724]), (0xA727, [0xA726]),
      (0xA729, [0xA728]), (0xA72B, [0xA72A]), (0xA72D, [0xA72C]), (0xA72F, [0xA72E]), (0xA733, [0xA732]),
      (0xA735, [0xA734]), (0xA737, [0xA736]), (0xA739, [0xA738]), (0xA73B, [0xA73A]), (0xA73D, [0xA73C]),
      (0xA73F, [0xA73E]), (0xA741, [0xA740]), (0xA743, [0xA742]), (0xA745, [0xA744]), (0xA747, [0xA746]),
      (0xA749, [0xA748]), (0xA74B, [0xA74A]), (0xA74D, [0xA74C]), (0xA74F, [0xA74E]), (0xA751, [0xA750]),
      (0xA753, [0xA752]), (0xA755, [0xA754]), (0xA757, [0xA756]), (0xA759, [0xA758]), (0xA75B, [0xA75A]),
      (0xA75D, [0xA75C]), (0xA75F, [0xA75E]), (0xA761, [0xA760]), (0xA763, [0xA762]), (0xA765, [0xA764])]"

definition upperCase28 :: "(int \<times> int list) list" where
  "upperCase28 =
     [
      (0xA767, [0xA766]), (0xA769, [0xA768]), (0xA76B, [0xA76A]), (0xA76D, [0xA76C]), (0xA76F, [0xA76E]),
      (0xA77A, [0xA779]), (0xA77C, [0xA77B]), (0xA77F, [0xA77E]), (0xA781, [0xA780]), (0xA783, [0xA782]),
      (0xA785, [0xA784]), (0xA787, [0xA786]), (0xA78C, [0xA78B]), (0xA791, [0xA790]), (0xA793, [0xA792]),
      (0xA794, [0xA7C4]), (0xA797, [0xA796]), (0xA799, [0xA798]), (0xA79B, [0xA79A]), (0xA79D, [0xA79C]),
      (0xA79F, [0xA79E]), (0xA7A1, [0xA7A0]), (0xA7A3, [0xA7A2]), (0xA7A5, [0xA7A4]), (0xA7A7, [0xA7A6]),
      (0xA7A9, [0xA7A8]), (0xA7B5, [0xA7B4]), (0xA7B7, [0xA7B6]), (0xA7B9, [0xA7B8]), (0xA7BB, [0xA7BA]),
      (0xA7BD, [0xA7BC]), (0xA7BF, [0xA7BE]), (0xA7C1, [0xA7C0]), (0xA7C3, [0xA7C2]), (0xA7C8, [0xA7C7]),
      (0xA7CA, [0xA7C9]), (0xA7D1, [0xA7D0]), (0xA7D7, [0xA7D6]), (0xA7D9, [0xA7D8]), (0xA7F6, [0xA7F5])]"

definition upperCase29 :: "(int \<times> int list) list" where
  "upperCase29 =
     [
      (0xAB53, [0xA7B3]), (0xAB70, [0x13A0]), (0xAB71, [0x13A1]), (0xAB72, [0x13A2]), (0xAB73, [0x13A3]),
      (0xAB74, [0x13A4]), (0xAB75, [0x13A5]), (0xAB76, [0x13A6]), (0xAB77, [0x13A7]), (0xAB78, [0x13A8]),
      (0xAB79, [0x13A9]), (0xAB7A, [0x13AA]), (0xAB7B, [0x13AB]), (0xAB7C, [0x13AC]), (0xAB7D, [0x13AD]),
      (0xAB7E, [0x13AE]), (0xAB7F, [0x13AF]), (0xAB80, [0x13B0]), (0xAB81, [0x13B1]), (0xAB82, [0x13B2]),
      (0xAB83, [0x13B3]), (0xAB84, [0x13B4]), (0xAB85, [0x13B5]), (0xAB86, [0x13B6]), (0xAB87, [0x13B7]),
      (0xAB88, [0x13B8]), (0xAB89, [0x13B9]), (0xAB8A, [0x13BA]), (0xAB8B, [0x13BB]), (0xAB8C, [0x13BC]),
      (0xAB8D, [0x13BD]), (0xAB8E, [0x13BE]), (0xAB8F, [0x13BF]), (0xAB90, [0x13C0]), (0xAB91, [0x13C1]),
      (0xAB92, [0x13C2]), (0xAB93, [0x13C3]), (0xAB94, [0x13C4]), (0xAB95, [0x13C5]), (0xAB96, [0x13C6])]"

definition upperCase30 :: "(int \<times> int list) list" where
  "upperCase30 =
     [
      (0xAB97, [0x13C7]), (0xAB98, [0x13C8]), (0xAB99, [0x13C9]), (0xAB9A, [0x13CA]), (0xAB9B, [0x13CB]),
      (0xAB9C, [0x13CC]), (0xAB9D, [0x13CD]), (0xAB9E, [0x13CE]), (0xAB9F, [0x13CF]), (0xABA0, [0x13D0]),
      (0xABA1, [0x13D1]), (0xABA2, [0x13D2]), (0xABA3, [0x13D3]), (0xABA4, [0x13D4]), (0xABA5, [0x13D5]),
      (0xABA6, [0x13D6]), (0xABA7, [0x13D7]), (0xABA8, [0x13D8]), (0xABA9, [0x13D9]), (0xABAA, [0x13DA]),
      (0xABAB, [0x13DB]), (0xABAC, [0x13DC]), (0xABAD, [0x13DD]), (0xABAE, [0x13DE]), (0xABAF, [0x13DF]),
      (0xABB0, [0x13E0]), (0xABB1, [0x13E1]), (0xABB2, [0x13E2]), (0xABB3, [0x13E3]), (0xABB4, [0x13E4]),
      (0xABB5, [0x13E5]), (0xABB6, [0x13E6]), (0xABB7, [0x13E7]), (0xABB8, [0x13E8]), (0xABB9, [0x13E9]),
      (0xABBA, [0x13EA]), (0xABBB, [0x13EB]), (0xABBC, [0x13EC]), (0xABBD, [0x13ED]), (0xABBE, [0x13EE])]"

definition upperCase31 :: "(int \<times> int list) list" where
  "upperCase31 =
     [
      (0xABBF, [0x13EF]), (0xFB00, [0x46, 0x46]), (0xFB01, [0x46, 0x49]), (0xFB02, [0x46, 0x4C]), (0xFB03, [0x46, 0x46, 0x49]),
      (0xFB04, [0x46, 0x46, 0x4C]), (0xFB05, [0x53, 0x54]), (0xFB06, [0x53, 0x54]), (0xFB13, [0x544, 0x546]), (0xFB14, [0x544, 0x535]),
      (0xFB15, [0x544, 0x53B]), (0xFB16, [0x54E, 0x546]), (0xFB17, [0x544, 0x53D]), (0xFF41, [0xFF21]), (0xFF42, [0xFF22]),
      (0xFF43, [0xFF23]), (0xFF44, [0xFF24]), (0xFF45, [0xFF25]), (0xFF46, [0xFF26]), (0xFF47, [0xFF27]),
      (0xFF48, [0xFF28]), (0xFF49, [0xFF29]), (0xFF4A, [0xFF2A]), (0xFF4B, [0xFF2B]), (0xFF4C, [0xFF2C]),
      (0xFF4D, [0xFF2D]), (0xFF4E, [0xFF2E]), (0xFF4F, [0xFF2F]), (0xFF50, [0xFF30]), (0xFF51, [0xFF31]),
      (0xFF52, [0xFF32]), (0xFF53, [0xFF33]), (0xFF54, [0xFF34]), (0xFF55, [0xFF35]), (0xFF56, [0xFF36]),
      (0xFF57, [0xFF37]), (0xFF58, [0xFF38]), (0xFF59, [0xFF39]), (0xFF5A, [0xFF3A])]"

definition upperCaseTable :: "int \<Rightarrow> (int \<times> int list) list" where
  "upperCaseTable c =
     (if c \<le> 0x10D then upperCase01
      else if c \<le> 0x15D then upperCase02
      else if c \<le> 0x1C6 then upperCase03
      else if c \<le> 0x213 then upperCase04
      else if c \<le> 0x268 then upperCase05
      else if c \<le> 0x3B6 then upperCase06
      else if c \<le> 0x3ED then upperCase07
      else if c \<le> 0x44F then upperCase08
      else if c \<le> 0x497 then upperCase09
      else if c \<le> 0x4E7 then upperCase10
      else if c \<le> 0x564 then upperCase11
      else if c \<le> 0x10D4 then upperCase12
      else if c \<le> 0x10FE then upperCase13
      else if c \<le> 0x1E29 then upperCase14
      else if c \<le> 0x1E79 then upperCase15
      else if c \<le> 0x1EC7 then upperCase16
      else if c \<le> 0x1F13 then upperCase17
      else if c \<le> 0x1F67 then upperCase18
      else if c \<le> 0x1F99 then upperCase19
      else if c \<le> 0x1FD2 then upperCase20
      else if c \<le> 0x24D4 then upperCase21
      else if c \<le> 0x2C42 then upperCase22
      else if c \<le> 0x2C85 then upperCase23
      else if c \<le> 0x2CD5 then upperCase24
      else if c \<le> 0x2D1D then upperCase25
      else if c \<le> 0xA68D then upperCase26
      else if c \<le> 0xA765 then upperCase27
      else if c \<le> 0xA7F6 then upperCase28
      else if c \<le> 0xAB96 then upperCase29
      else if c \<le> 0xABBE then upperCase30
      else if c \<le> 0xFF5A then upperCase31
      else [])"

definition upperCasePairs01 :: "((int \<times> int) \<times> int list) list" where
  "upperCasePairs01 =
     [
      ((0xD801, 0xDC28), [0xD801, 0xDC00]), ((0xD801, 0xDC29), [0xD801, 0xDC01]), ((0xD801, 0xDC2A), [0xD801, 0xDC02]),
      ((0xD801, 0xDC2B), [0xD801, 0xDC03]), ((0xD801, 0xDC2C), [0xD801, 0xDC04]), ((0xD801, 0xDC2D), [0xD801, 0xDC05]),
      ((0xD801, 0xDC2E), [0xD801, 0xDC06]), ((0xD801, 0xDC2F), [0xD801, 0xDC07]), ((0xD801, 0xDC30), [0xD801, 0xDC08]),
      ((0xD801, 0xDC31), [0xD801, 0xDC09]), ((0xD801, 0xDC32), [0xD801, 0xDC0A]), ((0xD801, 0xDC33), [0xD801, 0xDC0B]),
      ((0xD801, 0xDC34), [0xD801, 0xDC0C]), ((0xD801, 0xDC35), [0xD801, 0xDC0D]), ((0xD801, 0xDC36), [0xD801, 0xDC0E]),
      ((0xD801, 0xDC37), [0xD801, 0xDC0F]), ((0xD801, 0xDC38), [0xD801, 0xDC10]), ((0xD801, 0xDC39), [0xD801, 0xDC11]),
      ((0xD801, 0xDC3A), [0xD801, 0xDC12]), ((0xD801, 0xDC3B), [0xD801, 0xDC13]), ((0xD801, 0xDC3C), [0xD801, 0xDC14]),
      ((0xD801, 0xDC3D), [0xD801, 0xDC15]), ((0xD801, 0xDC3E), [0xD801, 0xDC16]), ((0xD801, 0xDC3F), [0xD801, 0xDC17]),
      ((0xD801, 0xDC40), [0xD801, 0xDC18]), ((0xD801, 0xDC41), [0xD801, 0xDC19]), ((0xD801, 0xDC42), [0xD801, 0xDC1A]),
      ((0xD801, 0xDC43), [0xD801, 0xDC1B]), ((0xD801, 0xDC44), [0xD801, 0xDC1C]), ((0xD801, 0xDC45), [0xD801, 0xDC1D]),
      ((0xD801, 0xDC46), [0xD801, 0xDC1E]), ((0xD801, 0xDC47), [0xD801, 0xDC1F]), ((0xD801, 0xDC48), [0xD801, 0xDC20]),
      ((0xD801, 0xDC49), [0xD801, 0xDC21]), ((0xD801, 0xDC4A), [0xD801, 0xDC22]), ((0xD801, 0xDC4B), [0xD801, 0xDC23]),
      ((0xD801, 0xDC4C), [0xD801, 0xDC24]), ((0xD801, 0xDC4D), [0xD801, 0xDC25]), ((0xD801, 0xDC4E), [0xD801, 0xDC26]),
      ((0xD801, 0xDC4F), [0xD801, 0xDC27])]"

definition upperCasePairs02 :: "((int \<times> int) \<times> int list) list" where
  "upperCasePairs02 =
     [
      ((0xD801, 0xDCD8), [0xD801, 0xDCB0]), ((0xD801, 0xDCD9), [0xD801, 0xDCB1]), ((0xD801, 0xDCDA), [0xD801, 0xDCB2]),
      ((0xD801, 0xDCDB), [0xD801, 0xDCB3]), ((0xD801, 0xDCDC), [0xD801, 0xDCB4]), ((0xD801, 0xDCDD), [0xD801, 0xDCB5]),
      ((0xD801, 0xDCDE), [0xD801, 0xDCB6]), ((0xD801, 0xDCDF), [0xD801, 0xDCB7]), ((0xD801, 0xDCE0), [0xD801, 0xDCB8]),
      ((0xD801, 0xDCE1), [0xD801, 0xDCB9]), ((0xD801, 0xDCE2), [0xD801, 0xDCBA]), ((0xD801, 0xDCE3), [0xD801, 0xDCBB]),
      ((0xD801, 0xDCE4), [0xD801, 0xDCBC]), ((0xD801, 0xDCE5), [0xD801, 0xDCBD]), ((0xD801, 0xDCE6), [0xD801, 0xDCBE]),
      ((0xD801, 0xDCE7), [0xD801, 0xDCBF]), ((0xD801, 0xDCE8), [0xD801, 0xDCC0]), ((0xD801, 0xDCE9), [0xD801, 0xDCC1]),
      ((0xD801, 0xDCEA), [0xD801, 0xDCC2]), ((0xD801, 0xDCEB), [0xD801, 0xDCC3]), ((0xD801, 0xDCEC), [0xD801, 0xDCC4]),
      ((0xD801, 0xDCED), [0xD801, 0xDCC5]), ((0xD801, 0xDCEE), [0xD801, 0xDCC6]), ((0xD801, 0xDCEF), [0xD801, 0xDCC7]),
      ((0xD801, 0xDCF0), [0xD801, 0xDCC8]), ((0xD801, 0xDCF1), [0xD801, 0xDCC9]), ((0xD801, 0xDCF2), [0xD801, 0xDCCA]),
      ((0xD801, 0xDCF3), [0xD801, 0xDCCB]), ((0xD801, 0xDCF4), [0xD801, 0xDCCC]), ((0xD801, 0xDCF5), [0xD801, 0xDCCD]),
      ((0xD801, 0xDCF6), [0xD801, 0xDCCE]), ((0xD801, 0xDCF7), [0xD801, 0xDCCF]), ((0xD801, 0xDCF8), [0xD801, 0xDCD0]),
      ((0xD801, 0xDCF9), [0xD801, 0xDCD1]), ((0xD801, 0xDCFA), [0xD801, 0xDCD2]), ((0xD801, 0xDCFB), [0xD801, 0xDCD3]),
      ((0xD801, 0xDD97), [0xD801, 0xDD70]), ((0xD801, 0xDD98), [0xD801, 0xDD71]), ((0xD801, 0xDD99), [0xD801, 0xDD72]),
      ((0xD801, 0xDD9A), [0xD801, 0xDD73])]"

definition upperCasePairs03 :: "((int \<times> int) \<times> int list) list" where
  "upperCasePairs03 =
     [
      ((0xD801, 0xDD9B), [0xD801, 0xDD74]), ((0xD801, 0xDD9C), [0xD801, 0xDD75]), ((0xD801, 0xDD9D), [0xD801, 0xDD76]),
      ((0xD801, 0xDD9E), [0xD801, 0xDD77]), ((0xD801, 0xDD9F), [0xD801, 0xDD78]), ((0xD801, 0xDDA0), [0xD801, 0xDD79]),
      ((0xD801, 0xDDA1), [0xD801, 0xDD7A]), ((0xD801, 0xDDA3), [0xD801, 0xDD7C]), ((0xD801, 0xDDA4), [0xD801, 0xDD7D]),
      ((0xD801, 0xDDA5), [0xD801, 0xDD7E]), ((0xD801, 0xDDA6), [0xD801, 0xDD7F]), ((0xD801, 0xDDA7), [0xD801, 0xDD80]),
      ((0xD801, 0xDDA8), [0xD801, 0xDD81]), ((0xD801, 0xDDA9), [0xD801, 0xDD82]), ((0xD801, 0xDDAA), [0xD801, 0xDD83]),
      ((0xD801, 0xDDAB), [0xD801, 0xDD84]), ((0xD801, 0xDDAC), [0xD801, 0xDD85]), ((0xD801, 0xDDAD), [0xD801, 0xDD86]),
      ((0xD801, 0xDDAE), [0xD801, 0xDD87]), ((0xD801, 0xDDAF), [0xD801, 0xDD88]), ((0xD801, 0xDDB0), [0xD801, 0xDD89]),
      ((0xD801, 0xDDB1), [0xD801, 0xDD8A]), ((0xD801, 0xDDB3), [0xD801, 0xDD8C]), ((0xD801, 0xDDB4), [0xD801, 0xDD8D]),
      ((0xD801, 0xDDB5), [0xD801, 0xDD8E]), ((0xD801, 0xDDB6), [0xD801, 0xDD8F]), ((0xD801, 0xDDB7), [0xD801, 0xDD90]),
      ((0xD801, 0xDDB8), [0xD801, 0xDD91]), ((0xD801, 0xDDB9), [0xD801, 0xDD92]), ((0xD801, 0xDDBB), [0xD801, 0xDD94]),
      ((0xD801, 0xDDBC), [0xD801, 0xDD95]), ((0xD803, 0xDCC0), [0xD803, 0xDC80]), ((0xD803, 0xDCC1), [0xD803, 0xDC81]),
      ((0xD803, 0xDCC2), [0xD803, 0xDC82]), ((0xD803, 0xDCC3), [0xD803, 0xDC83]), ((0xD803, 0xDCC4), [0xD803, 0xDC84]),
      ((0xD803, 0xDCC5), [0xD803, 0xDC85]), ((0xD803, 0xDCC6), [0xD803, 0xDC86]), ((0xD803, 0xDCC7), [0xD803, 0xDC87]),
      ((0xD803, 0xDCC8), [0xD803, 0xDC88])]"

definition upperCasePairs04 :: "((int \<times> int) \<times> int list) list" where
  "upperCasePairs04 =
     [
      ((0xD803, 0xDCC9), [0xD803, 0xDC89]), ((0xD803, 0xDCCA), [0xD803, 0xDC8A]), ((0xD803, 0xDCCB), [0xD803, 0xDC8B]),
      ((0xD803, 0xDCCC), [0xD803, 0xDC8C]), ((0xD803, 0xDCCD), [0xD803, 0xDC8D]), ((0xD803, 0xDCCE), [0xD803, 0xDC8E]),
      ((0xD803, 0xDCCF), [0xD803, 0xDC8F]), ((0xD803, 0xDCD0), [0xD803, 0xDC90]), ((0xD803, 0xDCD1), [0xD803, 0xDC91]),
      ((0xD803, 0xDCD2), [0xD803, 0xDC92]), ((0xD803, 0xDCD3), [0xD803, 0xDC93]), ((0xD803, 0xDCD4), [0xD803, 0xDC94]),
      ((0xD803, 0xDCD5), [0xD803, 0xDC95]), ((0xD803, 0xDCD6), [0xD803, 0xDC96]), ((0xD803, 0xDCD7), [0xD803, 0xDC97]),
      ((0xD803, 0xDCD8), [0xD803, 0xDC98]), ((0xD803, 0xDCD9), [0xD803, 0xDC99]), ((0xD803, 0xDCDA), [0xD803, 0xDC9A]),
      ((0xD803, 0xDCDB), [0xD803, 0xDC9B]), ((0xD803, 0xDCDC), [0xD803, 0xDC9C]), ((0xD803, 0xDCDD), [0xD803, 0xDC9D]),
      ((0xD803, 0xDCDE), [0xD803, 0xDC9E]), ((0xD803, 0xDCDF), [0xD803, 0xDC9F]), ((0xD803, 0xDCE0), [0xD803, 0xDCA0]),
      ((0xD803, 0xDCE1), [0xD803, 0xDCA1]), ((0xD803, 0xDCE2), [0xD803, 0xDCA2]), ((0xD803, 0xDCE3), [0xD803, 0xDCA3]),
      ((0xD803, 0xDCE4), [0xD803, 0xDCA4]), ((0xD803, 0xDCE5), [0xD803, 0xDCA5]), ((0xD803, 0xDCE6), [0xD803, 0xDCA6]),
      ((0xD803, 0xDCE7), [0xD803, 0xDCA7]), ((0xD803, 0xDCE8), [0xD803, 0xDCA8]), ((0xD803, 0xDCE9), [0xD803, 0xDCA9]),
      ((0xD803, 0xDCEA), [0xD803, 0xDCAA]), ((0xD803, 0xDCEB), [0xD803, 0xDCAB]), ((0xD803, 0xDCEC), [0xD803, 0xDCAC]),
      ((0xD803, 0xDCED), [0xD803, 0xDCAD]), ((0xD803, 0xDCEE), [0xD803, 0xDCAE]), ((0xD803, 0xDCEF), [0xD803, 0xDCAF]),
      ((0xD803, 0xDCF0), [0xD803, 0xDCB0])]"

definition upperCasePairs05 :: "((int \<times> int) \<times> int list) list" where
  "upperCasePairs05 =
     [
      ((0xD803, 0xDCF1), [0xD803, 0xDCB1]), ((0xD803, 0xDCF2), [0xD803, 0xDCB2]), ((0xD806, 0xDCC0), [0xD806, 0xDCA0]),
      ((0xD806, 0xDCC1), [0xD806, 0xDCA1]), ((0xD806, 0xDCC2), [0xD806, 0xDCA2]), ((0xD806, 0xDCC3), [0xD806, 0xDCA3]),
      ((0xD806, 0xDCC4), [0xD806, 0xDCA4]), ((0xD806, 0xDCC5), [0xD806, 0xDCA5]), ((0xD806, 0xDCC6), [0xD806, 0xDCA6]),
      ((0xD806, 0xDCC7), [0xD806, 0xDCA7]), ((0xD806, 0xDCC8), [0xD806, 0xDCA8]), ((0xD806, 0xDCC9), [0xD806, 0xDCA9]),
      ((0xD806, 0xDCCA), [0xD806, 0xDCAA]), ((0xD806, 0xDCCB), [0xD806, 0xDCAB]), ((0xD806, 0xDCCC), [0xD806, 0xDCAC]),
      ((0xD806, 0xDCCD), [0xD806, 0xDCAD]), ((0xD806, 0xDCCE), [0xD806, 0xDCAE]), ((0xD806, 0xDCCF), [0xD806, 0xDCAF]),
      ((0xD806, 0xDCD0), [0xD806, 0xDCB0]), ((0xD806, 0xDCD1), [0xD806, 0xDCB1]), ((0xD806, 0xDCD2), [0xD806, 0xDCB2]),
      ((0xD806, 0xDCD3), [0xD806, 0xDCB3]), ((0xD806, 0xDCD4), [0xD806, 0xDCB4]), ((0xD806, 0xDCD5), [0xD806, 0xDCB5]),
      ((0xD806, 0xDCD6), [0xD806, 0xDCB6]), ((0xD806, 0xDCD7), [0xD806, 0xDCB7]), ((0xD806, 0xDCD8), [0xD806, 0xDCB8]),
      ((0xD806, 0xDCD9), [0xD806, 0xDCB9]), ((0xD806, 0xDCDA), [0xD806, 0xDCBA]), ((0xD806, 0xDCDB), [0xD806, 0xDCBB]),
      ((0xD806, 0xDCDC), [0xD806, 0xDCBC]), ((0xD806, 0xDCDD), [0xD806, 0xDCBD]), ((0xD806, 0xDCDE), [0xD806, 0xDCBE]),
      ((0xD806, 0xDCDF), [0xD806, 0xDCBF]), ((0xD81B, 0xDE60), [0xD81B, 0xDE40]), ((0xD81B, 0xDE61), [0xD81B, 0xDE41]),
      ((0xD81B, 0xDE62), [0xD81B, 0xDE42]), ((0xD81B, 0xDE63), [0xD81B, 0xDE43]), ((0xD81B, 0xDE64), [0xD81B, 0xDE44]),
      ((0xD81B, 0xDE65), [0xD81B, 0xDE45])]"

definition upperCasePairs06 :: "((int \<times> int) \<times> int list) list" where
  "upperCasePairs06 =
     [
      ((0xD81B, 0xDE66), [0xD81B, 0xDE46]), ((0xD81B, 0xDE67), [0xD81B, 0xDE47]), ((0xD81B, 0xDE68), [0xD81B, 0xDE48]),
      ((0xD81B, 0xDE69), [0xD81B, 0xDE49]), ((0xD81B, 0xDE6A), [0xD81B, 0xDE4A]), ((0xD81B, 0xDE6B), [0xD81B, 0xDE4B]),
      ((0xD81B, 0xDE6C), [0xD81B, 0xDE4C]), ((0xD81B, 0xDE6D), [0xD81B, 0xDE4D]), ((0xD81B, 0xDE6E), [0xD81B, 0xDE4E]),
      ((0xD81B, 0xDE6F), [0xD81B, 0xDE4F]), ((0xD81B, 0xDE70), [0xD81B, 0xDE50]), ((0xD81B, 0xDE71), [0xD81B, 0xDE51]),
      ((0xD81B, 0xDE72), [0xD81B, 0xDE52]), ((0xD81B, 0xDE73), [0xD81B, 0xDE53]), ((0xD81B, 0xDE74), [0xD81B, 0xDE54]),
      ((0xD81B, 0xDE75), [0xD81B, 0xDE55]), ((0xD81B, 0xDE76), [0xD81B, 0xDE56]), ((0xD81B, 0xDE77), [0xD81B, 0xDE57]),
      ((0xD81B, 0xDE78), [0xD81B, 0xDE58]), ((0xD81B, 0xDE79), [0xD81B, 0xDE59]), ((0xD81B, 0xDE7A), [0xD81B, 0xDE5A]),
      ((0xD81B, 0xDE7B), [0xD81B, 0xDE5B]), ((0xD81B, 0xDE7C), [0xD81B, 0xDE5C]), ((0xD81B, 0xDE7D), [0xD81B, 0xDE5D]),
      ((0xD81B, 0xDE7E), [0xD81B, 0xDE5E]), ((0xD81B, 0xDE7F), [0xD81B, 0xDE5F]), ((0xD83A, 0xDD22), [0xD83A, 0xDD00]),
      ((0xD83A, 0xDD23), [0xD83A, 0xDD01]), ((0xD83A, 0xDD24), [0xD83A, 0xDD02]), ((0xD83A, 0xDD25), [0xD83A, 0xDD03]),
      ((0xD83A, 0xDD26), [0xD83A, 0xDD04]), ((0xD83A, 0xDD27), [0xD83A, 0xDD05]), ((0xD83A, 0xDD28), [0xD83A, 0xDD06]),
      ((0xD83A, 0xDD29), [0xD83A, 0xDD07]), ((0xD83A, 0xDD2A), [0xD83A, 0xDD08]), ((0xD83A, 0xDD2B), [0xD83A, 0xDD09]),
      ((0xD83A, 0xDD2C), [0xD83A, 0xDD0A]), ((0xD83A, 0xDD2D), [0xD83A, 0xDD0B]), ((0xD83A, 0xDD2E), [0xD83A, 0xDD0C]),
      ((0xD83A, 0xDD2F), [0xD83A, 0xDD0D])]"

definition upperCasePairs07 :: "((int \<times> int) \<times> int list) list" where
  "upperCasePairs07 =
     [
      ((0xD83A, 0xDD30), [0xD83A, 0xDD0E]), ((0xD83A, 0xDD31), [0xD83A, 0xDD0F]), ((0xD83A, 0xDD32), [0xD83A, 0xDD10]),
      ((0xD83A, 0xDD33), [0xD83A, 0xDD11]), ((0xD83A, 0xDD34), [0xD83A, 0xDD12]), ((0xD83A, 0xDD35), [0xD83A, 0xDD13]),
      ((0xD83A, 0xDD36), [0xD83A, 0xDD14]), ((0xD83A, 0xDD37), [0xD83A, 0xDD15]), ((0xD83A, 0xDD38), [0xD83A, 0xDD16]),
      ((0xD83A, 0xDD39), [0xD83A, 0xDD17]), ((0xD83A, 0xDD3A), [0xD83A, 0xDD18]), ((0xD83A, 0xDD3B), [0xD83A, 0xDD19]),
      ((0xD83A, 0xDD3C), [0xD83A, 0xDD1A]), ((0xD83A, 0xDD3D), [0xD83A, 0xDD1B]), ((0xD83A, 0xDD3E), [0xD83A, 0xDD1C]),
      ((0xD83A, 0xDD3F), [0xD83A, 0xDD1D]), ((0xD83A, 0xDD40), [0xD83A, 0xDD1E]), ((0xD83A, 0xDD41), [0xD83A, 0xDD1F]),
      ((0xD83A, 0xDD42), [0xD83A, 0xDD20]), ((0xD83A, 0xDD43), [0xD83A, 0xDD21])]"

definition upperCasePairs :: "int \<Rightarrow> int \<Rightarrow> ((int \<times> int) \<times> int list) list" where
  "upperCasePairs c d =
     (if c < 0xD801 \<or> (c = 0xD801 \<and> d \<le> 0xDC4F) then upperCasePairs01
      else if c < 0xD801 \<or> (c = 0xD801 \<and> d \<le> 0xDD9A) then upperCasePairs02
      else if c < 0xD803 \<or> (c = 0xD803 \<and> d \<le> 0xDCC8) then upperCasePairs03
      else if c < 0xD803 \<or> (c = 0xD803 \<and> d \<le> 0xDCF0) then upperCasePairs04
      else if c < 0xD81B \<or> (c = 0xD81B \<and> d \<le> 0xDE65) then upperCasePairs05
      else if c < 0xD83A \<or> (c = 0xD83A \<and> d \<le> 0xDD2F) then upperCasePairs06
      else if c < 0xD83A \<or> (c = 0xD83A \<and> d \<le> 0xDD43) then upperCasePairs07
      else [])"

definition upperUnit :: "int \<Rightarrow> int list" where
  "upperUnit c =
     (if c < 0x80 then [if 0x61 \<le> c \<and> c \<le> 0x7A then c - 0x20 else c]
      else (case map_of (upperCaseTable c) c of Some us \<Rightarrow> us | None \<Rightarrow> [c]))"

definition upperPair :: "int \<Rightarrow> int \<Rightarrow> int list" where
  "upperPair c d = (case map_of (upperCasePairs c d) (c, d) of Some us \<Rightarrow> us | None \<Rightarrow> [c, d])"

definition is_surrogate_pair :: "int \<Rightarrow> int \<Rightarrow> bool" where
  "is_surrogate_pair c d = (0xD800 \<le> c \<and> c \<le> 0xDBFF \<and> 0xDC00 \<le> d \<and> d \<le> 0xDFFF)"

fun toUpperCase :: "jstring \<Rightarrow> jstring" where
  "toUpperCase [] = []"
| "toUpperCase [c] = upperUnit c"
| "toUpperCase (c # d # s) =
     (if is_surrogate_pair c d then upperPair c d @ toUpperCase s
      else upperUnit c @ toUpperCase (d # s))"

text \<open>\<open>s.includes(t)\<close>: \<open>t\<close> starts at some position of \<open>s\<close>.\<close>

definition str_includes :: "jstring \<Rightarrow> jstring \<Rightarrow> bool" where
  "str_includes s t = list_ex (prefix t) (suffixes s)"

text \<open>A small number in decimal, for \<open>`/tmp/racv-manual-${attempt}.png`\<close>.\<close>

fun show_nat :: "nat \<Rightarrow> jstring" where
  "show_nat n =
     (if n < 10 then [0x30 + int n]
      else show_nat (n div 10) @ [0x30 + int (n mod 10)])"

lemma str_Nil: "str [] = []"
  by (simp add: str_def)

lemma str_Cons: "str (c # cs) = of_char c # str cs"
  by (simp add: str_def)

lemma str_eq_Nil [simp]: "(str s = []) = (s = [])"
  by (simp add: str_def)

lemma str_eq_iff [simp]: "(str s = str t) = (s = t)"
proof -
  have "inj (of_char :: char \<Rightarrow> int)"
    by (rule injI) simp
  then show ?thesis
    unfolding str_def by (rule inj_map_eq_map)
qed


section \<open>Regular expressions\<close>

text \<open>
  The regular expressions of the scraper use literals, character classes, greedy
  repetition of a class, sequence, alternation, an optional part and one capturing
  group. None has the flag \<open>u\<close>: they work on code units.

  Under the flag \<open>i\<close> two units are equal when their canonical forms are: the upper-case
  form of the unit when that is one unit long, except that a unit above ASCII never goes
  to an ASCII one (\<open>Canonicalize\<close> in the language specification).
\<close>

definition canonicalize :: "int \<Rightarrow> int" where
  "canonicalize ch =
     (case upperUnit ch of
        [cu] \<Rightarrow> if 0x80 \<le> ch \<and> cu < 0x80 then ch else cu
      | _ \<Rightarrow> ch)"

datatype rx =
    Eps
  | Chr int
  | Cls "int \<Rightarrow> bool"
  | Rep nat "int \<Rightarrow> bool"
  | Seq rx rx
  | Alt rx rx
  | Grp rx

text \<open>
  \<open>mt ic r s\<close> lists the ways \<open>r\<close> matches a prefix of \<open>s\<close>, in the order a
  backtracking matcher tries them: each is the text captured by the group (if the group
  took part) and the rest of \<open>s\<close> after the match. \<open>Rep n p\<close> is \<open>[p]{n,}\<close>: the longest
  run first. \<open>ic\<close> is the flag \<open>i\<close>. The classes of the patterns below hold no letter, and
  white space is the canonical form of no other unit, so a class matches the same units
  with and without the flag.
\<close>

fun mt :: "bool \<Rightarrow> rx \<Rightarrow> jstring \<Rightarrow> (jstring option \<times> jstring) list" where
  "mt ic Eps s = [(None, s)]"
| "mt ic (Chr c) s =
     (case s of
        [] \<Rightarrow> []
      | x # xs \<Rightarrow> if (if ic then canonicalize x = canonicalize c else x = c) then [(None, xs)] else [])"
| "mt ic (Cls p) s =
     (case s of [] \<Rightarrow> [] | x # xs \<Rightarrow> if p x then [(None, xs)] else [])"
| "mt ic (Rep n p) s =
     map (\<lambda>k. (None, drop k s)) (rev [n ..< Suc (length (takeWhile p s))])"
| "mt ic (Seq a b) s =
     concat (map (\<lambda>(g, r). map (\<lambda>(g', r'). (case g' of None \<Rightarrow> g | Some c \<Rightarrow> Some c, r'))
                                (mt ic b r))
                 (mt ic a s))"
| "mt ic (Alt a b) s = mt ic a s @ mt ic b s"
| "mt ic (Grp a) s = map (\<lambda>(g, r). (Some (take (length s - length r) s), r)) (mt ic a s)"

text \<open>
  \<open>text.match(re)\<close> without the flag \<open>g\<close>: the first way at the leftmost position that
  has one. The result is the text of group 1 (\<open>m[1]\<close>); the group takes part in every
  match of the patterns below.
\<close>

fun search :: "bool \<Rightarrow> rx \<Rightarrow> jstring \<Rightarrow> jstring option" where
  "search ic r [] =
     (case mt ic r [] of [] \<Rightarrow> None | (g, rest) # ms \<Rightarrow> Some (case g of None \<Rightarrow> [] | Some c \<Rightarrow> c))"
| "search ic r (x # xs) =
     (case mt ic r (x # xs) of
        [] \<Rightarrow> search ic r xs
      | (g, rest) # ms \<Rightarrow> Some (case g of None \<Rightarrow> [] | Some c \<Rightarrow> c))"

text \<open>\<open>re.test(text)\<close>\<close>

definition test :: "bool \<Rightarrow> rx \<Rightarrow> jstring \<Rightarrow> bool" where
  "test ic r s = (search ic r s \<noteq> None)"

text \<open>
  \<open>text.match(re)\<close> with the flag \<open>g\<close>: the matched texts from left to right, each
  search starting where the last match ended (one character further after an empty
  match).
\<close>

function matchAll :: "bool \<Rightarrow> rx \<Rightarrow> jstring \<Rightarrow> jstring list" where
  "matchAll ic r [] = (case mt ic r [] of [] \<Rightarrow> [] | m # ms \<Rightarrow> [[]])"
| "matchAll ic r (x # xs) =
     (case mt ic r (x # xs) of
        [] \<Rightarrow> matchAll ic r xs
      | (g, rest) # ms \<Rightarrow>
          (if length rest \<ge> length (x # xs) then [] # matchAll ic r xs
           else take (length (x # xs) - length rest) (x # xs)
                  # matchAll ic r (drop (length (x # xs) - length rest) (x # xs))))"
  by pat_completeness auto
termination
  by (relation "measure (\<lambda>(ic, r, s). length s)") auto

text \<open>
  Building blocks: a literal word of the pattern (its characters are ASCII), an
  alternation and a sequence of several expressions.
\<close>

fun word :: "string \<Rightarrow> rx" where
  "word [] = Eps"
| "word (c # cs) = Seq (Chr (of_char c)) (word cs)"

fun alts :: "rx list \<Rightarrow> rx" where
  "alts [] = Cls (\<lambda>c. False)"
| "alts [r] = r"
| "alts (r # rs) = Alt r (alts rs)"

fun seqs :: "rx list \<Rightarrow> rx" where
  "seqs [] = Eps"
| "seqs (r # rs) = Seq r (seqs rs)"

text \<open>\<open>[\d,]+(?:\.\d{2})?\<close>\<close>

definition amount_rx :: rx where
  "amount_rx =
     Seq (Rep 1 (\<lambda>c. is_digit c \<or> c = of_char CHR '',''))
         (Alt (seqs [Chr (of_char CHR ''.''), Cls is_digit, Cls is_digit]) Eps)"

text \<open>\<open>/\$[\d,]+(?:\.\d{2})?/g\<close>\<close>

definition dollar_amount_rx :: rx where
  "dollar_amount_rx = Seq (Chr (of_char CHR ''$'')) amount_rx"

text \<open>
  \<open>/\$([\d,]+(?:\.\d{2})?)\s*(?:per\s*year|\/\s*year|annually|p\.a\.|\/yr|\/Yearly)/i\<close>
\<close>

definition annual_period_rx :: rx where
  "annual_period_rx =
     seqs [Chr (of_char CHR ''$''), Grp amount_rx, Rep 0 is_space,
           alts [seqs [word ''per'', Rep 0 is_space, word ''year''],
                 seqs [Chr (of_char CHR ''/''), Rep 0 is_space, word ''year''],
                 word ''annually'', word ''p.a.'', word ''/yr'', word ''/Yearly'']]"

text \<open>\<open>/(?:annual|yearly)\s*(?:premium|price|cost)[:\s]*\$([\d,]+(?:\.\d{2})?)/i\<close>\<close>

definition annual_label_rx :: rx where
  "annual_label_rx =
     seqs [alts [word ''annual'', word ''yearly''], Rep 0 is_space,
           alts [word ''premium'', word ''price'', word ''cost''],
           Rep 0 (\<lambda>c. c = of_char CHR '':'' \<or> is_space c),
           Chr (of_char CHR ''$''), Grp amount_rx]"

text \<open>
  \<open>/\$([\d,]+(?:\.\d{2})?)\s*(?:per\s*month|\/\s*month|\/Monthly|monthly|p\.m\.|\/mo)/i\<close>
\<close>

definition monthly_period_rx :: rx where
  "monthly_period_rx =
     seqs [Chr (of_char CHR ''$''), Grp amount_rx, Rep 0 is_space,
           alts [seqs [word ''per'', Rep 0 is_space, word ''month''],
                 seqs [Chr (of_char CHR ''/''), Rep 0 is_space, word ''month''],
                 word ''/Monthly'', word ''monthly'', word ''p.m.'', word ''/mo'']]"

text \<open>\<open>/(?:monthly)\s*(?:premium|price|cost)[:\s]*\$([\d,]+(?:\.\d{2})?)/i\<close>\<close>

definition monthly_label_rx :: rx where
  "monthly_label_rx =
     seqs [word ''monthly'', Rep 0 is_space,
           alts [word ''premium'', word ''price'', word ''cost''],
           Rep 0 (\<lambda>c. c = of_char CHR '':'' \<or> is_space c),
           Chr (of_char CHR ''$''), Grp amount_rx]"

section \<open>Premium extraction\<close>

text \<open>
  \<open>parseFloat\<close> on the texts the patterns capture once commas (and the dollar sign)
  are removed: decimal digits with an optional fraction, no sign, no exponent and no
  leading blanks. A text with no digit at its start is \<open>NaN\<close>.
\<close>

definition digit_val :: "int \<Rightarrow> nat" where
  "digit_val c = (if is_digit c then nat (c - 0x30) else 0)"

definition decimal :: "jstring \<Rightarrow> nat" where
  "decimal ds = foldl (\<lambda>n c. 10 * n + digit_val c) 0 ds"

definition parseFloat :: "(rat \<Rightarrow> rat) \<Rightarrow> jstring \<Rightarrow> jsnum" where
  "parseFloat rnd s =
     (let ip = takeWhile is_digit s;
          fp = (case dropWhile is_digit s of
                  [] \<Rightarrow> []
                | c # cs \<Rightarrow> if c = of_char CHR ''.'' then takeWhile is_digit cs else [])
      in if ip = [] \<and> fp = [] then NaN
         else Fin (rnd (of_nat (decimal ip) + of_nat (decimal fp) / 10 ^ length fp)))"

fun jge :: "jsnum \<Rightarrow> rat \<Rightarrow> bool" where
  "jge (Fin x) k = (k \<le> x)"
| "jge NaN k = False"

fun jle :: "jsnum \<Rightarrow> rat \<Rightarrow> bool" where
  "jle (Fin x) k = (x \<le> k)"
| "jle NaN k = False"

fun jlt :: "jsnum \<Rightarrow> rat \<Rightarrow> bool" where
  "jlt (Fin x) k = (x < k)"
| "jlt NaN k = False"

definition isNaN :: "jsnum \<Rightarrow> bool" where
  "isNaN n = (n = NaN)"

text \<open>The local variables \<open>annualPremium\<close>, \<open>monthlyPremium\<close> and \<open>excessAmount\<close>.\<close>

record premiums =
  annualPremium :: "jsnum option"
  monthlyPremium :: "jsnum option"
  excessAmount :: "jsnum option"

text \<open>The array \<open>premPatterns\<close>: each pattern with its \<open>type\<close>.\<close>

definition premPatterns :: "(rx \<times> jstring) list" where
  "premPatterns =
     [(annual_period_rx, str ''annual''),
      (annual_label_rx, str ''annual''),
      (monthly_period_rx, str ''monthly''),
      (monthly_label_rx, str ''monthly'')]"

text \<open>
  One round of the loop over \<open>premPatterns\<close>:
  \<^verbatim>\<open>const m = resultText.match(pattern);
  if (m) { const amount = parseFloat(m[1].replace(/,/g, ""));
           if (type === "monthly") monthlyPremium = amount; else annualPremium = amount; }\<close>
  The loop has no \<open>break\<close>: every pattern is tried, and a later match assigns again.
\<close>

definition applyPattern :: "(rat \<Rightarrow> rat) \<Rightarrow> jstring \<Rightarrow> premiums \<Rightarrow> rx \<times> jstring \<Rightarrow> premiums" where
  "applyPattern rnd resultText acc pt =
     (case search True (fst pt) resultText of
        None \<Rightarrow> acc
      | Some m1 \<Rightarrow>
          (let amount = parseFloat rnd (filter (\<lambda>c. c \<noteq> of_char CHR '','') m1)
           in if snd pt = str ''monthly'' then acc\<lparr>monthlyPremium := Some amount\<rparr>
              else acc\<lparr>annualPremium := Some amount\<rparr>))"

definition labelledPremiums :: "(rat \<Rightarrow> rat) \<Rightarrow> jstring \<Rightarrow> premiums" where
  "labelledPremiums rnd resultText =
     foldl (applyPattern rnd resultText)
       \<lparr>annualPremium = None, monthlyPremium = None, excessAmount = None\<rparr> premPatterns"

text \<open>
  The fallback block, run when \<open>!annualPremium && !monthlyPremium\<close>. A variable no
  candidate is found for keeps the value it had.
\<close>

definition fallbackPremiums :: "(rat \<Rightarrow> rat) \<Rightarrow> jstring list \<Rightarrow> premiums \<Rightarrow> premiums" where
  "fallbackPremiums rnd allAmounts acc =
     (let numericAmounts =
            filter (\<lambda>n. \<not> isNaN n)
              (map (\<lambda>a. parseFloat rnd
                          (filter (\<lambda>c. c \<noteq> of_char CHR ''$'' \<and> c \<noteq> of_char CHR '','') a))
                 allAmounts);
          annualCandidates = filter (\<lambda>n. jge n 300 \<and> jle n 8000) numericAmounts;
          monthlyCandidates = filter (\<lambda>n. jge n 25 \<and> jlt n 300) numericAmounts;
          excessCandidates =
            filter (\<lambda>n. n \<in> set [Fin 650, Fin 800, Fin 1000, Fin 1500]) numericAmounts
      in \<lparr>annualPremium =
            (case annualCandidates of [] \<Rightarrow> annualPremium acc | n # ns \<Rightarrow> Some n),
          monthlyPremium =
            (case monthlyCandidates of [] \<Rightarrow> monthlyPremium acc | n # ns \<Rightarrow> Some n),
          excessAmount =
            (case excessCandidates of [] \<Rightarrow> excessAmount acc | n # ns \<Rightarrow> Some n)\<rparr>)"

text \<open>\<open>const allAmounts = resultText.match(/\$[\d,]+(?:\.\d{2})?/g) || []\<close>\<close>

definition allAmountsOf :: "jstring \<Rightarrow> jstring list" where
  "allAmountsOf resultText = matchAll False dollar_amount_rx resultText"

definition extractPremiums :: "(rat \<Rightarrow> rat) \<Rightarrow> jstring \<Rightarrow> premiums" where
  "extractPremiums rnd resultText =
     (let p = labelledPremiums rnd resultText
      in if \<not> truthy_opt (annualPremium p) \<and> \<not> truthy_opt (monthlyPremium p)
         then fallbackPremiums rnd (allAmountsOf resultText) p
         else p)"

text \<open>
  A page on which both annual patterns match: the period pattern at "$1,200 per year",
  the label pattern at "Annual premium: $1,500".
\<close>

definition two_annual_text :: jstring where
  "two_annual_text = str ''$1,200 per year. Annual premium: $1,500''"

lemma two_annual_period: "search True annual_period_rx two_annual_text = Some (str ''1,200'')"
  by code_simp

lemma two_annual_label: "search True annual_label_rx two_annual_text = Some (str ''1,500'')"
  by code_simp

lemma two_annual_monthly_period: "search True monthly_period_rx two_annual_text = None"
  by code_simp

lemma two_annual_monthly_label: "search True monthly_label_rx two_annual_text = None"
  by code_simp

lemma parseFloat_1500:
  "parseFloat id (filter (\<lambda>c. c \<noteq> of_char CHR '','') (str ''1,500'')) = Fin 1500"
  by (simp add: str_def parseFloat_def is_digit_def decimal_def digit_val_def)

lemma parseFloat_1200:
  "parseFloat id (filter (\<lambda>c. c \<noteq> of_char CHR '','') (str ''1,200'')) = Fin 1200"
  by (simp add: str_def parseFloat_def is_digit_def decimal_def digit_val_def)

lemma two_annual_labelled:
  "labelledPremiums id two_annual_text
     = \<lparr>annualPremium = Some (Fin 1500), monthlyPremium = None, excessAmount = None\<rparr>"
  by (simp add: labelledPremiums_def premPatterns_def applyPattern_def
        two_annual_period two_annual_label two_annual_monthly_period two_annual_monthly_label
        parseFloat_1500 [simplified] parseFloat_1200 [simplified])

text \<open>
  Claim C3, the code at a page on which two annual rules match. The first rule in the
  order of the list (the period marker) matches with the amount 1,200; the loop goes on,
  the second rule (the label) matches too, and its amount 1500 is the annual premium the
  extraction gives. The last rule that matches wins, not the first.
\<close>

theorem extraction_last_matching_rule_wins:
  "search True (fst (premPatterns ! 0)) two_annual_text = Some (str ''1,200'')
   \<and> search True (fst (premPatterns ! 1)) two_annual_text = Some (str ''1,500'')
   \<and> annualPremium (extractPremiums id two_annual_text) = Some (Fin 1500)"
  by (simp add: premPatterns_def two_annual_period two_annual_label
        extractPremiums_def two_annual_labelled)

subsection \<open>Every premium pattern contains a dollar amount\<close>

lemma in_set_nonempty: "x \<in> set xs \<Longrightarrow> xs \<noteq> []"
  by auto

lemma nonempty_has_elem: "xs \<noteq> [] \<Longrightarrow> \<exists>x. x \<in> set xs"
  by (cases xs) auto

lemma mt_suffix: "(g, r) \<in> set (mt ic rx s) \<Longrightarrow> suffix r s"
proof (induction rx arbitrary: s g r)
  case Eps
  then show ?case by simp
next
  case (Chr c)
  then show ?case by (cases s) (auto simp: suffix_Cons split: if_splits)
next
  case (Cls p)
  then show ?case by (cases s) (auto simp: suffix_Cons split: if_splits)
next
  case (Rep n p)
  then show ?case by (auto simp: suffix_drop)
next
  case (Seq a b)
  from Seq.prems obtain g1 r1 g2 where a: "(g1, r1) \<in> set (mt ic a s)"
    and b: "(g2, r) \<in> set (mt ic b r1)"
    by auto
  from Seq.IH(2) [OF b] Seq.IH(1) [OF a] show ?case
    by (rule suffix_order.order_trans)
next
  case (Alt a b)
  then show ?case by auto
next
  case (Grp a)
  then show ?case by auto
qed

lemma mt_Seq_nonempty:
  assumes "mt ic (Seq a b) s \<noteq> []"
  shows "\<exists>g r. (g, r) \<in> set (mt ic a s) \<and> mt ic b r \<noteq> []"
proof -
  from assms obtain x where x: "x \<in> set (mt ic a s)"
    and ne: "(case x of (g, r) \<Rightarrow>
                map (\<lambda>(g', r'). (case g' of None \<Rightarrow> g | Some c \<Rightarrow> Some c, r')) (mt ic b r))
             \<noteq> []"
    by (auto simp: concat_eq_Nil_conv)
  obtain g r where "x = (g, r)" by (cases x)
  with x ne show ?thesis by auto
qed

lemma mt_Seq_nonemptyI:
  assumes "(g, r) \<in> set (mt ic a s)" and "mt ic b r \<noteq> []"
  shows "mt ic (Seq a b) s \<noteq> []"
proof -
  from assms(2)
  have "map (\<lambda>(g', r'). (case g' of None \<Rightarrow> g | Some c \<Rightarrow> Some c, r')) (mt ic b r) \<noteq> []"
    by simp
  with assms(1) show ?thesis
    by (auto simp: concat_eq_Nil_conv intro!: bexI [of _ "(g, r)"])
qed

lemma search_Some_match:
  "search ic rx s = Some m \<Longrightarrow> \<exists>t. suffix t s \<and> mt ic rx t \<noteq> []"
proof (induction s)
  case Nil
  then show ?case by (auto split: list.splits)
next
  case (Cons x xs)
  show ?case
  proof (cases "mt ic rx (x # xs)")
    case Nil
    with Cons.prems have "search ic rx xs = Some m" by simp
    from Cons.IH [OF this] obtain t where "suffix t xs" "mt ic rx t \<noteq> []" by blast
    then show ?thesis by (auto simp: suffix_Cons)
  next
    case (Cons y ys)
    then have "mt ic rx (x # xs) \<noteq> []" by simp
    then show ?thesis by blast
  qed
qed

lemma matchAll_nonempty:
  "suffix u s \<Longrightarrow> mt ic rx u \<noteq> [] \<Longrightarrow> matchAll ic rx s \<noteq> []"
proof (induction s)
  case Nil
  then show ?case by (auto split: list.splits)
next
  case (Cons x xs)
  show ?case
  proof (cases "mt ic rx (x # xs)")
    case Nil
    with Cons.prems have "u \<noteq> x # xs" by auto
    with Cons.prems(1) have "suffix u xs" by (auto simp: suffix_Cons)
    from Cons.IH [OF this Cons.prems(2)] Nil show ?thesis by simp
  next
    case (Cons y ys)
    then show ?thesis by (cases y) simp
  qed
qed

text \<open>A text that starts with a dollar sign followed by a digit or a comma.\<close>

definition dollar_start :: "jstring \<Rightarrow> bool" where
  "dollar_start u =
     (\<exists>c rest. u = of_char CHR ''$'' # c # rest \<and> (is_digit c \<or> c = of_char CHR '',''))"

lemma canonicalize_dollar:
  assumes "canonicalize x = canonicalize (of_char CHR ''$'')"
  shows "x = of_char CHR ''$''"
proof -
  have d: "canonicalize (of_char CHR ''$'') = 0x24"
    by (simp add: canonicalize_def upperUnit_def)
  show ?thesis
  proof (cases "x < 0x80")
    case True
    with assms d show ?thesis
      by (simp add: canonicalize_def upperUnit_def split: if_splits)
  next
    case False
    with assms d show ?thesis
      by (cases "upperUnit x") (auto simp: canonicalize_def split: list.splits if_splits)
  qed
qed

lemma Rep1_nonempty:
  assumes "mt ic (Rep 1 p) r \<noteq> []"
  shows "\<exists>c rest. r = c # rest \<and> p c"
proof (cases r)
  case Nil
  with assms show ?thesis by simp
next
  case (Cons c rest)
  with assms show ?thesis by (cases "p c") simp_all
qed

lemma amount_nonempty:
  assumes "mt ic amount_rx r \<noteq> []"
  shows "\<exists>c rest. r = c # rest \<and> (is_digit c \<or> c = of_char CHR '','')"
proof -
  have "mt ic (Seq (Rep 1 (\<lambda>c. is_digit c \<or> c = of_char CHR '',''))
                     (Alt (seqs [Chr (of_char CHR ''.''), Cls is_digit, Cls is_digit]) Eps)) r \<noteq> []"
    using assms unfolding amount_rx_def .
  from mt_Seq_nonempty [OF this] obtain g r'
    where "(g, r') \<in> set (mt ic (Rep 1 (\<lambda>c. is_digit c \<or> c = of_char CHR '','')) r)"
    by blast
  then have "mt ic (Rep 1 (\<lambda>c. is_digit c \<or> c = of_char CHR '','')) r \<noteq> []"
    by (rule in_set_nonempty)
  then show ?thesis by (rule Rep1_nonempty)
qed

lemma dollar_then_amount:
  assumes "mt ic (Seq (Chr (of_char CHR ''$'')) (Seq (Grp amount_rx) rest)) u \<noteq> []"
  shows "dollar_start u"
proof -
  from mt_Seq_nonempty [OF assms] obtain g r
    where c: "(g, r) \<in> set (mt ic (Chr (of_char CHR ''$'')) u)"
      and m: "mt ic (Seq (Grp amount_rx) rest) r \<noteq> []"
    by blast
  from c have u: "u = of_char CHR ''$'' # r"
    by (cases u) (auto split: if_splits dest: canonicalize_dollar [simplified])
  from mt_Seq_nonempty [OF m] have "mt ic (Grp amount_rx) r \<noteq> []" by auto
  then have "mt ic amount_rx r \<noteq> []" by simp
  from amount_nonempty [OF this] u show ?thesis by (auto simp: dollar_start_def)
qed

text \<open>Every match of an expression holds a dollar amount.\<close>

definition holds_amount :: "rx \<Rightarrow> bool" where
  "holds_amount rx = (\<forall>ic t. mt ic rx t \<noteq> [] \<longrightarrow> (\<exists>u. suffix u t \<and> dollar_start u))"

lemma holds_amount_dollar: "holds_amount (Seq (Chr (of_char CHR ''$'')) (Seq (Grp amount_rx) rest))"
  unfolding holds_amount_def using dollar_then_amount by blast

lemma holds_amount_Seq: "holds_amount b \<Longrightarrow> holds_amount (Seq a b)"
  unfolding holds_amount_def
proof (intro allI impI)
  fix ic t
  assume b: "\<forall>ic t. mt ic b t \<noteq> [] \<longrightarrow> (\<exists>u. suffix u t \<and> dollar_start u)"
    and m: "mt ic (Seq a b) t \<noteq> []"
  from mt_Seq_nonempty [OF m] obtain g r
    where a: "(g, r) \<in> set (mt ic a t)" and "mt ic b r \<noteq> []" by blast
  with b obtain u where "suffix u r" "dollar_start u" by blast
  moreover from a have "suffix r t" by (rule mt_suffix)
  ultimately show "\<exists>u. suffix u t \<and> dollar_start u"
    using suffix_order.order_trans by blast
qed

lemma holds_amount_patterns:
  "holds_amount annual_period_rx" "holds_amount annual_label_rx"
  "holds_amount monthly_period_rx" "holds_amount monthly_label_rx"
  unfolding annual_period_rx_def annual_label_rx_def monthly_period_rx_def
    monthly_label_rx_def seqs.simps
  by (intro holds_amount_Seq holds_amount_dollar)+

lemma dollar_start_matches: "dollar_start u \<Longrightarrow> mt False dollar_amount_rx u \<noteq> []"
proof -
  assume "dollar_start u"
  then obtain c rest where u: "u = of_char CHR ''$'' # c # rest"
    and c: "is_digit c \<or> c = of_char CHR '',''"
    by (auto simp: dollar_start_def)
  let ?p = "\<lambda>c. is_digit c \<or> c = of_char CHR '',''"
  let ?frac = "Alt (seqs [Chr (of_char CHR ''.''), Cls is_digit, Cls is_digit]) Eps"
  from c have "takeWhile ?p (c # rest) = c # takeWhile ?p rest" by simp
  then have "rev [1 ..< Suc (length (takeWhile ?p (c # rest)))] \<noteq> []" by simp
  then have "mt False (Rep 1 ?p) (c # rest) \<noteq> []" by simp
  then obtain x where x: "x \<in> set (mt False (Rep 1 ?p) (c # rest))"
    using nonempty_has_elem by blast
  obtain g r where "x = (g, r)" by (cases x)
  with x have gr: "(g, r) \<in> set (mt False (Rep 1 ?p) (c # rest))" by blast
  have "mt False ?frac r \<noteq> []" by simp
  with gr have "mt False (Seq (Rep 1 ?p) ?frac) (c # rest) \<noteq> []"
    by (rule mt_Seq_nonemptyI)
  then have am: "mt False amount_rx (c # rest) \<noteq> []"
    unfolding amount_rx_def .
  have "(None, c # rest) \<in> set (mt False (Chr (of_char CHR ''$'')) (of_char CHR ''$'' # c # rest))" by simp
  from this am have "mt False (Seq (Chr (of_char CHR ''$'')) amount_rx) (of_char CHR ''$'' # c # rest) \<noteq> []"
    by (rule mt_Seq_nonemptyI)
  with u show ?thesis unfolding dollar_amount_rx_def by simp
qed

lemma no_amounts_no_match:
  assumes "allAmountsOf s = []" and "holds_amount rx"
  shows "search ic rx s = None"
proof (rule ccontr)
  assume "search ic rx s \<noteq> None"
  then obtain m where "search ic rx s = Some m" by auto
  from search_Some_match [OF this] obtain t where t: "suffix t s" "mt ic rx t \<noteq> []" by blast
  with assms(2) obtain u where u: "suffix u t" "dollar_start u"
    by (auto simp: holds_amount_def)
  from u(1) t(1) have "suffix u s" by (rule suffix_order.order_trans)
  moreover from u(2) have "mt False dollar_amount_rx u \<noteq> []" by (rule dollar_start_matches)
  ultimately have "matchAll False dollar_amount_rx s \<noteq> []" by (rule matchAll_nonempty)
  with assms(1) show False by (simp add: allAmountsOf_def)
qed

text \<open>A page without a dollar amount gives no premium.\<close>

lemma no_amounts_no_premium:
  assumes "allAmountsOf s = []"
  shows "extractPremiums rnd s
           = \<lparr>annualPremium = None, monthlyPremium = None, excessAmount = None\<rparr>"
proof -
  have "search True rx s = None"
    if "rx \<in> {annual_period_rx, annual_label_rx, monthly_period_rx, monthly_label_rx}" for rx
    using that no_amounts_no_match [OF assms] holds_amount_patterns by auto
  then have "labelledPremiums rnd s
           = \<lparr>annualPremium = None, monthlyPremium = None, excessAmount = None\<rparr>"
    by (simp add: labelledPremiums_def premPatterns_def applyPattern_def)
  with assms show ?thesis
    by (simp add: extractPremiums_def fallbackPremiums_def)
qed

lemma premium_needs_amounts:
  "truthy_opt (annualPremium (extractPremiums rnd s))
     \<or> truthy_opt (monthlyPremium (extractPremiums rnd s))
   \<Longrightarrow> allAmountsOf s \<noteq> []"
  using no_amounts_no_premium [of s rnd] by auto

section \<open>The rego-mode scraper (scrapeRacvQuote)\<close>

subsection \<open>Data\<close>

record RacvQuoteInput =
  rego :: jstring
  address :: jstring
  driver_age :: nat
  driver_gender :: jstring
  licence_age :: nat
  claims_last_5_years :: nat
  is_racv_member :: "bool option"
  under_finance :: "bool option"
  purpose :: "jstring option"

record RacvQuoteResult =
  success :: bool
  vehicle_description :: "jstring option"
  annual_premium :: "jsnum option"
  monthly_premium :: "jsnum option"
  excess_amount :: "jsnum option"
  raw_amounts :: "jstring list option"
  screenshot_path :: "jstring option"
  error :: "jstring option"
  step_reached :: "jstring option"

text \<open>\<open>VehicleInfo\<close>; its field \<open>make\<close> is \<open>vmake\<close> here.\<close>

record VehicleInfo =
  year :: jstring
  vmake :: jstring
  model :: jstring
  bodyType :: jstring
  variant :: jstring
  description :: jstring

subsection \<open>Effects\<close>

text \<open>
  What the call does to the browser is kept as the list of the actions it completed, in
  order. An awaited call resolves or rejects; a block of statements goes on to the next
  statement with a value, returns a result from the function, or throws.
  \<open>SelectYear y\<close> is \<open>yearEl.selectOption(y)\<close>, whose failure the code ignores.
  \<open>SelectOption f i l\<close> is \<open>sel.selectOption({ label: l })\<close> on the visible select number
  \<open>i\<close> of the page, made by the loop that fills the field \<open>f\<close>.
\<close>

datatype selector = MakeSelect | ModelSelect | BodySelect

datatype event =
    NewContext | NewPage | Goto | ClickRegoLink | EnterRego nat
  | SelectYear jstring | SelectOption selector nat jstring | ClickSearch | Screenshot jstring
  | FillYourCar | FillAboutYou | SubmitQuote
  | WaitForQuote | ClickBackToForm | Resubmit
  | ClosePage | CloseContext

datatype 'a res = Resolved 'a | Rejected jstring

datatype 'a exit = Next 'a | Return RacvQuoteResult | Throw jstring

type_synonym 'a act = "event list \<times> 'a exit"

definition andThen :: "'a act \<Rightarrow> ('a \<Rightarrow> 'b act) \<Rightarrow> 'b act" where
  "andThen m f =
     (case m of
        (es, Next x) \<Rightarrow> (case f x of (es', r) \<Rightarrow> (es @ es', r))
      | (es, Return r) \<Rightarrow> (es, Return r)
      | (es, Throw e) \<Rightarrow> (es, Throw e))"

text \<open>
  A block of awaited calls that gives no value: it completes its actions, or one of its
  calls rejects and the block throws.
\<close>

definition block :: "event list \<Rightarrow> jstring option \<Rightarrow> unit act" where
  "block es fault = (case fault of None \<Rightarrow> (es, Next ()) | Some e \<Rightarrow> ([], Throw e))"

subsection \<open>What the page shows\<close>

text \<open>
  The target page is outside the program. Each record below holds what the page shows
  at one place of the flow, and whether a call of that place rejects (a timeout of
  \<open>waitFor\<close> or \<open>click\<close>, a closed page).
\<close>

text \<open>One round of the 25 one-second polls after "Find your car".\<close>

record poll =
  addressVisible :: bool
  bodyText :: jstring
  headings :: "jstring list"

text \<open>
  The page during the manual search. \<open>makeSelects\<close>, \<open>modelSelects\<close> and \<open>bodySelects\<close> are
  the option texts of the visible selects, in the order of the page, as the loop for the
  make, for the model and for the body type reads them (a selection can change what the
  later selects list).
\<close>

record manual_page =
  manualFault :: "jstring option"
  yearSelectVisible :: bool
  makeSelects :: "jstring list list"
  modelSelects :: "jstring list list"
  bodySelects :: "jstring list list"
  searchVisible :: bool
  addressAfterSearch :: bool
  variantHeadings :: "jstring list"

text \<open>
  One attempt of the vehicle lookup. \<open>lookups\<close> are the results of
  \<open>extractVehicleFromAuraResponse\<close> on the backend responses seen so far, oldest first
  (\<open>None\<close> for \<open>null\<close>).
\<close>

record attempt_page =
  regoLinkVisible :: bool
  restartFault :: "jstring option"
  entryFault :: "jstring option"
  polls :: "nat \<Rightarrow> poll res"
  lookups :: "VehicleInfo option list"
  manual :: manual_page

text \<open>One round of the wait for the quote.\<close>

record quote_page =
  quoteAppears :: bool
  checkFault :: "jstring option"
  bodyCheck :: jstring
  backVisible :: bool
  retryVisible :: bool
  recoveryFault :: "jstring option"

record final_page =
  finalFault :: "jstring option"
  resultText :: jstring
  currentErrors :: "jstring list res"

record env =
  launchFault :: "jstring option"
  contextFault :: "jstring option"
  pageFault :: "jstring option"
  navigateFault :: "jstring option"
  attempts :: "nat \<Rightarrow> attempt_page"
  notFoundShotFault :: "jstring option"
  yourCarFault :: "jstring option"
  errTexts :: "jstring list"
  aboutYouFault :: "jstring option"
  quoteWait :: "nat \<Rightarrow> quote_page"
  final :: final_page

subsection \<open>The expressions tested on the page\<close>

text \<open>\<open>/(\d{4}\s+[A-Z][A-Z0-9\s]+(?:\([^)]+\))?)/\<close>\<close>

definition car_rx :: rx where
  "car_rx =
     Grp (seqs [Cls is_digit, Cls is_digit, Cls is_digit, Cls is_digit, Rep 1 is_space,
                Cls is_upper, Rep 1 (\<lambda>c. is_upper c \<or> is_digit c \<or> is_space c),
                Alt (seqs [Chr (of_char CHR ''(''), Rep 1 (\<lambda>c. c \<noteq> of_char CHR '')''),
                           Chr (of_char CHR '')'')])
                    Eps])"

text \<open>\<open>/\d{4}\s+[A-Z]{2,}/\<close>\<close>

definition heading_rx :: rx where
  "heading_rx =
     seqs [Cls is_digit, Cls is_digit, Cls is_digit, Cls is_digit, Rep 1 is_space,
           Rep 2 is_upper]"

text \<open>\<open>/couldn.t find a vehicle|could not find a vehicle/i\<close>\<close>

definition not_found_rx :: rx where
  "not_found_rx =
     Alt (seqs [word ''couldn'', Cls (\<lambda>c. \<not> is_line_terminator c),
                word ''t find a vehicle''])
         (word ''could not find a vehicle'')"

text \<open>\<open>/system error|technical problem/i\<close>\<close>

definition system_error_rx :: rx where
  "system_error_rx = Alt (word ''system error'') (word ''technical problem'')"

text \<open>\<open>/address/i\<close>\<close>

definition address_rx :: rx where
  "address_rx = word ''address''"

subsection \<open>Vehicle lookup\<close>

text \<open>
  The response handlers keep a vehicle record only when it is well formed:
  \<^verbatim>\<open>if (vehicle && vehicle.year && vehicle.make) captured.vehicle = vehicle;\<close>
\<close>

definition capture :: "VehicleInfo option \<Rightarrow> VehicleInfo option \<Rightarrow> VehicleInfo option" where
  "capture cur found =
     (case found of
        None \<Rightarrow> cur
      | Some v \<Rightarrow> if year v \<noteq> [] \<and> vmake v \<noteq> [] then Some v else cur)"

definition capturedVehicle :: "attempt_page \<Rightarrow> VehicleInfo option" where
  "capturedVehicle pg = foldl capture None (lookups pg)"

text \<open>
  The loop \<open>for (let wait = 0; wait < 25; wait++)\<close>: the address field shows (the lookup
  succeeded), or a heading names a car, or the page says it could not find the vehicle;
  otherwise the next round.
\<close>

datatype lookup = Found jstring | NotFoundMessage | NoAnswer

function pollForVehicle :: "attempt_page \<Rightarrow> nat \<Rightarrow> lookup res" where
  "pollForVehicle pg wait =
     (if wait < 25 then
        (case polls pg wait of
           Rejected e \<Rightarrow> Rejected e
         | Resolved p \<Rightarrow>
             if addressVisible p then
               Resolved (Found
                 (case search False car_rx (bodyText p) of
                    Some c \<Rightarrow> trim c
                  | None \<Rightarrow>
                      (case capturedVehicle pg of
                         Some v \<Rightarrow> description v
                       | None \<Rightarrow> str ''Vehicle found'')))
             else
               (case find (\<lambda>h. test False heading_rx (trim h)) (headings p) of
                  Some h \<Rightarrow> Resolved (Found (trim h))
                | None \<Rightarrow>
                    if test True not_found_rx (bodyText p) then Resolved NotFoundMessage
                    else pollForVehicle pg (Suc wait)))
      else Resolved NoAnswer)"
  by pat_completeness auto
termination
  by (relation "measure (\<lambda>(pg, wait). 25 - wait)") auto

text \<open>
  The test of \<open>options.find\<close> for the make and for the model:
  \<^verbatim>\<open>o.toUpperCase().includes(cv.make.toUpperCase()) ||
  cv.make.toUpperCase().includes(o.toUpperCase().trim())\<close>
  and for the body type, where both directions use the trimmed text:
  \<^verbatim>\<open>const upper = o.toUpperCase().trim();
  return upper.includes(cv.bodyType.toUpperCase()) || cv.bodyType.toUpperCase().includes(upper);\<close>
\<close>

definition optionMatches :: "jstring \<Rightarrow> jstring \<Rightarrow> bool" where
  "optionMatches wanted opt =
     (str_includes (toUpperCase opt) (toUpperCase wanted)
      \<or> str_includes (toUpperCase wanted) (trim (toUpperCase opt)))"

definition bodyOptionMatches :: "jstring \<Rightarrow> jstring \<Rightarrow> bool" where
  "bodyOptionMatches wanted opt =
     (str_includes (trim (toUpperCase opt)) (toUpperCase wanted)
      \<or> str_includes (toUpperCase wanted) (trim (toUpperCase opt)))"

text \<open>
  The loop \<open>for (let i = 0; i < makeCount; i++)\<close> over the visible selects, from select
  \<open>i\<close> on: in each, the first option that passes the test; if its text is not blank it is
  selected in that select by its trimmed label and the loop ends, otherwise the next
  select is tried. The result is the select and the label, if any.
\<close>

fun chooseOption :: "(jstring \<Rightarrow> bool) \<Rightarrow> nat \<Rightarrow> jstring list list \<Rightarrow> (nat \<times> jstring) option" where
  "chooseOption matches i [] = None"
| "chooseOption matches i (options # rest) =
     (case find matches options of
        Some opt \<Rightarrow>
          if trim opt \<noteq> [] then Some (i, trim opt) else chooseOption matches (Suc i) rest
      | None \<Rightarrow> chooseOption matches (Suc i) rest)"

definition selection :: "selector \<Rightarrow> (nat \<times> jstring) option \<Rightarrow> event list" where
  "selection f chosen = (case chosen of None \<Rightarrow> [] | Some (i, l) \<Rightarrow> [SelectOption f i l])"

text \<open>
  The manual search with the captured record. It gives the vehicle description when the
  address field or a car heading shows afterwards (the attempt loop then ends), and
  nothing otherwise.
\<close>

definition manualSearch :: "VehicleInfo \<Rightarrow> manual_page \<Rightarrow> nat \<Rightarrow> jstring option act" where
  "manualSearch cv mp attempt =
     (case manualFault mp of
        Some e \<Rightarrow> ([], Throw e)
      | None \<Rightarrow>
          (let done =
                 (if yearSelectVisible mp then [SelectYear (year cv)] else [])
                 @ selection MakeSelect
                     (chooseOption (optionMatches (vmake cv)) 0 (makeSelects mp))
                 @ selection ModelSelect
                     (chooseOption (optionMatches (model cv)) 0 (modelSelects mp))
                 @ selection BodySelect
                     (chooseOption (bodyOptionMatches (bodyType cv)) 0 (bodySelects mp))
                 @ [Screenshot (str ''/tmp/racv-manual-search.png'')]
                 @ (if searchVisible mp then [ClickSearch] else [])
           in if addressAfterSearch mp then (done, Next (Some (description cv)))
              else
                (case find (\<lambda>h. test False heading_rx (trim h)) (variantHeadings mp) of
                   Some h \<Rightarrow> (done, Next (Some (trim h)))
                 | None \<Rightarrow>
                     (done @ [Screenshot (str ''/tmp/racv-manual-'' @ show_nat attempt @ str ''.png'')],
                      Next None))))"

text \<open>
  One round of \<open>for (let attempt = 1; attempt <= 3; attempt++)\<close>. After the first
  round the form is brought back to the registration entry (\<open>restart\<close>): by the link
  "search by registration" when it shows, by loading the page again otherwise. \<open>Some d\<close>
  stands for \<open>break\<close> with \<open>vehicleDesc = d\<close>.
\<close>

definition restart :: "attempt_page \<Rightarrow> nat \<Rightarrow> unit act" where
  "restart pg attempt =
     (if attempt > 1
      then block [if regoLinkVisible pg then ClickRegoLink else Goto] (restartFault pg)
      else ([], Next ()))"

definition attemptLookup :: "attempt_page \<Rightarrow> nat \<Rightarrow> jstring option act" where
  "attemptLookup pg attempt =
     andThen (restart pg attempt)
       (\<lambda>u. andThen (block [EnterRego attempt] (entryFault pg))
          (\<lambda>u. case pollForVehicle pg 0 of
                  Rejected e \<Rightarrow> ([], Throw e)
                | Resolved (Found d) \<Rightarrow> ([], Next (Some d))
                | Resolved NotFoundMessage \<Rightarrow>
                    (case capturedVehicle pg of
                       Some cv \<Rightarrow> manualSearch cv (manual pg) attempt
                     | None \<Rightarrow> ([], Next None))
                | Resolved NoAnswer \<Rightarrow> ([], Next None)))"

text \<open>The whole loop, from round \<open>attempt\<close> on; it gives \<open>vehicleDesc\<close>.\<close>

function resolveVehicle :: "env \<Rightarrow> nat \<Rightarrow> jstring act" where
  "resolveVehicle env attempt =
     (if attempt \<le> 3 then
        (case attemptLookup (attempts env attempt) attempt of
           (es, Next (Some d)) \<Rightarrow> (es, Next d)
         | (es, Next None) \<Rightarrow>
             (case resolveVehicle env (Suc attempt) of (es', r) \<Rightarrow> (es @ es', r))
         | (es, Return r) \<Rightarrow> (es, Return r)
         | (es, Throw e) \<Rightarrow> (es, Throw e))
      else ([], Next []))"
  by pat_completeness auto
termination
  by (relation "measure (\<lambda>(env, attempt). 4 - attempt)") auto

subsection \<open>The results the function returns\<close>

definition notFoundResult :: "RacvQuoteInput \<Rightarrow> RacvQuoteResult" where
  "notFoundResult input =
     \<lparr>success = False, vehicle_description = None, annual_premium = None,
      monthly_premium = None, excess_amount = None, raw_amounts = None,
      screenshot_path = Some (str ''/tmp/racv-not-found.png''),
      error = Some (str ''Could not find a vehicle with registration '' @ rego input
                    @ str '' after multiple attempts. RACV's lookup service may be temporarily unavailable.''),
      step_reached = Some (str ''rego_lookup'')\<rparr>"

definition addressErrorResult :: "jstring \<Rightarrow> RacvQuoteResult" where
  "addressErrorResult vehicleDesc =
     \<lparr>success = False, vehicle_description = Some vehicleDesc, annual_premium = None,
      monthly_premium = None, excess_amount = None, raw_amounts = None,
      screenshot_path = None,
      error = Some (str ''Could not validate the address. Please provide a valid Victorian street address.''),
      step_reached = Some (str ''your_car'')\<rparr>"

definition quoteResult :: "jstring \<Rightarrow> premiums \<Rightarrow> jstring list \<Rightarrow> RacvQuoteResult" where
  "quoteResult vehicleDesc p allAmounts =
     \<lparr>success = True, vehicle_description = Some vehicleDesc,
      annual_premium = annualPremium p, monthly_premium = monthlyPremium p,
      excess_amount = excessAmount p, raw_amounts = Some allAmounts,
      screenshot_path = Some (str ''/tmp/racv-quote-result.png''),
      error = None, step_reached = None\<rparr>"

definition validationErrorResult :: "jstring \<Rightarrow> jstring list \<Rightarrow> jstring list \<Rightarrow> RacvQuoteResult" where
  "validationErrorResult vehicleDesc errs allAmounts =
     \<lparr>success = False, vehicle_description = Some vehicleDesc, annual_premium = None,
      monthly_premium = None, excess_amount = None, raw_amounts = Some allAmounts,
      screenshot_path = Some (str ''/tmp/racv-quote-result.png''),
      error = Some (str ''Form validation errors: '' @ join (str '', '') (filter (\<lambda>e. trim e \<noteq> []) errs)),
      step_reached = Some (str ''about_you'')\<rparr>"

definition noPremiumResult :: "jstring \<Rightarrow> jstring list \<Rightarrow> RacvQuoteResult" where
  "noPremiumResult vehicleDesc allAmounts =
     \<lparr>success = False, vehicle_description = Some vehicleDesc, annual_premium = None,
      monthly_premium = None, excess_amount = None, raw_amounts = Some allAmounts,
      screenshot_path = Some (str ''/tmp/racv-quote-result.png''),
      error = Some (str ''Reached the end of the form but could not extract a premium. The page may require additional steps.''),
      step_reached = Some (str ''quote_result'')\<rparr>"

text \<open>The result of the \<open>catch\<close> block.\<close>

definition scraperErrorResult :: "jstring \<Rightarrow> RacvQuoteResult" where
  "scraperErrorResult message =
     \<lparr>success = False, vehicle_description = None, annual_premium = None,
      monthly_premium = None, excess_amount = None, raw_amounts = None,
      screenshot_path = Some (str ''/tmp/racv-error.png''),
      error = Some (str ''Scraper error: '' @ message),
      step_reached = None\<rparr>"

subsection \<open>The steps of the form\<close>

text \<open>
  Opening the session: \<open>getBrowser\<close>, \<open>newContext\<close>, \<open>newPage\<close>, then the route, the
  response handler and the first navigation.
\<close>

definition openSession :: "env \<Rightarrow> unit act" where
  "openSession env =
     andThen (block [] (launchFault env))
       (\<lambda>u. andThen (block [NewContext] (contextFault env))
          (\<lambda>u. andThen (block [NewPage] (pageFault env))
             (\<lambda>u. block [Goto] (navigateFault env))))"

text \<open>\<open>if (!vehicleDesc) { await page.screenshot(...); return {...}; }\<close>\<close>

definition requireVehicle :: "env \<Rightarrow> RacvQuoteInput \<Rightarrow> jstring \<Rightarrow> jstring act" where
  "requireVehicle env input vehicleDesc =
     (if vehicleDesc = [] then
        andThen (block [Screenshot (str ''/tmp/racv-not-found.png'')] (notFoundShotFault env))
          (\<lambda>u. ([], Return (notFoundResult input)))
      else ([], Next vehicleDesc))"

text \<open>Step 2: address, finance, purpose, Continue; then the check for an address error.\<close>

definition fillYourCar :: "env \<Rightarrow> jstring \<Rightarrow> unit act" where
  "fillYourCar env vehicleDesc =
     andThen (block [FillYourCar] (yourCarFault env))
       (\<lambda>u. if list_ex (test True address_rx) (errTexts env)
             then ([], Return (addressErrorResult vehicleDesc))
             else ([Screenshot (str ''/tmp/racv-step2-done.png'')], Next ()))"

text \<open>Step 3: member, gender, age, licence age, claims; then Continue.\<close>

definition fillAboutYou :: "env \<Rightarrow> unit act" where
  "fillAboutYou env =
     block [FillAboutYou, Screenshot (str ''/tmp/racv-step3-filled.png''), SubmitQuote]
       (aboutYouFault env)"

text \<open>
  The loop \<open>for (let quoteAttempt = 0; quoteAttempt < 2; quoteAttempt++)\<close>. A round
  waits for an amount to show; when it shows the loop ends. Otherwise, if the page
  reports a system error and the button "back to form" shows, the button is clicked, and
  if Continue shows it is clicked again (\<open>continue\<close>); this is \<open>recover\<close>. In
  every case that does not end the loop the next round follows.
\<close>

definition recover :: "quote_page \<Rightarrow> unit act" where
  "recover pg =
     (if test True system_error_rx (bodyCheck pg) \<and> backVisible pg
      then block (ClickBackToForm # (if retryVisible pg then [Resubmit] else []))
             (recoveryFault pg)
      else ([], Next ()))"

function awaitQuote :: "env \<Rightarrow> nat \<Rightarrow> unit act" where
  "awaitQuote env quoteAttempt =
     (if quoteAttempt < 2 then
        (let pg = quoteWait env quoteAttempt in
         if quoteAppears pg then ([WaitForQuote], Next ())
         else
           andThen (block [WaitForQuote] (checkFault pg))
             (\<lambda>u. andThen (recover pg) (\<lambda>u. awaitQuote env (Suc quoteAttempt))))
      else ([], Next ()))"
  by pat_completeness auto
termination
  by (relation "measure (\<lambda>(env, quoteAttempt). 2 - quoteAttempt)") auto

text \<open>
  Step 4: the screenshot of the final page, its text, the extraction, and the three
  returns.
\<close>

definition extraction :: "(rat \<Rightarrow> rat) \<Rightarrow> final_page \<Rightarrow> jstring \<Rightarrow> unit exit" where
  "extraction rnd fp vehicleDesc =
     (let allAmounts = allAmountsOf (resultText fp);
          p = extractPremiums rnd (resultText fp)
      in if truthy_opt (annualPremium p) \<or> truthy_opt (monthlyPremium p)
         then Return (quoteResult vehicleDesc p allAmounts)
         else
           (case currentErrors fp of
              Rejected e \<Rightarrow> Throw e
            | Resolved errs \<Rightarrow>
                if errs \<noteq> []
                then Return (validationErrorResult vehicleDesc errs allAmounts)
                else Return (noPremiumResult vehicleDesc allAmounts)))"

definition extractQuote :: "(rat \<Rightarrow> rat) \<Rightarrow> final_page \<Rightarrow> jstring \<Rightarrow> unit act" where
  "extractQuote rnd fp vehicleDesc =
     andThen (block [Screenshot (str ''/tmp/racv-quote-result.png'')] (finalFault fp))
       (\<lambda>u. ([], extraction rnd fp vehicleDesc))"

subsection \<open>The function\<close>

text \<open>The statements of the \<open>try\<close> block up to the final page; they give \<open>vehicleDesc\<close>.\<close>

definition reachFinalPage :: "env \<Rightarrow> RacvQuoteInput \<Rightarrow> jstring act" where
  "reachFinalPage env input =
     andThen (openSession env)
       (\<lambda>u. andThen (resolveVehicle env 1)
          (\<lambda>d. andThen (requireVehicle env input d)
             (\<lambda>vehicleDesc. andThen (fillYourCar env vehicleDesc)
                (\<lambda>u. andThen (fillAboutYou env)
                   (\<lambda>u. andThen (awaitQuote env 0)
                      (\<lambda>u. ([], Next vehicleDesc)))))))"

definition tryBlock :: "(rat \<Rightarrow> rat) \<Rightarrow> env \<Rightarrow> RacvQuoteInput \<Rightarrow> unit act" where
  "tryBlock rnd env input =
     andThen (reachFinalPage env input) (extractQuote rnd (final env))"

text \<open>
  \<open>catch\<close> and \<open>finally\<close>. \<open>page\<close> and \<open>context\<close> are set exactly when \<open>newPage\<close> and
  \<open>newContext\<close> resolved. The \<open>catch\<close> block takes a screenshot if there is a page (a
  failure of it is swallowed) and returns the error result; the \<open>finally\<close> block closes
  the page if there is one, then the context if there is one (failures swallowed). The
  \<open>try\<close> block ends in a \<open>return\<close> on every path that does not throw.
\<close>

definition cleanup :: "event list \<Rightarrow> event list" where
  "cleanup es =
     (if NewPage \<in> set es then [ClosePage] else [])
     @ (if NewContext \<in> set es then [CloseContext] else [])"

definition scrapeRacvQuote :: "(rat \<Rightarrow> rat) \<Rightarrow> env \<Rightarrow> RacvQuoteInput \<Rightarrow> RacvQuoteResult \<times> event list" where
  "scrapeRacvQuote rnd env input =
     (case tryBlock rnd env input of
        (es, Return r) \<Rightarrow> (r, es @ cleanup es)
      | (es, Throw message) \<Rightarrow>
          (scraperErrorResult message,
           es @ (if NewPage \<in> set es then [Screenshot (str ''/tmp/racv-error.png'')] else [])
              @ cleanup es)
      | (es, Next u) \<Rightarrow> (scraperErrorResult (str ''unreachable''), es @ cleanup es))"

declare pollForVehicle.simps [simp del]
declare resolveVehicle.simps [simp del]
declare awaitQuote.simps [simp del]

subsection \<open>How blocks compose\<close>

lemma snd_andThen:
  "snd (andThen m f)
     = (case snd m of Next x \<Rightarrow> snd (f x) | Return r \<Rightarrow> Return r | Throw e \<Rightarrow> Throw e)"
  by (cases m; cases "snd m") (auto simp: andThen_def split: prod.splits)

lemma fst_andThen:
  "fst (andThen m f) = (case snd m of Next x \<Rightarrow> fst m @ fst (f x) | Return r \<Rightarrow> fst m | Throw e \<Rightarrow> fst m)"
  by (cases m; cases "snd m") (auto simp: andThen_def split: prod.splits)

lemma snd_block: "snd (block es fault) = (case fault of None \<Rightarrow> Next () | Some e \<Rightarrow> Throw e)"
  by (simp add: block_def split: option.splits)

lemma fst_block: "fst (block es fault) = (case fault of None \<Rightarrow> es | Some e \<Rightarrow> [])"
  by (simp add: block_def split: option.splits)

text \<open>A block that never returns from the function, and one that never falls through.\<close>

definition no_return :: "'a act \<Rightarrow> bool" where
  "no_return m = (\<forall>r. snd m \<noteq> Return r)"

definition no_next :: "'a act \<Rightarrow> bool" where
  "no_next m = (\<forall>x. snd m \<noteq> Next x)"

text \<open>Every result a block returns from the function satisfies \<open>P\<close>.\<close>

definition returns_sat :: "(RacvQuoteResult \<Rightarrow> bool) \<Rightarrow> 'a act \<Rightarrow> bool" where
  "returns_sat P m = (\<forall>r. snd m = Return r \<longrightarrow> P r)"

lemma no_return_sat: "no_return m \<Longrightarrow> returns_sat P m"
  by (simp add: no_return_def returns_sat_def)

lemma returns_sat_andThen:
  assumes "returns_sat P m" and "\<And>x. returns_sat P (f x)"
  shows "returns_sat P (andThen m f)"
proof (cases "snd m")
  case (Next x)
  with assms(2) [of x] show ?thesis by (simp add: returns_sat_def snd_andThen)
next
  case (Return r)
  with assms(1) show ?thesis by (simp add: returns_sat_def snd_andThen)
next
  case (Throw e)
  then show ?thesis by (simp add: returns_sat_def snd_andThen)
qed

lemma no_return_andThen:
  assumes "no_return m" and "\<And>x. no_return (f x)"
  shows "no_return (andThen m f)"
proof (cases "snd m")
  case (Next x)
  with assms(2) [of x] show ?thesis by (simp add: no_return_def snd_andThen)
next
  case (Return r)
  with assms(1) show ?thesis by (simp add: no_return_def)
next
  case (Throw e)
  then show ?thesis by (simp add: no_return_def snd_andThen)
qed

lemma no_next_andThen:
  assumes "\<And>x. no_next (f x)"
  shows "no_next (andThen m f)"
proof (cases "snd m")
  case (Next x)
  with assms [of x] show ?thesis by (simp add: no_next_def snd_andThen)
next
  case (Return r)
  then show ?thesis by (simp add: no_next_def snd_andThen)
next
  case (Throw e)
  then show ?thesis by (simp add: no_next_def snd_andThen)
qed

lemma no_return_block: "no_return (block es fault)"
  by (simp add: no_return_def snd_block split: option.splits)

lemma no_return_Next: "no_return (es, Next x)"
  by (simp add: no_return_def)

lemma no_return_Throw: "no_return (es, Throw e)"
  by (simp add: no_return_def)

subsection \<open>Which blocks return from the function\<close>

lemma no_return_manualSearch: "no_return (manualSearch cv mp attempt)"
proof (cases "manualFault mp")
  case (Some e)
  then show ?thesis by (simp add: manualSearch_def no_return_def)
next
  case None
  show ?thesis
  proof (cases "addressAfterSearch mp")
    case True
    with None show ?thesis by (simp add: manualSearch_def no_return_def Let_def)
  next
    case False
    with None show ?thesis
      by (cases "find (\<lambda>h. test False heading_rx (trim h)) (variantHeadings mp)")
         (simp_all add: manualSearch_def no_return_def Let_def)
  qed
qed

lemma no_return_after_poll:
  "no_return (case pollForVehicle pg 0 of
                Rejected e \<Rightarrow> ([], Throw e)
              | Resolved (Found d) \<Rightarrow> ([], Next (Some d))
              | Resolved NotFoundMessage \<Rightarrow>
                  (case capturedVehicle pg of
                     Some cv \<Rightarrow> manualSearch cv (manual pg) attempt
                   | None \<Rightarrow> ([], Next None))
              | Resolved NoAnswer \<Rightarrow> ([], Next None))"
proof (cases "pollForVehicle pg 0")
  case (Rejected e)
  then show ?thesis by (simp add: no_return_Throw)
next
  case (Resolved l)
  show ?thesis
  proof (cases l)
    case (Found d)
    with Resolved show ?thesis by (simp add: no_return_Next)
  next
    case NotFoundMessage
    with Resolved show ?thesis
      by (cases "capturedVehicle pg") (simp_all add: no_return_Next no_return_manualSearch)
  next
    case NoAnswer
    with Resolved show ?thesis by (simp add: no_return_Next)
  qed
qed

lemma no_return_attemptLookup: "no_return (attemptLookup pg attempt)"
  unfolding attemptLookup_def
proof (intro no_return_andThen)
  show "no_return (restart pg attempt)"
    by (cases "1 < attempt") (simp_all add: restart_def no_return_block no_return_Next)
  show "no_return (block [EnterRego attempt] (entryFault pg))"
    by (rule no_return_block)
  show "no_return (case pollForVehicle pg 0 of
           Rejected e \<Rightarrow> ([], Throw e)
         | Resolved (Found d) \<Rightarrow> ([], Next (Some d))
         | Resolved NotFoundMessage \<Rightarrow>
             (case capturedVehicle pg of
                Some cv \<Rightarrow> manualSearch cv (manual pg) attempt
              | None \<Rightarrow> ([], Next None))
         | Resolved NoAnswer \<Rightarrow> ([], Next None))"
    by (rule no_return_after_poll)
qed

text \<open>One unfolding of the attempt loop, by the way the round ends.\<close>

lemma resolveVehicle_done: "\<not> attempt \<le> 3 \<Longrightarrow> resolveVehicle env attempt = ([], Next [])"
  by (subst resolveVehicle.simps) simp

lemma resolveVehicle_found:
  "attempt \<le> 3 \<Longrightarrow> attemptLookup (attempts env attempt) attempt = (es, Next (Some d))
   \<Longrightarrow> resolveVehicle env attempt = (es, Next d)"
  by (subst resolveVehicle.simps) simp

lemma resolveVehicle_again:
  "attempt \<le> 3 \<Longrightarrow> attemptLookup (attempts env attempt) attempt = (es, Next None)
   \<Longrightarrow> resolveVehicle env attempt
         = (es @ fst (resolveVehicle env (Suc attempt)), snd (resolveVehicle env (Suc attempt)))"
  by (subst resolveVehicle.simps) (simp split: prod.splits)

lemma resolveVehicle_throw:
  "attempt \<le> 3 \<Longrightarrow> attemptLookup (attempts env attempt) attempt = (es, Throw e)
   \<Longrightarrow> resolveVehicle env attempt = (es, Throw e)"
  by (subst resolveVehicle.simps) simp

lemma no_return_resolveVehicle: "no_return (resolveVehicle env attempt)"
proof (induction env attempt rule: resolveVehicle.induct)
  case (1 env attempt)
  show ?case
  proof (cases "attempt \<le> 3")
    case False
    then show ?thesis by (simp add: resolveVehicle_done no_return_Next)
  next
    case True
    obtain es ex where a: "attemptLookup (attempts env attempt) attempt = (es, ex)"
      by (cases "attemptLookup (attempts env attempt) attempt")
    show ?thesis
    proof (cases ex)
      case (Next d)
      show ?thesis
      proof (cases d)
        case None
        with Next a True "1.IH" [of es ex d]
        have "no_return (resolveVehicle env (Suc attempt))" by simp
        with None Next a True show ?thesis
          by (simp add: resolveVehicle_again no_return_def)
      next
        case (Some desc)
        with Next a True show ?thesis
          by (simp add: resolveVehicle_found no_return_Next)
      qed
    next
      case (Return r)
      with a no_return_attemptLookup [of "attempts env attempt" attempt] show ?thesis
        by (simp add: no_return_def)
    next
      case (Throw e)
      with a True show ?thesis by (simp add: resolveVehicle_throw no_return_Throw)
    qed
  qed
qed

lemma no_return_openSession: "no_return (openSession env)"
  unfolding openSession_def
  by (intro no_return_andThen no_return_block)

lemma no_return_fillAboutYou: "no_return (fillAboutYou env)"
  by (simp add: fillAboutYou_def no_return_block)

text \<open>One unfolding of the wait for the quote.\<close>

lemma awaitQuote_done: "\<not> quoteAttempt < 2 \<Longrightarrow> awaitQuote env quoteAttempt = ([], Next ())"
  by (subst awaitQuote.simps) simp

lemma awaitQuote_loaded:
  "quoteAttempt < 2 \<Longrightarrow> quoteAppears (quoteWait env quoteAttempt)
   \<Longrightarrow> awaitQuote env quoteAttempt = ([WaitForQuote], Next ())"
  by (subst awaitQuote.simps) simp

lemma awaitQuote_round:
  "quoteAttempt < 2 \<Longrightarrow> \<not> quoteAppears (quoteWait env quoteAttempt)
   \<Longrightarrow> awaitQuote env quoteAttempt
         = andThen (block [WaitForQuote] (checkFault (quoteWait env quoteAttempt)))
             (\<lambda>u. andThen (recover (quoteWait env quoteAttempt))
                (\<lambda>u. awaitQuote env (Suc quoteAttempt)))"
  by (subst awaitQuote.simps) (simp add: Let_def)

lemma no_return_recover: "no_return (recover pg)"
  by (simp add: recover_def no_return_block no_return_Next)

lemma no_return_awaitQuote: "no_return (awaitQuote env quoteAttempt)"
proof (induction env quoteAttempt rule: awaitQuote.induct)
  case (1 env quoteAttempt)
  show ?case
  proof (cases "quoteAttempt < 2")
    case False
    then show ?thesis by (simp add: awaitQuote_done no_return_Next)
  next
    case True
    show ?thesis
    proof (cases "quoteAppears (quoteWait env quoteAttempt)")
      case yes: True
      with True show ?thesis by (simp add: awaitQuote_loaded no_return_Next)
    next
      case no: False
      have ih: "no_return (awaitQuote env (Suc quoteAttempt))"
        using "1.IH" [OF True refl no] .
      show ?thesis
        unfolding awaitQuote_round [OF True no]
        by (intro no_return_andThen no_return_block no_return_recover ih)
    qed
  qed
qed

subsection \<open>The shape of the result\<close>

text \<open>
  What the specification asks of a result: a success carries a premium, a failure
  carries an error text and the step it reached, neither of them empty.
\<close>

definition well_formed :: "RacvQuoteResult \<Rightarrow> bool" where
  "well_formed r =
     ((success r \<longrightarrow> annual_premium r \<noteq> None \<or> monthly_premium r \<noteq> None)
      \<and> (\<not> success r \<longrightarrow>
            (\<exists>e. error r = Some e \<and> e \<noteq> []) \<and> (\<exists>s. step_reached r = Some s \<and> s \<noteq> [])))"

lemma truthy_opt_set: "truthy_opt v \<Longrightarrow> v \<noteq> None"
  by (cases v) simp_all

lemma well_formed_notFoundResult: "well_formed (notFoundResult input)"
  by (simp add: well_formed_def notFoundResult_def)

lemma well_formed_addressErrorResult: "well_formed (addressErrorResult d)"
  by (simp add: well_formed_def addressErrorResult_def)

lemma well_formed_validationErrorResult: "well_formed (validationErrorResult d errs amounts)"
  by (simp add: well_formed_def validationErrorResult_def)

lemma well_formed_noPremiumResult: "well_formed (noPremiumResult d amounts)"
  by (simp add: well_formed_def noPremiumResult_def)

lemma well_formed_quoteResult:
  "truthy_opt (annualPremium p) \<or> truthy_opt (monthlyPremium p)
   \<Longrightarrow> well_formed (quoteResult d p amounts)"
  by (auto simp: well_formed_def quoteResult_def dest: truthy_opt_set)

lemma returns_sat_Return: "P r \<Longrightarrow> returns_sat P (es, Return r)"
  by (simp add: returns_sat_def)

lemma returns_sat_requireVehicle: "returns_sat well_formed (requireVehicle env input d)"
proof (cases "d = []")
  case True
  have "returns_sat well_formed
          (andThen (block [Screenshot (str ''/tmp/racv-not-found.png'')] (notFoundShotFault env))
             (\<lambda>u. ([], Return (notFoundResult input))))"
    by (intro returns_sat_andThen no_return_sat no_return_block returns_sat_Return
          well_formed_notFoundResult)
  with True show ?thesis by (simp add: requireVehicle_def)
next
  case False
  then show ?thesis by (simp add: requireVehicle_def returns_sat_def)
qed

lemma returns_sat_fillYourCar: "returns_sat well_formed (fillYourCar env d)"
  by (cases "yourCarFault env"; cases "list_ex (test True address_rx) (errTexts env)")
     (simp_all add: fillYourCar_def returns_sat_def snd_andThen snd_block
        well_formed_addressErrorResult)

lemma snd_extractQuote:
  "snd (extractQuote rnd fp d)
     = (case finalFault fp of Some e \<Rightarrow> Throw e | None \<Rightarrow> extraction rnd fp d)"
  by (cases "finalFault fp") (simp_all add: extractQuote_def snd_andThen snd_block)

lemma fst_extractQuote:
  "fst (extractQuote rnd fp d)
     = (case finalFault fp of Some e \<Rightarrow> [] | None \<Rightarrow> [Screenshot (str ''/tmp/racv-quote-result.png'')])"
  by (cases "finalFault fp") (simp_all add: extractQuote_def fst_andThen snd_block fst_block)

lemma extraction_cases:
  "(truthy_opt (annualPremium (extractPremiums rnd (resultText fp)))
      \<or> truthy_opt (monthlyPremium (extractPremiums rnd (resultText fp)))) \<and>
     extraction rnd fp d
       = Return (quoteResult d (extractPremiums rnd (resultText fp)) (allAmountsOf (resultText fp)))
   \<or> (\<exists>e. extraction rnd fp d = Throw e)
   \<or> (\<exists>errs. extraction rnd fp d
         = Return (validationErrorResult d errs (allAmountsOf (resultText fp))))
   \<or> extraction rnd fp d = Return (noPremiumResult d (allAmountsOf (resultText fp)))"
proof (cases "truthy_opt (annualPremium (extractPremiums rnd (resultText fp)))
                \<or> truthy_opt (monthlyPremium (extractPremiums rnd (resultText fp)))")
  case True
  then show ?thesis by (simp add: extraction_def Let_def)
next
  case False
  then show ?thesis
    by (cases "currentErrors fp") (auto simp: extraction_def Let_def)
qed

lemma returns_sat_extractQuote: "returns_sat well_formed (extractQuote rnd fp d)"
proof (cases "finalFault fp")
  case (Some e)
  then show ?thesis by (simp add: returns_sat_def snd_extractQuote)
next
  case None
  from extraction_cases [of rnd fp d] None show ?thesis
    by (auto simp: returns_sat_def snd_extractQuote well_formed_quoteResult
          well_formed_validationErrorResult well_formed_noPremiumResult)
qed

lemma no_next_extractQuote: "no_next (extractQuote rnd fp d)"
proof (cases "finalFault fp")
  case (Some e)
  then show ?thesis by (simp add: no_next_def snd_extractQuote)
next
  case None
  from extraction_cases [of rnd fp d] None show ?thesis
    by (auto simp: no_next_def snd_extractQuote)
qed

lemma no_return_resolved: "no_return (andThen (openSession env) (\<lambda>u. resolveVehicle env 1))"
  by (intro no_return_andThen no_return_openSession no_return_resolveVehicle)

lemma returns_sat_reachFinalPage: "returns_sat well_formed (reachFinalPage env input)"
  unfolding reachFinalPage_def
  by (intro returns_sat_andThen no_return_sat no_return_openSession no_return_resolveVehicle
        returns_sat_requireVehicle returns_sat_fillYourCar no_return_fillAboutYou
        no_return_awaitQuote no_return_Next)

lemma returns_sat_tryBlock: "returns_sat well_formed (tryBlock rnd env input)"
  unfolding tryBlock_def
  by (intro returns_sat_andThen returns_sat_reachFinalPage returns_sat_extractQuote)

lemma no_next_tryBlock: "no_next (tryBlock rnd env input)"
  unfolding tryBlock_def
  by (intro no_next_andThen no_next_extractQuote)

text \<open>The result and the actions of the call, by the way the \<open>try\<close> block ends.\<close>

lemma scrape_returned:
  "snd (tryBlock rnd env input) = Return r \<Longrightarrow>
   scrapeRacvQuote rnd env input
     = (r, fst (tryBlock rnd env input) @ cleanup (fst (tryBlock rnd env input)))"
  by (cases "tryBlock rnd env input") (simp add: scrapeRacvQuote_def)

lemma scrape_thrown:
  "snd (tryBlock rnd env input) = Throw e \<Longrightarrow>
   scrapeRacvQuote rnd env input
     = (scraperErrorResult e,
        fst (tryBlock rnd env input)
        @ (if NewPage \<in> set (fst (tryBlock rnd env input))
           then [Screenshot (str ''/tmp/racv-error.png'')] else [])
        @ cleanup (fst (tryBlock rnd env input)))"
  by (cases "tryBlock rnd env input") (simp add: scrapeRacvQuote_def)

lemma tryBlock_ends:
  "(\<exists>r. snd (tryBlock rnd env input) = Return r) \<or> (\<exists>e. snd (tryBlock rnd env input) = Throw e)"
  using no_next_tryBlock [of rnd env input]
  by (cases "snd (tryBlock rnd env input)") (simp_all add: no_next_def)

subsection \<open>Example pages\<close>

text \<open>The input of \<open>test-live-quote.ts\<close>, with a registration.\<close>

definition example_input :: RacvQuoteInput where
  "example_input =
     \<lparr>rego = str ''ABC123'', address = str ''80 Bourke Street Melbourne'', driver_age = 35,
      driver_gender = str ''male'', licence_age = 18, claims_last_5_years = 0,
      is_racv_member = Some False, under_finance = None, purpose = None\<rparr>"

definition found_poll :: poll where
  "found_poll =
     \<lparr>addressVisible = True,
      bodyText = str ''Your car: 2011 TOYOTA COROLLA (ASCENT) - where is it kept?'',
      headings = []\<rparr>"

definition searching_poll :: poll where
  "searching_poll =
     \<lparr>addressVisible = False, bodyText = str ''Finding your car'', headings = [str ''Your car'']\<rparr>"

definition not_found_poll :: poll where
  "not_found_poll =
     \<lparr>addressVisible = False,
      bodyText = str ''Sorry, we couldn't find a vehicle with that registration'',
      headings = [str ''Your car'']\<rparr>"

definition no_manual :: manual_page where
  "no_manual =
     \<lparr>manualFault = None, yearSelectVisible = False, makeSelects = [], modelSelects = [],
      bodySelects = [], searchVisible = False, addressAfterSearch = False,
      variantHeadings = []\<rparr>"

definition found_attempt :: attempt_page where
  "found_attempt =
     \<lparr>regoLinkVisible = False, restartFault = None, entryFault = None,
      polls = (\<lambda>wait. Resolved found_poll), lookups = [], manual = no_manual\<rparr>"

definition silent_attempt :: attempt_page where
  "silent_attempt =
     \<lparr>regoLinkVisible = True, restartFault = None, entryFault = None,
      polls = (\<lambda>wait. Resolved searching_poll), lookups = [], manual = no_manual\<rparr>"

definition loaded_quote :: quote_page where
  "loaded_quote =
     \<lparr>quoteAppears = True, checkFault = None, bodyCheck = [], backVisible = False,
      retryVisible = False, recoveryFault = None\<rparr>"

definition system_error_quote :: quote_page where
  "system_error_quote =
     \<lparr>quoteAppears = False, checkFault = None,
      bodyCheck = str ''Sorry, a system error has occurred. BACK TO FORM'',
      backVisible = True, retryVisible = True, recoveryFault = None\<rparr>"

definition stalled_quote :: quote_page where
  "stalled_quote =
     \<lparr>quoteAppears = False, checkFault = None, bodyCheck = str ''Calculating your quote'',
      backVisible = False, retryVisible = False, recoveryFault = None\<rparr>"

text \<open>A target that answers every step and shows a yearly price at the end.\<close>

definition healthy_env :: env where
  "healthy_env =
     \<lparr>launchFault = None, contextFault = None, pageFault = None, navigateFault = None,
      attempts = (\<lambda>attempt. found_attempt),
      notFoundShotFault = None, yourCarFault = None, errTexts = [], aboutYouFault = None,
      quoteWait = (\<lambda>quoteAttempt. loaded_quote),
      final = \<lparr>finalFault = None, resultText = str ''Your quote: $1,234.56 per year'',
                currentErrors = Resolved []\<rparr>\<rparr>"

subsection \<open>Steps that go through\<close>

lemma openSession_ok:
  "launchFault env = None \<Longrightarrow> contextFault env = None \<Longrightarrow> pageFault env = None
   \<Longrightarrow> navigateFault env = None
   \<Longrightarrow> openSession env = ([NewContext, NewPage, Goto], Next ())"
  by (simp add: openSession_def andThen_def block_def)

lemma fillYourCar_ok:
  "yourCarFault env = None \<Longrightarrow> \<not> list_ex (test True address_rx) (errTexts env)
   \<Longrightarrow> fillYourCar env d = ([FillYourCar, Screenshot (str ''/tmp/racv-step2-done.png'')], Next ())"
  by (simp add: fillYourCar_def andThen_def block_def)

lemma fillAboutYou_ok:
  "aboutYouFault env = None
   \<Longrightarrow> fillAboutYou env
         = ([FillAboutYou, Screenshot (str ''/tmp/racv-step3-filled.png''), SubmitQuote], Next ())"
  by (simp add: fillAboutYou_def block_def)

lemma reachFinalPage_ok:
  assumes "openSession env = (e1, Next ())"
    and "resolveVehicle env 1 = (e2, Next d)" and "d \<noteq> []"
    and "fillYourCar env d = (e3, Next ())"
    and "fillAboutYou env = (e4, Next ())"
    and "awaitQuote env 0 = (e5, Next ())"
  shows "reachFinalPage env input = (e1 @ e2 @ e3 @ e4 @ e5, Next d)"
  using assms by (simp add: reachFinalPage_def andThen_def requireVehicle_def)

lemma tryBlock_ok:
  assumes "reachFinalPage env input = (es, Next d)" and "finalFault (final env) = None"
  shows "tryBlock rnd env input
           = (es @ [Screenshot (str ''/tmp/racv-quote-result.png'')], extraction rnd (final env) d)"
  using assms by (simp add: tryBlock_def andThen_def extractQuote_def block_def)

lemma found_poll_result:
  "pollForVehicle found_attempt 0 = Resolved (Found (str ''2011 TOYOTA COROLLA (ASCENT)''))"
  by code_simp

lemma silent_poll_result: "pollForVehicle silent_attempt 0 = Resolved NoAnswer"
  by code_simp

lemma found_attempt_first:
  "attemptLookup found_attempt 1 = ([EnterRego 1], Next (Some (str ''2011 TOYOTA COROLLA (ASCENT)'')))"
  by (simp add: attemptLookup_def restart_def andThen_def block_def found_poll_result)
     (simp add: found_attempt_def)

subsection \<open>The healthy target, evaluated\<close>

lemma healthy_resolve:
  "resolveVehicle healthy_env 1 = ([EnterRego 1], Next (str ''2011 TOYOTA COROLLA (ASCENT)''))"
proof -
  have "attempts healthy_env 1 = found_attempt" by (simp add: healthy_env_def)
  with found_attempt_first
  have "attemptLookup (attempts healthy_env 1) 1
          = ([EnterRego 1], Next (Some (str ''2011 TOYOTA COROLLA (ASCENT)'')))"
    by simp
  then show ?thesis by (rule resolveVehicle_found [rotated]) simp
qed

lemma healthy_await: "awaitQuote healthy_env 0 = ([WaitForQuote], Next ())"
  by (rule awaitQuote_loaded) (simp_all add: healthy_env_def loaded_quote_def)

lemma healthy_reach:
  "reachFinalPage healthy_env input
     = ([NewContext, NewPage, Goto, EnterRego 1, FillYourCar,
         Screenshot (str ''/tmp/racv-step2-done.png''), FillAboutYou,
         Screenshot (str ''/tmp/racv-step3-filled.png''), SubmitQuote, WaitForQuote],
        Next (str ''2011 TOYOTA COROLLA (ASCENT)''))"
proof -
  have "reachFinalPage healthy_env input
          = ([NewContext, NewPage, Goto] @ [EnterRego 1]
             @ [FillYourCar, Screenshot (str ''/tmp/racv-step2-done.png'')]
             @ [FillAboutYou, Screenshot (str ''/tmp/racv-step3-filled.png''), SubmitQuote]
             @ [WaitForQuote],
             Next (str ''2011 TOYOTA COROLLA (ASCENT)''))"
  proof (rule reachFinalPage_ok)
    show "openSession healthy_env = ([NewContext, NewPage, Goto], Next ())"
      by (rule openSession_ok) (simp_all add: healthy_env_def)
    show "resolveVehicle healthy_env 1 = ([EnterRego 1], Next (str ''2011 TOYOTA COROLLA (ASCENT)''))"
      by (rule healthy_resolve)
    show "str ''2011 TOYOTA COROLLA (ASCENT)'' \<noteq> []" by simp
    show "fillYourCar healthy_env (str ''2011 TOYOTA COROLLA (ASCENT)'')
            = ([FillYourCar, Screenshot (str ''/tmp/racv-step2-done.png'')], Next ())"
      by (rule fillYourCar_ok) (simp_all add: healthy_env_def)
    show "fillAboutYou healthy_env
            = ([FillAboutYou, Screenshot (str ''/tmp/racv-step3-filled.png''), SubmitQuote], Next ())"
      by (rule fillAboutYou_ok) (simp add: healthy_env_def)
    show "awaitQuote healthy_env 0 = ([WaitForQuote], Next ())"
      by (rule healthy_await)
  qed
  then show ?thesis by simp
qed

definition yearly_text :: jstring where
  "yearly_text = str ''Your quote: $1,234.56 per year''"

lemma yearly_period: "search True annual_period_rx yearly_text = Some (str ''1,234.56'')"
  by code_simp

lemma yearly_label: "search True annual_label_rx yearly_text = None"
  by code_simp

lemma yearly_monthly_period: "search True monthly_period_rx yearly_text = None"
  by code_simp

lemma yearly_monthly_label: "search True monthly_label_rx yearly_text = None"
  by code_simp

lemma yearly_amounts: "allAmountsOf yearly_text = [str ''$1,234.56'']"
  by code_simp

lemma parseFloat_1234_56:
  "parseFloat id (filter (\<lambda>c. c \<noteq> of_char CHR '','') (str ''1,234.56'')) = Fin (30864 / 25)"
  by (simp add: str_def parseFloat_def is_digit_def decimal_def digit_val_def)

lemma yearly_premiums:
  "extractPremiums id yearly_text
     = \<lparr>annualPremium = Some (Fin (30864 / 25)), monthlyPremium = None, excessAmount = None\<rparr>"
  by (simp add: extractPremiums_def labelledPremiums_def premPatterns_def applyPattern_def
        yearly_period yearly_label yearly_monthly_period yearly_monthly_label
        parseFloat_1234_56 [simplified])

definition healthy_result :: RacvQuoteResult where
  "healthy_result =
     \<lparr>success = True, vehicle_description = Some (str ''2011 TOYOTA COROLLA (ASCENT)''),
      annual_premium = Some (Fin (30864 / 25)), monthly_premium = None,
      excess_amount = None, raw_amounts = Some [str ''$1,234.56''],
      screenshot_path = Some (str ''/tmp/racv-quote-result.png''),
      error = None, step_reached = None\<rparr>"

lemma healthy_final: "final healthy_env
    = \<lparr>finalFault = None, resultText = yearly_text, currentErrors = Resolved []\<rparr>"
  by (simp add: healthy_env_def yearly_text_def)

lemma healthy_extraction:
  "extraction id (final healthy_env) (str ''2011 TOYOTA COROLLA (ASCENT)'') = Return healthy_result"
  by (simp add: extraction_def healthy_final yearly_premiums yearly_amounts quoteResult_def
        healthy_result_def)

lemma healthy_try:
  "tryBlock id healthy_env input
     = ([NewContext, NewPage, Goto, EnterRego 1, FillYourCar,
         Screenshot (str ''/tmp/racv-step2-done.png''), FillAboutYou,
         Screenshot (str ''/tmp/racv-step3-filled.png''), SubmitQuote, WaitForQuote,
         Screenshot (str ''/tmp/racv-quote-result.png'')],
        Return healthy_result)"
proof -
  have "finalFault (final healthy_env) = None" by (simp add: healthy_final)
  from tryBlock_ok [OF healthy_reach this, of id input] show ?thesis
    unfolding healthy_extraction by simp
qed

lemma healthy_scrape:
  "scrapeRacvQuote id healthy_env input
     = (healthy_result,
        [NewContext, NewPage, Goto, EnterRego 1, FillYourCar,
         Screenshot (str ''/tmp/racv-step2-done.png''), FillAboutYou,
         Screenshot (str ''/tmp/racv-step3-filled.png''), SubmitQuote, WaitForQuote,
         Screenshot (str ''/tmp/racv-quote-result.png''), ClosePage, CloseContext])"
  by (simp add: scrapeRacvQuote_def healthy_try cleanup_def)

text \<open>The browser cannot be started: the first statement of the \<open>try\<close> block throws.\<close>

definition no_browser_env :: env where
  "no_browser_env = healthy_env\<lparr>launchFault := Some (str ''browserType.launch: Executable not found'')\<rparr>"

lemma no_browser_try:
  "tryBlock rnd no_browser_env input
     = ([], Throw (str ''browserType.launch: Executable not found''))"
  by (simp add: tryBlock_def reachFinalPage_def openSession_def andThen_def block_def
        no_browser_env_def)

lemma no_browser_scrape:
  "scrapeRacvQuote rnd no_browser_env input
     = (scraperErrorResult (str ''browserType.launch: Executable not found''), [])"
  by (simp add: scrapeRacvQuote_def no_browser_try cleanup_def)

subsection \<open>Claim C1: the shape of every result\<close>

text \<open>
  Claim C1 as stated fails on the \<open>catch\<close> path: when the browser cannot be started the
  result is a failure whose \<open>step_reached\<close> is not set.
\<close>

theorem scrape_fault_has_no_step_counterexample:
  "\<not> well_formed (fst (scrapeRacvQuote id no_browser_env example_input))
   \<and> \<not> success (fst (scrapeRacvQuote id no_browser_env example_input))
   \<and> step_reached (fst (scrapeRacvQuote id no_browser_env example_input)) = None"
  by (simp add: no_browser_scrape scraperErrorResult_def well_formed_def)

text \<open>
  Claim C1, amended. For every input and every page behaviour: a result with
  \<open>success = true\<close> has an annual or a monthly premium set; a result with
  \<open>success = false\<close> has a non-empty error text; when the \<open>try\<close> block ends in one of
  its own returns, a failure also has a non-empty \<open>step_reached\<close>; when it ends in a
  throw, the result is the failure of the \<open>catch\<close> block, whose error text starts with
  "Scraper error: " and whose \<open>step_reached\<close> is not set.
\<close>

theorem scrape_result_shape:
  "(success (fst (scrapeRacvQuote rnd env input))
      \<longrightarrow> annual_premium (fst (scrapeRacvQuote rnd env input)) \<noteq> None
          \<or> monthly_premium (fst (scrapeRacvQuote rnd env input)) \<noteq> None)
   \<and> (\<not> success (fst (scrapeRacvQuote rnd env input))
      \<longrightarrow> (\<exists>e. error (fst (scrapeRacvQuote rnd env input)) = Some e \<and> e \<noteq> []))
   \<and> ((\<exists>r. snd (tryBlock rnd env input) = Return r)
      \<longrightarrow> well_formed (fst (scrapeRacvQuote rnd env input)))
   \<and> (\<forall>e. snd (tryBlock rnd env input) = Throw e
      \<longrightarrow> fst (scrapeRacvQuote rnd env input) = scraperErrorResult e
          \<and> \<not> success (fst (scrapeRacvQuote rnd env input))
          \<and> step_reached (fst (scrapeRacvQuote rnd env input)) = None)"
proof -
  let ?r = "fst (scrapeRacvQuote rnd env input)"
  have ret: "well_formed ?r" if "snd (tryBlock rnd env input) = Return r" for r
    using that returns_sat_tryBlock [of rnd env input]
    by (simp add: scrape_returned returns_sat_def)
  have thr: "?r = scraperErrorResult e" if "snd (tryBlock rnd env input) = Throw e" for e
    using that by (simp add: scrape_thrown)
  have a: "success ?r \<longrightarrow> annual_premium ?r \<noteq> None \<or> monthly_premium ?r \<noteq> None"
    using tryBlock_ends [of rnd env input] ret thr
    by (auto simp: well_formed_def scraperErrorResult_def)
  have b: "\<not> success ?r \<longrightarrow> (\<exists>e. error ?r = Some e \<and> e \<noteq> [])"
  proof
    assume f: "\<not> success ?r"
    from tryBlock_ends [of rnd env input] show "\<exists>e. error ?r = Some e \<and> e \<noteq> []"
    proof
      assume "\<exists>r. snd (tryBlock rnd env input) = Return r"
      then obtain r where "snd (tryBlock rnd env input) = Return r" ..
      from ret [OF this] f show ?thesis by (simp add: well_formed_def)
    next
      assume "\<exists>e. snd (tryBlock rnd env input) = Throw e"
      then obtain e where "snd (tryBlock rnd env input) = Throw e" ..
      from thr [OF this] show ?thesis by (simp add: scraperErrorResult_def)
    qed
  qed
  have c: "(\<exists>r. snd (tryBlock rnd env input) = Return r) \<longrightarrow> well_formed ?r"
    using ret by blast
  have d: "\<forall>e. snd (tryBlock rnd env input) = Throw e
             \<longrightarrow> ?r = scraperErrorResult e \<and> \<not> success ?r \<and> step_reached ?r = None"
    using thr by (simp add: scraperErrorResult_def)
  from a b c d show ?thesis by blast
qed

theorem scrape_result_shape_witness:
  "success (fst (scrapeRacvQuote id healthy_env example_input))
   \<and> annual_premium (fst (scrapeRacvQuote id healthy_env example_input)) = Some (Fin (30864 / 25))
   \<and> well_formed (fst (scrapeRacvQuote id healthy_env example_input))
   \<and> snd (tryBlock id no_browser_env example_input)
       = Throw (str ''browserType.launch: Executable not found'')
   \<and> error (fst (scrapeRacvQuote id no_browser_env example_input))
       = Some (str ''Scraper error: browserType.launch: Executable not found'')"
  using scrape_result_shape [of id healthy_env example_input]
        scrape_result_shape [of id no_browser_env example_input]
  by (simp add: healthy_scrape healthy_try healthy_result_def no_browser_try no_browser_scrape
        scraperErrorResult_def str_def)

subsection \<open>Claim C7: the page and the context are closed\<close>

lemma scrape_actions:
  "\<exists>shot. snd (scrapeRacvQuote rnd env input)
            = fst (tryBlock rnd env input) @ shot @ cleanup (fst (tryBlock rnd env input))
          \<and> set shot \<subseteq> {Screenshot (str ''/tmp/racv-error.png'')}"
proof -
  from tryBlock_ends [of rnd env input] show ?thesis
  proof
    assume "\<exists>r. snd (tryBlock rnd env input) = Return r"
    then obtain r where "snd (tryBlock rnd env input) = Return r" ..
    then have "snd (scrapeRacvQuote rnd env input)
                 = fst (tryBlock rnd env input) @ [] @ cleanup (fst (tryBlock rnd env input))"
      by (simp add: scrape_returned)
    then show ?thesis by (intro exI [of _ "[]"]) simp
  next
    assume "\<exists>e. snd (tryBlock rnd env input) = Throw e"
    then obtain e where "snd (tryBlock rnd env input) = Throw e" ..
    then have "snd (scrapeRacvQuote rnd env input)
                 = fst (tryBlock rnd env input)
                   @ (if NewPage \<in> set (fst (tryBlock rnd env input))
                      then [Screenshot (str ''/tmp/racv-error.png'')] else [])
                   @ cleanup (fst (tryBlock rnd env input))"
      by (simp add: scrape_thrown)
    then show ?thesis
      by (intro exI [of _ "if NewPage \<in> set (fst (tryBlock rnd env input))
                           then [Screenshot (str ''/tmp/racv-error.png'')] else []"]) auto
  qed
qed

text \<open>
  Claim C7. On every exit of the function, for every page behaviour: if the page was
  opened, the page is closed later in the same call; if the context was opened, closing
  it is the last action of the call. Nothing follows the closing of the page but the
  closing of the context.
\<close>

theorem scrape_closes_page_and_context:
  "(NewPage \<in> set (snd (scrapeRacvQuote rnd env input))
      \<longrightarrow> (\<exists>before after.
             snd (scrapeRacvQuote rnd env input) = before @ ClosePage # after
             \<and> NewPage \<in> set before \<and> set after \<subseteq> {CloseContext}))
   \<and> (NewContext \<in> set (snd (scrapeRacvQuote rnd env input))
      \<longrightarrow> (\<exists>before.
             snd (scrapeRacvQuote rnd env input) = before @ [CloseContext]
             \<and> NewContext \<in> set before))"
proof -
  let ?es = "fst (tryBlock rnd env input)"
  from scrape_actions [of rnd env input] obtain shot
    where tr: "snd (scrapeRacvQuote rnd env input) = ?es @ shot @ cleanup ?es"
      and shot: "set shot \<subseteq> {Screenshot (str ''/tmp/racv-error.png'')}"
    by blast
  have page: "\<exists>before after.
                snd (scrapeRacvQuote rnd env input) = before @ ClosePage # after
                \<and> NewPage \<in> set before \<and> set after \<subseteq> {CloseContext}"
    if "NewPage \<in> set (snd (scrapeRacvQuote rnd env input))"
  proof -
    from that tr shot have opened: "NewPage \<in> set ?es"
      by (auto simp: cleanup_def split: if_splits)
    then have "snd (scrapeRacvQuote rnd env input)
                 = (?es @ shot) @ ClosePage # (if NewContext \<in> set ?es then [CloseContext] else [])"
      using tr by (simp add: cleanup_def)
    moreover have "NewPage \<in> set (?es @ shot)" using opened by simp
    moreover have "set (if NewContext \<in> set ?es then [CloseContext] else []) \<subseteq> {CloseContext}"
      by auto
    ultimately show ?thesis by blast
  qed
  have ctx: "\<exists>before. snd (scrapeRacvQuote rnd env input) = before @ [CloseContext]
                      \<and> NewContext \<in> set before"
    if "NewContext \<in> set (snd (scrapeRacvQuote rnd env input))"
  proof -
    from that tr shot have opened: "NewContext \<in> set ?es"
      by (auto simp: cleanup_def split: if_splits)
    then have "snd (scrapeRacvQuote rnd env input)
                 = (?es @ shot @ (if NewPage \<in> set ?es then [ClosePage] else [])) @ [CloseContext]"
      using tr by (simp add: cleanup_def)
    moreover have "NewContext \<in> set (?es @ shot @ (if NewPage \<in> set ?es then [ClosePage] else []))"
      using opened by simp
    ultimately show ?thesis by blast
  qed
  from page ctx show ?thesis by blast
qed

text \<open>The page cannot be opened in the new context.\<close>

definition no_page_env :: env where
  "no_page_env = healthy_env\<lparr>pageFault := Some (str ''browserContext.newPage: Target closed'')\<rparr>"

lemma no_page_scrape:
  "scrapeRacvQuote rnd no_page_env input
     = (scraperErrorResult (str ''browserContext.newPage: Target closed''), [NewContext, CloseContext])"
  by (simp add: scrapeRacvQuote_def tryBlock_def reachFinalPage_def openSession_def andThen_def
        block_def no_page_env_def healthy_env_def cleanup_def)

theorem scrape_closes_page_and_context_witness:
  "snd (scrapeRacvQuote id healthy_env example_input)
     = [NewContext, NewPage, Goto, EnterRego 1, FillYourCar,
        Screenshot (str ''/tmp/racv-step2-done.png''), FillAboutYou,
        Screenshot (str ''/tmp/racv-step3-filled.png''), SubmitQuote, WaitForQuote,
        Screenshot (str ''/tmp/racv-quote-result.png''), ClosePage, CloseContext]
   \<and> NewPage \<in> set (snd (scrapeRacvQuote id healthy_env example_input))
   \<and> snd (scrapeRacvQuote id no_page_env example_input) = [NewContext, CloseContext]
   \<and> NewContext \<in> set (snd (scrapeRacvQuote id no_page_env example_input))"
  using scrape_closes_page_and_context [of id healthy_env example_input]
        scrape_closes_page_and_context [of id no_page_env example_input]
  by (simp add: healthy_scrape no_page_scrape)

subsection \<open>Claim C2: recovery from a system error\<close>

text \<open>
  The quote never shows; both times the page is checked it reports a system error and
  shows the buttons "back to form" and Continue.
\<close>

definition error_text :: jstring where
  "error_text = str ''Sorry, a system error has occurred. BACK TO FORM''"

definition system_error_env :: env where
  "system_error_env =
     healthy_env
       \<lparr>quoteWait := (\<lambda>quoteAttempt. system_error_quote),
        final := \<lparr>finalFault = None, resultText = error_text, currentErrors = Resolved []\<rparr>\<rparr>"

lemma error_text_is_system_error: "test True system_error_rx error_text"
  by code_simp

lemma error_text_period: "search True annual_period_rx error_text = None"
  by code_simp

lemma error_text_label: "search True annual_label_rx error_text = None"
  by code_simp

lemma error_text_monthly_period: "search True monthly_period_rx error_text = None"
  by code_simp

lemma error_text_monthly_label: "search True monthly_label_rx error_text = None"
  by code_simp

lemma error_text_amounts: "allAmountsOf error_text = []"
  by code_simp

lemma error_text_premiums:
  "extractPremiums rnd error_text
     = \<lparr>annualPremium = None, monthlyPremium = None, excessAmount = None\<rparr>"
  by (simp add: extractPremiums_def labelledPremiums_def premPatterns_def applyPattern_def
        error_text_period error_text_label error_text_monthly_period error_text_monthly_label
        error_text_amounts fallbackPremiums_def)

lemma system_error_recover:
  "recover system_error_quote = ([ClickBackToForm, Resubmit], Next ())"
  using error_text_is_system_error
  by (simp add: recover_def system_error_quote_def error_text_def block_def)

lemma system_error_await:
  "awaitQuote system_error_env 0
     = ([WaitForQuote, ClickBackToForm, Resubmit, WaitForQuote, ClickBackToForm, Resubmit],
        Next ())"
proof -
  have q: "quoteWait system_error_env k = system_error_quote" for k
    by (simp add: system_error_env_def)
  have n: "\<not> quoteAppears system_error_quote" "checkFault system_error_quote = None"
    by (simp_all add: system_error_quote_def)
  have "awaitQuote system_error_env 2 = ([], Next ())"
    by (rule awaitQuote_done) simp
  then have "awaitQuote system_error_env 1
               = ([WaitForQuote, ClickBackToForm, Resubmit], Next ())"
    using awaitQuote_round [of 1 system_error_env] q n system_error_recover
    by (simp add: andThen_def block_def numeral_2_eq_2)
  then show ?thesis
    using awaitQuote_round [of 0 system_error_env] q n system_error_recover
    by (simp add: andThen_def block_def)
qed

lemma system_error_reach:
  "reachFinalPage system_error_env input
     = ([NewContext, NewPage, Goto, EnterRego 1, FillYourCar,
         Screenshot (str ''/tmp/racv-step2-done.png''), FillAboutYou,
         Screenshot (str ''/tmp/racv-step3-filled.png''), SubmitQuote,
         WaitForQuote, ClickBackToForm, Resubmit, WaitForQuote, ClickBackToForm, Resubmit],
        Next (str ''2011 TOYOTA COROLLA (ASCENT)''))"
proof -
  have a: "attempts system_error_env 1 = found_attempt"
    by (simp add: system_error_env_def healthy_env_def)
  have "reachFinalPage system_error_env input
          = ([NewContext, NewPage, Goto] @ [EnterRego 1]
             @ [FillYourCar, Screenshot (str ''/tmp/racv-step2-done.png'')]
             @ [FillAboutYou, Screenshot (str ''/tmp/racv-step3-filled.png''), SubmitQuote]
             @ [WaitForQuote, ClickBackToForm, Resubmit, WaitForQuote, ClickBackToForm, Resubmit],
             Next (str ''2011 TOYOTA COROLLA (ASCENT)''))"
  proof (rule reachFinalPage_ok)
    show "openSession system_error_env = ([NewContext, NewPage, Goto], Next ())"
      by (rule openSession_ok) (simp_all add: system_error_env_def healthy_env_def)
    from a found_attempt_first
    have "attemptLookup (attempts system_error_env 1) 1
            = ([EnterRego 1], Next (Some (str ''2011 TOYOTA COROLLA (ASCENT)'')))"
      by simp
    then show "resolveVehicle system_error_env 1
                 = ([EnterRego 1], Next (str ''2011 TOYOTA COROLLA (ASCENT)''))"
      by (rule resolveVehicle_found [rotated]) simp
    show "str ''2011 TOYOTA COROLLA (ASCENT)'' \<noteq> []" by simp
    show "fillYourCar system_error_env (str ''2011 TOYOTA COROLLA (ASCENT)'')
            = ([FillYourCar, Screenshot (str ''/tmp/racv-step2-done.png'')], Next ())"
      by (rule fillYourCar_ok) (simp_all add: system_error_env_def healthy_env_def)
    show "fillAboutYou system_error_env
            = ([FillAboutYou, Screenshot (str ''/tmp/racv-step3-filled.png''), SubmitQuote], Next ())"
      by (rule fillAboutYou_ok) (simp add: system_error_env_def healthy_env_def)
    show "awaitQuote system_error_env 0
            = ([WaitForQuote, ClickBackToForm, Resubmit, WaitForQuote, ClickBackToForm, Resubmit],
               Next ())"
      by (rule system_error_await)
  qed
  then show ?thesis by simp
qed

lemma system_error_scrape:
  "scrapeRacvQuote rnd system_error_env input
     = (noPremiumResult (str ''2011 TOYOTA COROLLA (ASCENT)'') [],
        [NewContext, NewPage, Goto, EnterRego 1, FillYourCar,
         Screenshot (str ''/tmp/racv-step2-done.png''), FillAboutYou,
         Screenshot (str ''/tmp/racv-step3-filled.png''), SubmitQuote,
         WaitForQuote, ClickBackToForm, Resubmit, WaitForQuote, ClickBackToForm, Resubmit,
         Screenshot (str ''/tmp/racv-quote-result.png''), ClosePage, CloseContext])"
proof -
  have f: "final system_error_env
             = \<lparr>finalFault = None, resultText = error_text, currentErrors = Resolved []\<rparr>"
    by (simp add: system_error_env_def)
  then have ff: "finalFault (final system_error_env) = None" by simp
  have "extraction rnd (final system_error_env) (str ''2011 TOYOTA COROLLA (ASCENT)'')
          = Return (noPremiumResult (str ''2011 TOYOTA COROLLA (ASCENT)'') [])"
    by (simp add: extraction_def f error_text_premiums error_text_amounts)
  with tryBlock_ok [OF system_error_reach ff, of rnd input] show ?thesis
    by (simp add: scrapeRacvQuote_def cleanup_def)
qed

text \<open>
  Claim C2, the code on that page. The recovery (back to form, re-submit) is carried
  out in both rounds of the loop, twice in all; after the second re-submission the loop
  has ended, so no wait for the quote follows it, and the call goes on to read the page.
\<close>

theorem system_error_recovers_twice:
  "filter (\<lambda>e. e \<in> {WaitForQuote, ClickBackToForm, Resubmit})
          (snd (scrapeRacvQuote id system_error_env example_input))
     = [WaitForQuote, ClickBackToForm, Resubmit, WaitForQuote, ClickBackToForm, Resubmit]
   \<and> length (filter (\<lambda>e. e = ClickBackToForm)
               (snd (scrapeRacvQuote id system_error_env example_input))) = 2
   \<and> fst (scrapeRacvQuote id system_error_env example_input)
       = noPremiumResult (str ''2011 TOYOTA COROLLA (ASCENT)'') []"
  by (simp add: system_error_scrape)

subsection \<open>Claim C6: the amounts kept from the final page\<close>

text \<open>The quote never shows, no error is reported, and the final page has no amount.\<close>

definition waiting_text :: jstring where
  "waiting_text = str ''Calculating your quote''"

definition stalled_env :: env where
  "stalled_env =
     healthy_env
       \<lparr>quoteWait := (\<lambda>quoteAttempt. stalled_quote),
        final := \<lparr>finalFault = None, resultText = waiting_text, currentErrors = Resolved []\<rparr>\<rparr>"

lemma waiting_text_amounts: "allAmountsOf waiting_text = []"
  by code_simp

lemma stalled_await: "awaitQuote stalled_env 0 = ([WaitForQuote, WaitForQuote], Next ())"
proof -
  have q: "quoteWait stalled_env k = stalled_quote" for k
    by (simp add: stalled_env_def)
  have n: "\<not> quoteAppears stalled_quote" "checkFault stalled_quote = None"
    "recover stalled_quote = ([], Next ())"
    by (simp_all add: stalled_quote_def recover_def)
  have "awaitQuote stalled_env 2 = ([], Next ())"
    by (rule awaitQuote_done) simp
  then have "awaitQuote stalled_env 1 = ([WaitForQuote], Next ())"
    using awaitQuote_round [of 1 stalled_env] q n
    by (simp add: andThen_def block_def numeral_2_eq_2)
  then show ?thesis
    using awaitQuote_round [of 0 stalled_env] q n
    by (simp add: andThen_def block_def)
qed

lemma stalled_reach:
  "reachFinalPage stalled_env input
     = ([NewContext, NewPage, Goto, EnterRego 1, FillYourCar,
         Screenshot (str ''/tmp/racv-step2-done.png''), FillAboutYou,
         Screenshot (str ''/tmp/racv-step3-filled.png''), SubmitQuote, WaitForQuote, WaitForQuote],
        Next (str ''2011 TOYOTA COROLLA (ASCENT)''))"
proof -
  have a: "attempts stalled_env 1 = found_attempt"
    by (simp add: stalled_env_def healthy_env_def)
  have "reachFinalPage stalled_env input
          = ([NewContext, NewPage, Goto] @ [EnterRego 1]
             @ [FillYourCar, Screenshot (str ''/tmp/racv-step2-done.png'')]
             @ [FillAboutYou, Screenshot (str ''/tmp/racv-step3-filled.png''), SubmitQuote]
             @ [WaitForQuote, WaitForQuote],
             Next (str ''2011 TOYOTA COROLLA (ASCENT)''))"
  proof (rule reachFinalPage_ok)
    show "openSession stalled_env = ([NewContext, NewPage, Goto], Next ())"
      by (rule openSession_ok) (simp_all add: stalled_env_def healthy_env_def)
    from a found_attempt_first
    have "attemptLookup (attempts stalled_env 1) 1
            = ([EnterRego 1], Next (Some (str ''2011 TOYOTA COROLLA (ASCENT)'')))"
      by simp
    then show "resolveVehicle stalled_env 1 = ([EnterRego 1], Next (str ''2011 TOYOTA COROLLA (ASCENT)''))"
      by (rule resolveVehicle_found [rotated]) simp
    show "str ''2011 TOYOTA COROLLA (ASCENT)'' \<noteq> []" by simp
    show "fillYourCar stalled_env (str ''2011 TOYOTA COROLLA (ASCENT)'')
            = ([FillYourCar, Screenshot (str ''/tmp/racv-step2-done.png'')], Next ())"
      by (rule fillYourCar_ok) (simp_all add: stalled_env_def healthy_env_def)
    show "fillAboutYou stalled_env
            = ([FillAboutYou, Screenshot (str ''/tmp/racv-step3-filled.png''), SubmitQuote], Next ())"
      by (rule fillAboutYou_ok) (simp add: stalled_env_def healthy_env_def)
    show "awaitQuote stalled_env 0 = ([WaitForQuote, WaitForQuote], Next ())"
      by (rule stalled_await)
  qed
  then show ?thesis by simp
qed

lemma stalled_try:
  "snd (tryBlock rnd stalled_env input)
     = Return (noPremiumResult (str ''2011 TOYOTA COROLLA (ASCENT)'') [])"
proof -
  have f: "final stalled_env
             = \<lparr>finalFault = None, resultText = waiting_text, currentErrors = Resolved []\<rparr>"
    by (simp add: stalled_env_def)
  then have ff: "finalFault (final stalled_env) = None" by simp
  have "extraction rnd (final stalled_env) (str ''2011 TOYOTA COROLLA (ASCENT)'')
          = Return (noPremiumResult (str ''2011 TOYOTA COROLLA (ASCENT)'') [])"
    by (simp add: extraction_def f waiting_text_amounts
          no_amounts_no_premium [OF waiting_text_amounts])
  with tryBlock_ok [OF stalled_reach ff, of rnd input] show ?thesis by simp
qed

lemma stalled_scrape:
  "fst (scrapeRacvQuote rnd stalled_env input)
     = noPremiumResult (str ''2011 TOYOTA COROLLA (ASCENT)'') []"
  using stalled_try [of rnd input] by (simp add: scrape_returned)

text \<open>
  Claim C6 as stated fails: the call reaches the final page, and the failure it returns
  has \<open>raw_amounts\<close> set to the empty list.
\<close>

theorem final_page_without_amounts_counterexample:
  "snd (reachFinalPage stalled_env example_input) = Next (str ''2011 TOYOTA COROLLA (ASCENT)'')
   \<and> \<not> success (fst (scrapeRacvQuote id stalled_env example_input))
   \<and> raw_amounts (fst (scrapeRacvQuote id stalled_env example_input)) = Some []"
  by (simp add: stalled_reach stalled_scrape noPremiumResult_def)

text \<open>
  Claim C6, amended. Whenever the call reaches the final page and the \<open>try\<close> block
  ends in one of its returns, the result is the success, the validation-error failure
  or the extraction failure, and in each \<open>raw_amounts\<close> is set to the currency amounts
  found in the text of the final page, in page order. The list is non-empty on every
  success; it is empty exactly when the page shows no such amount.
\<close>

theorem final_page_raw_amounts:
  "snd (reachFinalPage env input) = Next d \<and> snd (tryBlock rnd env input) = Return r
   \<longrightarrow> fst (scrapeRacvQuote rnd env input) = r
     \<and> raw_amounts r = Some (allAmountsOf (resultText (final env)))
     \<and> (success r \<longrightarrow> raw_amounts r \<noteq> Some [])
     \<and> (r = quoteResult d (extractPremiums rnd (resultText (final env)))
               (allAmountsOf (resultText (final env)))
        \<or> (\<exists>errs. r = validationErrorResult d errs (allAmountsOf (resultText (final env))))
        \<or> r = noPremiumResult d (allAmountsOf (resultText (final env))))"
proof
  assume h: "snd (reachFinalPage env input) = Next d \<and> snd (tryBlock rnd env input) = Return r"
  let ?text = "resultText (final env)"
  from h have res: "fst (scrapeRacvQuote rnd env input) = r"
    by (simp add: scrape_returned)
  from h have "snd (extractQuote rnd (final env) d) = Return r"
    by (auto simp: tryBlock_def snd_andThen)
  then have ex: "(case finalFault (final env) of
                      Some e \<Rightarrow> Throw e
                    | None \<Rightarrow> extraction rnd (final env) d) = Return r"
    by (simp add: snd_extractQuote)
  then have ret: "extraction rnd (final env) d = Return r"
    by (cases "finalFault (final env)") simp_all
  from extraction_cases [of rnd "final env" d] ret
  consider (quote) "truthy_opt (annualPremium (extractPremiums rnd ?text))
                      \<or> truthy_opt (monthlyPremium (extractPremiums rnd ?text))"
                   "r = quoteResult d (extractPremiums rnd ?text) (allAmountsOf ?text)"
    | (invalid) errs where "r = validationErrorResult d errs (allAmountsOf ?text)"
    | (nothing) "r = noPremiumResult d (allAmountsOf ?text)"
    by auto
  then have "raw_amounts r = Some (allAmountsOf ?text)
     \<and> (success r \<longrightarrow> raw_amounts r \<noteq> Some [])
     \<and> (r = quoteResult d (extractPremiums rnd ?text) (allAmountsOf ?text)
        \<or> (\<exists>errs. r = validationErrorResult d errs (allAmountsOf ?text))
        \<or> r = noPremiumResult d (allAmountsOf ?text))"
  proof cases
    case quote
    from premium_needs_amounts [OF quote(1)] quote(2) show ?thesis
      by (simp add: quoteResult_def)
  next
    case invalid
    then show ?thesis by (auto simp: validationErrorResult_def)
  next
    case nothing
    then show ?thesis by (simp add: noPremiumResult_def)
  qed
  with res show "fst (scrapeRacvQuote rnd env input) = r
     \<and> raw_amounts r = Some (allAmountsOf (resultText (final env)))
     \<and> (success r \<longrightarrow> raw_amounts r \<noteq> Some [])
     \<and> (r = quoteResult d (extractPremiums rnd (resultText (final env)))
               (allAmountsOf (resultText (final env)))
        \<or> (\<exists>errs. r = validationErrorResult d errs (allAmountsOf (resultText (final env))))
        \<or> r = noPremiumResult d (allAmountsOf (resultText (final env))))"
    by blast
qed

theorem final_page_raw_amounts_witness:
  "snd (reachFinalPage healthy_env example_input) = Next (str ''2011 TOYOTA COROLLA (ASCENT)'')
   \<and> snd (tryBlock id healthy_env example_input) = Return healthy_result
   \<and> success healthy_result
   \<and> raw_amounts (fst (scrapeRacvQuote id healthy_env example_input)) = Some [str ''$1,234.56'']"
  using final_page_raw_amounts
          [of healthy_env example_input "str ''2011 TOYOTA COROLLA (ASCENT)''" id healthy_result]
  by (simp add: healthy_reach healthy_try healthy_result_def)

subsection \<open>Claim C4: the attempts of the vehicle lookup\<close>

text \<open>The numbers of the attempts a list of actions holds, in order.\<close>

fun attemptOf :: "event \<Rightarrow> nat option" where
  "attemptOf (EnterRego k) = Some k"
| "attemptOf e = None"

definition attemptsMade :: "event list \<Rightarrow> nat list" where
  "attemptsMade es = map the (filter (\<lambda>a. a \<noteq> None) (map attemptOf es))"

lemma attemptsMade_append [simp]: "attemptsMade (a @ b) = attemptsMade a @ attemptsMade b"
  by (simp add: attemptsMade_def)

lemma attemptsMade_Nil [simp]: "attemptsMade [] = []"
  by (simp add: attemptsMade_def)

lemma attemptsMade_Cons [simp]:
  "attemptsMade (e # es) = (case attemptOf e of None \<Rightarrow> attemptsMade es | Some k \<Rightarrow> k # attemptsMade es)"
  by (cases "attemptOf e") (simp_all add: attemptsMade_def)

text \<open>A block that starts no attempt.\<close>

definition quiet :: "'a act \<Rightarrow> bool" where
  "quiet m = (attemptsMade (fst m) = [])"

lemma quiet_andThen:
  assumes "quiet m" and "\<And>x. quiet (f x)"
  shows "quiet (andThen m f)"
proof (cases "snd m")
  case (Next x)
  with assms(1) assms(2) [of x] show ?thesis by (simp add: quiet_def fst_andThen)
next
  case (Return r)
  with assms(1) show ?thesis by (simp add: quiet_def fst_andThen)
next
  case (Throw e)
  with assms(1) show ?thesis by (simp add: quiet_def fst_andThen)
qed

lemma quiet_block: "attemptsMade es = [] \<Longrightarrow> quiet (block es fault)"
  by (cases fault) (simp_all add: quiet_def fst_block)

lemma quiet_pure: "quiet ([], x)"
  by (simp add: quiet_def)

lemma quiet_selection: "attemptsMade (selection sel chosen) = []"
  by (simp add: selection_def split: option.splits prod.splits)

lemma quiet_manualSearch: "quiet (manualSearch cv mp attempt)"
proof (cases "manualFault mp")
  case (Some e)
  then show ?thesis by (simp add: manualSearch_def quiet_def)
next
  case None
  show ?thesis
  proof (cases "addressAfterSearch mp")
    case True
    with None show ?thesis
      by (simp add: manualSearch_def quiet_def Let_def quiet_selection)
  next
    case False
    with None show ?thesis
      by (cases "find (\<lambda>h. test False heading_rx (trim h)) (variantHeadings mp)")
         (simp_all add: manualSearch_def quiet_def Let_def quiet_selection)
  qed
qed

lemma quiet_after_poll:
  "quiet (case pollForVehicle pg 0 of
            Rejected e \<Rightarrow> ([], Throw e)
          | Resolved (Found d) \<Rightarrow> ([], Next (Some d))
          | Resolved NotFoundMessage \<Rightarrow>
              (case capturedVehicle pg of
                 Some cv \<Rightarrow> manualSearch cv (manual pg) attempt
               | None \<Rightarrow> ([], Next None))
          | Resolved NoAnswer \<Rightarrow> ([], Next None))"
proof (cases "pollForVehicle pg 0")
  case (Rejected e)
  then show ?thesis by (simp add: quiet_pure)
next
  case (Resolved l)
  show ?thesis
  proof (cases l)
    case (Found d)
    with Resolved show ?thesis by (simp add: quiet_pure)
  next
    case NotFoundMessage
    with Resolved show ?thesis
      by (cases "capturedVehicle pg") (simp_all add: quiet_pure quiet_manualSearch)
  next
    case NoAnswer
    with Resolved show ?thesis by (simp add: quiet_pure)
  qed
qed

lemma quiet_restart: "quiet (restart pg attempt)"
  by (cases "regoLinkVisible pg") (simp_all add: restart_def quiet_block quiet_pure)

text \<open>One round enters the registration at most once, under the number of the round.\<close>

lemma attemptLookup_attempts:
  "attemptsMade (fst (attemptLookup pg attempt)) = [attempt]
   \<or> (attemptsMade (fst (attemptLookup pg attempt)) = []
      \<and> (\<exists>e. snd (attemptLookup pg attempt) = Throw e))"
proof -
  let ?after = "case pollForVehicle pg 0 of
            Rejected e \<Rightarrow> ([], Throw e)
          | Resolved (Found d) \<Rightarrow> ([], Next (Some d))
          | Resolved NotFoundMessage \<Rightarrow>
              (case capturedVehicle pg of
                 Some cv \<Rightarrow> manualSearch cv (manual pg) attempt
               | None \<Rightarrow> ([], Next None))
          | Resolved NoAnswer \<Rightarrow> ([], Next None)"
  have eq: "attemptLookup pg attempt
              = andThen (restart pg attempt)
                  (\<lambda>u. andThen (block [EnterRego attempt] (entryFault pg)) (\<lambda>u. ?after))"
    by (simp add: attemptLookup_def)
  have q1: "attemptsMade (fst (restart pg attempt)) = []"
    using quiet_restart [of pg attempt] by (simp add: quiet_def)
  have q2: "attemptsMade (fst ?after) = []"
    using quiet_after_poll [of pg attempt] by (simp add: quiet_def)
  show ?thesis
  proof (cases "snd (restart pg attempt)")
    case (Next u)
    show ?thesis
    proof (cases "entryFault pg")
      case None
      with Next q1 q2 show ?thesis
        by (simp add: eq fst_andThen snd_andThen fst_block snd_block)
    next
      case (Some e)
      with Next q1 show ?thesis
        by (simp add: eq fst_andThen snd_andThen fst_block snd_block)
    qed
  next
    case (Return r)
    then show ?thesis
      by (cases "1 < attempt"; cases "restartFault pg") (simp_all add: restart_def block_def)
  next
    case (Throw e)
    with q1 show ?thesis by (simp add: eq fst_andThen snd_andThen)
  qed
qed

lemma resolveVehicle_attempts:
  "prefix (attemptsMade (fst (resolveVehicle env attempt))) [attempt ..< 4]"
proof (induction env attempt rule: resolveVehicle.induct)
  case (1 env attempt)
  show ?case
  proof (cases "attempt \<le> 3")
    case False
    then show ?thesis by (simp add: resolveVehicle_done)
  next
    case True
    then have up: "[attempt ..< 4] = attempt # [Suc attempt ..< 4]"
      by (simp add: upt_conv_Cons)
    obtain es ex where a: "attemptLookup (attempts env attempt) attempt = (es, ex)"
      by (cases "attemptLookup (attempts env attempt) attempt")
    from attemptLookup_attempts [of "attempts env attempt" attempt] a
    have one: "attemptsMade es = [attempt] \<or> (attemptsMade es = [] \<and> (\<exists>e. ex = Throw e))"
      by simp
    show ?thesis
    proof (cases ex)
      case (Next d)
      with one have es: "attemptsMade es = [attempt]" by simp
      show ?thesis
      proof (cases d)
        case None
        with Next a True "1.IH" [of es ex d]
        have "prefix (attemptsMade (fst (resolveVehicle env (Suc attempt)))) [Suc attempt ..< 4]"
          by simp
        with None Next a True es up show ?thesis
          by (simp add: resolveVehicle_again)
      next
        case (Some desc)
        with Next a True es up show ?thesis
          by (simp add: resolveVehicle_found)
      qed
    next
      case (Return r)
      with a no_return_attemptLookup [of "attempts env attempt" attempt] show ?thesis
        by (simp add: no_return_def)
    next
      case (Throw e)
      with a True have "resolveVehicle env attempt = (es, Throw e)"
        by (simp add: resolveVehicle_throw)
      with one up show ?thesis by auto
    qed
  qed
qed

lemma quiet_openSession: "quiet (openSession env)"
  unfolding openSession_def
  by (intro quiet_andThen quiet_block) simp_all

lemma quiet_requireVehicle: "quiet (requireVehicle env input d)"
proof (cases "d = []")
  case True
  have "quiet (andThen (block [Screenshot (str ''/tmp/racv-not-found.png'')] (notFoundShotFault env))
                 (\<lambda>u. ([], Return (notFoundResult input))))"
    by (intro quiet_andThen quiet_block quiet_pure) simp
  with True show ?thesis by (simp add: requireVehicle_def)
next
  case False
  then show ?thesis by (simp add: requireVehicle_def quiet_pure)
qed

lemma quiet_fillYourCar: "quiet (fillYourCar env d)"
  by (cases "yourCarFault env"; cases "list_ex (test True address_rx) (errTexts env)")
     (simp_all add: fillYourCar_def quiet_def fst_andThen snd_block fst_block)

lemma quiet_fillAboutYou: "quiet (fillAboutYou env)"
  by (simp add: fillAboutYou_def quiet_block)

lemma quiet_recover: "quiet (recover pg)"
  by (cases "retryVisible pg") (simp_all add: recover_def quiet_block quiet_pure)

lemma quiet_awaitQuote: "quiet (awaitQuote env quoteAttempt)"
proof (induction env quoteAttempt rule: awaitQuote.induct)
  case (1 env quoteAttempt)
  show ?case
  proof (cases "quoteAttempt < 2")
    case False
    then show ?thesis by (simp add: awaitQuote_done quiet_pure)
  next
    case True
    show ?thesis
    proof (cases "quoteAppears (quoteWait env quoteAttempt)")
      case yes: True
      with True show ?thesis by (simp add: awaitQuote_loaded quiet_def)
    next
      case no: False
      have ih: "quiet (awaitQuote env (Suc quoteAttempt))"
        using "1.IH" [OF True refl no] .
      show ?thesis
        unfolding awaitQuote_round [OF True no]
        by (intro quiet_andThen quiet_block quiet_recover ih) simp
    qed
  qed
qed

lemma quiet_extractQuote: "quiet (extractQuote rnd fp d)"
  by (cases "finalFault fp") (simp_all add: quiet_def fst_extractQuote)

lemma tryBlock_attempts:
  "prefix (attemptsMade (fst (tryBlock rnd env input))) [1, 2, 3]"
proof -
  let ?rest = "\<lambda>d. andThen (requireVehicle env input d)
             (\<lambda>vehicleDesc. andThen (fillYourCar env vehicleDesc)
                (\<lambda>u. andThen (fillAboutYou env)
                   (\<lambda>u. andThen (andThen (awaitQuote env 0) (\<lambda>u. ([], Next vehicleDesc)))
                      (extractQuote rnd (final env)))))"
  have shape: "tryBlock rnd env input
                 = andThen (openSession env) (\<lambda>u. andThen (resolveVehicle env 1) ?rest)"
    by (cases "openSession env"; cases "snd (openSession env)";
        cases "resolveVehicle env 1"; cases "snd (resolveVehicle env 1)")
       (auto simp: tryBlock_def reachFinalPage_def andThen_def split: prod.splits exit.splits)
  have rest: "quiet (?rest d)" for d
    by (intro quiet_andThen quiet_requireVehicle quiet_fillYourCar quiet_fillAboutYou
          quiet_awaitQuote quiet_extractQuote quiet_pure)
  have "[1 ..< 4] = [1, 2, 3::nat]" by (simp add: upt_conv_Cons)
  with resolveVehicle_attempts [of env 1]
  have rv: "prefix (attemptsMade (fst (resolveVehicle env 1))) [1, 2, 3]" by simp
  have inner: "prefix (attemptsMade (fst (andThen (resolveVehicle env 1) ?rest))) [1, 2, 3]"
  proof (cases "snd (resolveVehicle env 1)")
    case (Next d)
    with rv rest [of d] show ?thesis by (simp add: fst_andThen quiet_def)
  next
    case (Return r)
    with rv show ?thesis by (simp add: fst_andThen)
  next
    case (Throw e)
    with rv show ?thesis by (simp add: fst_andThen)
  qed
  have os: "attemptsMade (fst (openSession env)) = []"
    using quiet_openSession [of env] by (simp add: quiet_def)
  show ?thesis
  proof (cases "snd (openSession env)")
    case (Next u)
    with os inner show ?thesis by (simp add: shape fst_andThen)
  next
    case (Return r)
    with os show ?thesis by (simp add: shape fst_andThen)
  next
    case (Throw e)
    with os show ?thesis by (simp add: shape fst_andThen)
  qed
qed

lemma scrape_attempts:
  "attemptsMade (snd (scrapeRacvQuote rnd env input))
     = attemptsMade (fst (tryBlock rnd env input))"
proof -
  from scrape_actions [of rnd env input] obtain shot
    where tr: "snd (scrapeRacvQuote rnd env input)
                 = fst (tryBlock rnd env input) @ shot @ cleanup (fst (tryBlock rnd env input))"
      and shot: "set shot \<subseteq> {Screenshot (str ''/tmp/racv-error.png'')}"
    by blast
  have "attemptsMade shot = []"
    using shot by (induction shot) auto
  moreover have "attemptsMade (cleanup es) = []" for es
    by (simp add: cleanup_def)
  ultimately show ?thesis using tr by simp
qed

text \<open>
  The first lookup gets no answer; before the second, the link "search by registration"
  shows; the second lookup finds the car.
\<close>

definition second_try_env :: env where
  "second_try_env =
     healthy_env
       \<lparr>attempts := (\<lambda>attempt. if attempt = 1 then silent_attempt
                                else found_attempt\<lparr>regoLinkVisible := True\<rparr>)\<rparr>"

lemma second_try_poll:
  "pollForVehicle (found_attempt\<lparr>regoLinkVisible := True\<rparr>) 0
     = Resolved (Found (str ''2011 TOYOTA COROLLA (ASCENT)''))"
  by code_simp

lemma second_try_resolve:
  "resolveVehicle second_try_env 1
     = ([EnterRego 1, ClickRegoLink, EnterRego 2], Next (str ''2011 TOYOTA COROLLA (ASCENT)''))"
proof -
  have a1: "attemptLookup (attempts second_try_env 1) 1 = ([EnterRego 1], Next None)"
    by (simp add: second_try_env_def attemptLookup_def restart_def andThen_def block_def
          silent_poll_result)
       (simp add: silent_attempt_def)
  have a2: "attemptLookup (attempts second_try_env 2) 2
              = ([ClickRegoLink, EnterRego 2], Next (Some (str ''2011 TOYOTA COROLLA (ASCENT)'')))"
    by (simp add: second_try_env_def attemptLookup_def restart_def andThen_def block_def
          second_try_poll)
       (simp add: found_attempt_def)
  have "resolveVehicle second_try_env 2
          = ([ClickRegoLink, EnterRego 2], Next (str ''2011 TOYOTA COROLLA (ASCENT)''))"
    using a2 by (rule resolveVehicle_found [rotated]) simp
  moreover have "resolveVehicle second_try_env 1
          = ([EnterRego 1] @ fst (resolveVehicle second_try_env (Suc 1)),
             snd (resolveVehicle second_try_env (Suc 1)))"
    using a1 by (rule resolveVehicle_again [rotated]) simp
  ultimately show ?thesis by (simp add: numeral_2_eq_2)
qed

lemma second_try_scrape:
  "snd (scrapeRacvQuote id second_try_env input)
     = [NewContext, NewPage, Goto, EnterRego 1, ClickRegoLink, EnterRego 2, FillYourCar,
        Screenshot (str ''/tmp/racv-step2-done.png''), FillAboutYou,
        Screenshot (str ''/tmp/racv-step3-filled.png''), SubmitQuote, WaitForQuote,
        Screenshot (str ''/tmp/racv-quote-result.png''), ClosePage, CloseContext]"
proof -
  have "reachFinalPage second_try_env input
          = ([NewContext, NewPage, Goto] @ [EnterRego 1, ClickRegoLink, EnterRego 2]
             @ [FillYourCar, Screenshot (str ''/tmp/racv-step2-done.png'')]
             @ [FillAboutYou, Screenshot (str ''/tmp/racv-step3-filled.png''), SubmitQuote]
             @ [WaitForQuote],
             Next (str ''2011 TOYOTA COROLLA (ASCENT)''))"
  proof (rule reachFinalPage_ok)
    show "openSession second_try_env = ([NewContext, NewPage, Goto], Next ())"
      by (rule openSession_ok) (simp_all add: second_try_env_def healthy_env_def)
    show "resolveVehicle second_try_env 1
            = ([EnterRego 1, ClickRegoLink, EnterRego 2], Next (str ''2011 TOYOTA COROLLA (ASCENT)''))"
      by (rule second_try_resolve)
    show "str ''2011 TOYOTA COROLLA (ASCENT)'' \<noteq> []" by simp
    show "fillYourCar second_try_env (str ''2011 TOYOTA COROLLA (ASCENT)'')
            = ([FillYourCar, Screenshot (str ''/tmp/racv-step2-done.png'')], Next ())"
      by (rule fillYourCar_ok) (simp_all add: second_try_env_def healthy_env_def)
    show "fillAboutYou second_try_env
            = ([FillAboutYou, Screenshot (str ''/tmp/racv-step3-filled.png''), SubmitQuote], Next ())"
      by (rule fillAboutYou_ok) (simp add: second_try_env_def healthy_env_def)
    show "awaitQuote second_try_env 0 = ([WaitForQuote], Next ())"
      by (rule awaitQuote_loaded) (simp_all add: second_try_env_def healthy_env_def loaded_quote_def)
  qed
  then have r: "reachFinalPage second_try_env input
          = ([NewContext, NewPage, Goto, EnterRego 1, ClickRegoLink, EnterRego 2,
              FillYourCar, Screenshot (str ''/tmp/racv-step2-done.png''), FillAboutYou,
              Screenshot (str ''/tmp/racv-step3-filled.png''), SubmitQuote, WaitForQuote],
             Next (str ''2011 TOYOTA COROLLA (ASCENT)''))"
    by simp
  have f: "final second_try_env = final healthy_env"
    by (simp add: second_try_env_def)
  then have ff: "finalFault (final second_try_env) = None" by (simp add: healthy_final)
  from tryBlock_ok [OF r ff, of id] show ?thesis
    unfolding f healthy_extraction by (simp add: scrapeRacvQuote_def cleanup_def)
qed

text \<open>
  Claim C4 as stated fails in its account of a retry: here the second attempt is made
  after a click on the link, and the page is loaded once only, at the start of the call.
\<close>

theorem retry_without_navigation_counterexample:
  "attemptsMade (snd (scrapeRacvQuote id second_try_env example_input)) = [1, 2]
   \<and> filter (\<lambda>e. e = Goto) (snd (scrapeRacvQuote id second_try_env example_input)) = [Goto]
   \<and> take 6 (snd (scrapeRacvQuote id second_try_env example_input))
       = [NewContext, NewPage, Goto, EnterRego 1, ClickRegoLink, EnterRego 2]"
  by (simp add: second_try_scrape)

text \<open>No lookup is answered with a car; the page says so each time.\<close>

definition not_found_attempt :: attempt_page where
  "not_found_attempt =
     \<lparr>regoLinkVisible = False, restartFault = None, entryFault = None,
      polls = (\<lambda>wait. Resolved not_found_poll), lookups = [], manual = no_manual\<rparr>"

definition unknown_plate_env :: env where
  "unknown_plate_env = healthy_env\<lparr>attempts := (\<lambda>attempt. not_found_attempt)\<rparr>"

lemma not_found_poll_result: "pollForVehicle not_found_attempt 0 = Resolved NotFoundMessage"
  by code_simp

lemma not_found_attempt_first:
  "attemptLookup not_found_attempt 1 = ([EnterRego 1], Next None)"
  by (simp add: attemptLookup_def restart_def andThen_def block_def not_found_poll_result
        capturedVehicle_def)
     (simp add: not_found_attempt_def)

lemma not_found_attempt_later:
  "1 < attempt \<Longrightarrow> attemptLookup not_found_attempt attempt = ([Goto, EnterRego attempt], Next None)"
  by (simp add: attemptLookup_def restart_def andThen_def block_def not_found_poll_result
        capturedVehicle_def)
     (simp add: not_found_attempt_def)

lemma unknown_plate_resolve:
  "resolveVehicle unknown_plate_env 1
     = ([EnterRego 1, Goto, EnterRego 2, Goto, EnterRego 3], Next [])"
proof -
  have at: "attempts unknown_plate_env k = not_found_attempt" for k
    by (simp add: unknown_plate_env_def)
  have r4: "resolveVehicle unknown_plate_env 4 = ([], Next [])"
    by (rule resolveVehicle_done) simp
  have "resolveVehicle unknown_plate_env 3
          = ([Goto, EnterRego 3] @ fst (resolveVehicle unknown_plate_env (Suc 3)),
             snd (resolveVehicle unknown_plate_env (Suc 3)))"
    by (rule resolveVehicle_again) (simp_all add: at not_found_attempt_later)
  with r4 have r3: "resolveVehicle unknown_plate_env 3 = ([Goto, EnterRego 3], Next [])"
    by (simp add: eval_nat_numeral)
  have "resolveVehicle unknown_plate_env 2
          = ([Goto, EnterRego 2] @ fst (resolveVehicle unknown_plate_env (Suc 2)),
             snd (resolveVehicle unknown_plate_env (Suc 2)))"
    by (rule resolveVehicle_again) (simp_all add: at not_found_attempt_later)
  with r3 have r2: "resolveVehicle unknown_plate_env 2
                      = ([Goto, EnterRego 2, Goto, EnterRego 3], Next [])"
    by (simp add: eval_nat_numeral)
  have "attemptLookup (attempts unknown_plate_env 1) 1 = ([EnterRego 1], Next None)"
    using not_found_attempt_first by (simp add: at)
  then have "resolveVehicle unknown_plate_env 1
          = ([EnterRego 1] @ fst (resolveVehicle unknown_plate_env (Suc 1)),
             snd (resolveVehicle unknown_plate_env (Suc 1)))"
    by (rule resolveVehicle_again [rotated]) simp
  with r2 show ?thesis by (simp add: eval_nat_numeral)
qed

lemma unknown_plate_open: "snd (openSession unknown_plate_env) = Next ()"
  using openSession_ok [of unknown_plate_env]
  by (simp add: unknown_plate_env_def healthy_env_def)

text \<open>
  Claim C4, amended. The registration is entered at most three times in a call, in
  rounds numbered 1, 2, 3. Before a round after the first the form is brought back to
  the registration entry: by a click on the link "search by registration" when the link
  shows, by loading the page again from the start only otherwise. If the loop ends with
  no vehicle description and the screenshot that follows is taken, the call returns
  \<open>success = false\<close>, \<open>step_reached = "rego_lookup"\<close>, the not-found error text with
  the registration, and the path of that screenshot.
\<close>

theorem vehicle_lookup_bounded:
  "prefix (attemptsMade (snd (scrapeRacvQuote rnd env input))) [1, 2, 3]
   \<and> (1 < attempt \<and> restartFault pg = None
      \<longrightarrow> (\<exists>es. fst (attemptLookup pg attempt)
                  = (if regoLinkVisible pg then ClickRegoLink else Goto) # es))
   \<and> (snd (openSession env) = Next () \<and> snd (resolveVehicle env 1) = Next []
        \<and> notFoundShotFault env = None
      \<longrightarrow> fst (scrapeRacvQuote rnd env input) = notFoundResult input
        \<and> Screenshot (str ''/tmp/racv-not-found.png'') \<in> set (snd (scrapeRacvQuote rnd env input))
        \<and> \<not> success (notFoundResult input)
        \<and> step_reached (notFoundResult input) = Some (str ''rego_lookup'')
        \<and> screenshot_path (notFoundResult input) = Some (str ''/tmp/racv-not-found.png'')
        \<and> error (notFoundResult input)
            = Some (str ''Could not find a vehicle with registration '' @ rego input
                    @ str '' after multiple attempts. RACV's lookup service may be temporarily unavailable.''))"
proof (intro conjI impI)
  show "prefix (attemptsMade (snd (scrapeRacvQuote rnd env input))) [1, 2, 3]"
    unfolding scrape_attempts by (rule tryBlock_attempts)
next
  assume "1 < attempt \<and> restartFault pg = None"
  then show "\<exists>es. fst (attemptLookup pg attempt)
                  = (if regoLinkVisible pg then ClickRegoLink else Goto) # es"
    by (simp add: attemptLookup_def restart_def fst_andThen snd_block fst_block block_def)
next
  assume h: "snd (openSession env) = Next () \<and> snd (resolveVehicle env 1) = Next []
               \<and> notFoundShotFault env = None"
  then have s: "snd (tryBlock rnd env input) = Return (notFoundResult input)"
    by (simp add: tryBlock_def reachFinalPage_def snd_andThen requireVehicle_def snd_block)
  from h have "fst (tryBlock rnd env input)
                 = fst (openSession env) @ fst (resolveVehicle env 1)
                   @ [Screenshot (str ''/tmp/racv-not-found.png'')]"
    by (simp add: tryBlock_def reachFinalPage_def fst_andThen snd_andThen requireVehicle_def
          snd_block fst_block)
  with s show "fst (scrapeRacvQuote rnd env input) = notFoundResult input"
    and "Screenshot (str ''/tmp/racv-not-found.png'') \<in> set (snd (scrapeRacvQuote rnd env input))"
    by (simp_all add: scrape_returned)
qed (simp_all add: notFoundResult_def)

theorem vehicle_lookup_bounded_witness:
  "attemptsMade (snd (scrapeRacvQuote id unknown_plate_env example_input)) = [1, 2, 3]
   \<and> fst (attemptLookup not_found_attempt 2) = [Goto, EnterRego 2]
   \<and> snd (resolveVehicle unknown_plate_env 1) = Next []
   \<and> fst (scrapeRacvQuote id unknown_plate_env example_input) = notFoundResult example_input
   \<and> step_reached (fst (scrapeRacvQuote id unknown_plate_env example_input)) = Some (str ''rego_lookup'')"
proof -
  have nf: "notFoundShotFault unknown_plate_env = None" "restartFault not_found_attempt = None"
    by (simp_all add: unknown_plate_env_def healthy_env_def not_found_attempt_def)
  have rv: "snd (resolveVehicle unknown_plate_env 1) = Next []"
    using unknown_plate_resolve by simp
  from vehicle_lookup_bounded [of id unknown_plate_env example_input 2 not_found_attempt]
    nf rv unknown_plate_open
  have res: "fst (scrapeRacvQuote id unknown_plate_env example_input) = notFoundResult example_input"
    and step: "step_reached (notFoundResult example_input) = Some (str ''rego_lookup'')"
    by simp_all
  have "fst (tryBlock id unknown_plate_env example_input)
          = [NewContext, NewPage, Goto, EnterRego 1, Goto, EnterRego 2, Goto, EnterRego 3,
             Screenshot (str ''/tmp/racv-not-found.png'')]"
  proof -
    have os: "openSession unknown_plate_env = ([NewContext, NewPage, Goto], Next ())"
      by (rule openSession_ok) (simp_all add: unknown_plate_env_def healthy_env_def)
    from os unknown_plate_resolve nf(1) show ?thesis
      by (simp add: tryBlock_def reachFinalPage_def andThen_def requireVehicle_def block_def)
  qed
  then have "attemptsMade (snd (scrapeRacvQuote id unknown_plate_env example_input)) = [1, 2, 3]"
    by (simp add: scrape_attempts)
  with res step rv show ?thesis by (simp add: not_found_attempt_later)
qed

subsection \<open>Claim C5: the manual search with the captured record\<close>



























































end
